theory Spec2Isabelle
  imports Main "HOL-Library.Word" "HOL-Library.Monad_Syntax"
begin

unbundle bit_operations_syntax

section \<open>The AMDGPU disassembler (AMDGPUDisassembler.cpp): data model\<close>

text \<open>
  The embedding follows \<^verbatim>\<open>llvm/lib/Target/AMDGPU/Disassembler/AMDGPUDisassembler.cpp\<close>.
  Unsigned C++ integers are words of their width, \<^verbatim>\<open>int\<close> indices that may be
  \<^verbatim>\<open>-1\<close> are \<open>int\<close>. A failed \<^verbatim>\<open>assert\<close>, an out-of-range operand access and
  \<^verbatim>\<open>llvm_unreachable\<close> are undefined behaviour of the C++; every function that can
  reach one returns an \<open>option\<close>, and \<open>None\<close> stands for that outcome.
\<close>

type_synonym u8 = "8 word"
type_synonym u16 = "16 word"
type_synonym u32 = "32 word"
type_synonym u64 = "64 word"

text \<open>\<^verbatim>\<open>MCDisassembler::DecodeStatus\<close>: \<^verbatim>\<open>Fail = 0\<close>, \<^verbatim>\<open>SoftFail = 1\<close>,
  \<^verbatim>\<open>Success = 3\<close>. Used as a condition (\<^verbatim>\<open>if (Res)\<close>) a status is true unless it is
  \<^verbatim>\<open>Fail\<close>.\<close>

datatype DecodeStatus = Fail | SoftFail | Success

definition truthy :: "DecodeStatus \<Rightarrow> bool" where
  "truthy Res = (Res \<noteq> Fail)"

text \<open>\<^verbatim>\<open>MCOperand\<close>: a default-constructed operand is invalid; registers are numbers,
  immediates are \<^verbatim>\<open>int64_t\<close>.\<close>

datatype MCOperand = kInvalid | kRegister nat | kImmediate u64 | kExpr string

definition createReg :: "nat \<Rightarrow> MCOperand" where
  "createReg r = kRegister r"

definition createImm :: "u64 \<Rightarrow> MCOperand" where
  "createImm v = kImmediate v"

definition isValid :: "MCOperand \<Rightarrow> bool" where
  "isValid Op = (Op \<noteq> kInvalid)"

definition isReg :: "MCOperand \<Rightarrow> bool" where
  "isReg Op = (case Op of kRegister r \<Rightarrow> True | _ \<Rightarrow> False)"

definition isImm :: "MCOperand \<Rightarrow> bool" where
  "isImm Op = (case Op of kImmediate v \<Rightarrow> True | _ \<Rightarrow> False)"

text \<open>\<^verbatim>\<open>getImm\<close> and \<^verbatim>\<open>getReg\<close> assert the operand's kind.\<close>

definition getImm :: "MCOperand \<Rightarrow> u64 option" where
  "getImm Op = (case Op of kImmediate v \<Rightarrow> Some v | _ \<Rightarrow> None)"

definition getReg :: "MCOperand \<Rightarrow> nat option" where
  "getReg Op = (case Op of kRegister r \<Rightarrow> Some r | _ \<Rightarrow> None)"

record MCInst =
  Opcode :: nat
  Operands :: "MCOperand list"

text \<open>\<^verbatim>\<open>MCInst()\<close>: opcode 0 and no operands.\<close>

definition MCInst_init :: MCInst where
  "MCInst_init = \<lparr>Opcode = 0, Operands = []\<rparr>"

definition getNumOperands :: "MCInst \<Rightarrow> nat" where
  "getNumOperands Inst = length (Operands Inst)"

definition getOperand :: "MCInst \<Rightarrow> int \<Rightarrow> MCOperand option" where
  "getOperand Inst i =
     (if 0 \<le> i \<and> nat i < length (Operands Inst) then Some (Operands Inst ! nat i) else None)"

text \<open>\<^verbatim>\<open>MI.insert(MI.begin() + i, Op)\<close>: defined for positions up to the end.\<close>

definition insertOperand :: "MCInst \<Rightarrow> int \<Rightarrow> MCOperand \<Rightarrow> MCInst option" where
  "insertOperand Inst i Op =
     (if 0 \<le> i \<and> nat i \<le> length (Operands Inst)
      then Some (Inst\<lparr>Operands := take (nat i) (Operands Inst) @ Op # drop (nat i) (Operands Inst)\<rparr>)
      else None)"

definition setOperand :: "MCInst \<Rightarrow> int \<Rightarrow> MCOperand \<Rightarrow> MCInst option" where
  "setOperand Inst i Op =
     (if 0 \<le> i \<and> nat i < length (Operands Inst)
      then Some (Inst\<lparr>Operands := (Operands Inst)[nat i := Op]\<rparr>)
      else None)"

text \<open>\<^verbatim>\<open>addOperand\<close> (lines 56-62): the operand is appended even when it is invalid.\<close>

definition addOperand :: "MCInst \<Rightarrow> MCOperand \<Rightarrow> DecodeStatus \<times> MCInst" where
  "addOperand Inst Opnd =
     (if isValid Opnd then Success else Fail, Inst\<lparr>Operands := Operands Inst @ [Opnd]\<rparr>)"

subsection \<open>The subtarget and the constants of SIDefines.h\<close>

datatype Feature =
    FeatureGCN3Encoding | FeatureVolcanicIslands | FeatureGFX9 | FeatureGFX10 | FeatureGFX11
  | FeatureGFX10_BEncoding | FeatureUnpackedD16VMem | FeatureFmaMixInsts
  | FeatureGFX90AInsts | FeatureGFX940Insts | FeatureGFX11Insts
  | FeatureNSAEncoding | FeaturePartialNSAEncoding
  | FeatureArchitectedFlatScratch | FeatureWavefrontSize64

text \<open>The subtarget \<^verbatim>\<open>STI\<close> is read only. Its feature bits and the queries of
  \<^verbatim>\<open>Utils/AMDGPUBaseInfo\<close> on it are not part of the sources; they are parameters.\<close>

record MCSubtargetInfo =
  hasFeature :: "Feature \<Rightarrow> bool"
  AMDGPU_isGFX9 :: bool
  AMDGPU_isGFX9Plus :: bool
  AMDGPU_isGFX10 :: bool
  AMDGPU_isGFX10Plus :: bool
  AMDGPU_isGFX11Plus :: bool
  AMDGPU_isGFX12Plus :: bool
  AMDGPU_hasGDS :: bool
  AMDGPU_hasG16 :: bool
  AMDGPU_hasPackedD16 :: bool
  AMDGPU_hasVOPD :: bool
  AMDGPU_hasKernargPreload :: bool
  getVGPREncodingGranule :: "bool option \<Rightarrow> u32"
  getSGPREncodingGranule :: u32
  getAmdhsaCodeObjectVersion :: nat

text \<open>\<^verbatim>\<open>AMDGPU::EncValues\<close> of SIDefines.h (an \<^verbatim>\<open>enum : unsigned\<close>), not part of the
  sources: parameters.\<close>

record EncValues =
  SGPR_MIN :: u32
  SGPR_MAX_SI :: u32
  SGPR_MAX_GFX10 :: u32
  TTMP_VI_MIN :: u32
  TTMP_VI_MAX :: u32
  TTMP_GFX9PLUS_MIN :: u32
  TTMP_GFX9PLUS_MAX :: u32
  INLINE_INTEGER_C_MIN :: u32
  INLINE_INTEGER_C_POSITIVE_MAX :: u32
  INLINE_INTEGER_C_MAX :: u32
  INLINE_FLOATING_C_MIN :: u32
  INLINE_FLOATING_C_MAX :: u32
  LITERAL_CONST :: u32
  VGPR_MIN :: u32
  VGPR_MAX :: u32

text \<open>The values LLVM's SIDefines.h gives them, used to run the decoder on concrete
  inputs.\<close>

definition EncValues_llvm :: EncValues where
  "EncValues_llvm = \<lparr>SGPR_MIN = 0, SGPR_MAX_SI = 101, SGPR_MAX_GFX10 = 105,
     TTMP_VI_MIN = 112, TTMP_VI_MAX = 123, TTMP_GFX9PLUS_MIN = 108, TTMP_GFX9PLUS_MAX = 123,
     INLINE_INTEGER_C_MIN = 128, INLINE_INTEGER_C_POSITIVE_MAX = 192, INLINE_INTEGER_C_MAX = 208,
     INLINE_FLOATING_C_MIN = 240, INLINE_FLOATING_C_MAX = 248, LITERAL_CONST = 255,
     VGPR_MIN = 256, VGPR_MAX = 511\<rparr>"

subsection \<open>The mutable members of the disassembler\<close>

text \<open>\<^verbatim>\<open>Bytes\<close>, \<^verbatim>\<open>HasLiteral\<close>, \<^verbatim>\<open>Literal\<close>, \<^verbatim>\<open>Literal64\<close> and
  \<^verbatim>\<open>EnableWavefrontSize32\<close> are \<^verbatim>\<open>mutable\<close> members that the \<^verbatim>\<open>const\<close> methods
  update; the model passes them explicitly.\<close>

record Disasm =
  Bytes :: "u8 list"
  HasLiteral :: bool
  Literal :: u32
  Literal64 :: u64
  EnableWavefrontSize32 :: "bool option"

section \<open>Operand decoding\<close>

text \<open>\<^verbatim>\<open>errOperand\<close> (lines 1216-1224) writes a comment and returns \<^verbatim>\<open>MCOperand()\<close>.\<close>

definition errOperand :: MCOperand where
  "errOperand = kInvalid"

text \<open>\<^verbatim>\<open>decodeMandatoryLiteralConstant\<close> (lines 1298-1310).\<close>

definition decodeMandatoryLiteralConstant ::
  "MCSubtargetInfo \<Rightarrow> u32 \<Rightarrow> Disasm \<Rightarrow> (MCOperand \<times> Disasm) option" where
  "decodeMandatoryLiteralConstant STI Val D =
     (if HasLiteral D \<and> \<not> AMDGPU_hasVOPD STI then None
      else if HasLiteral D \<and> Literal D \<noteq> Val then Some (errOperand, D)
      else (let D' = D\<lparr>HasLiteral := True, Literal := Val\<rparr>
            in Some (createImm (ucast (Literal D')), D')))"

text \<open>\<^verbatim>\<open>decodeOperand_KImmFP\<close> (lines 337-342), the operand decoder the tables call
  for a deferred literal.\<close>

definition decodeOperand_KImmFP ::
  "MCSubtargetInfo \<Rightarrow> MCInst \<Rightarrow> u32 \<Rightarrow> Disasm \<Rightarrow> (DecodeStatus \<times> MCInst \<times> Disasm) option" where
  "decodeOperand_KImmFP STI Inst Imm D =
     do { (Opnd, D') \<leftarrow> decodeMandatoryLiteralConstant STI Imm D;
          Some (fst (addOperand Inst Opnd), snd (addOperand Inst Opnd), D') }"

text \<open>\<^verbatim>\<open>decodeIntImmed\<close> (lines 1329-1337). The subtractions are in \<^verbatim>\<open>int64_t\<close>:
  \<^verbatim>\<open>Imm\<close> is cast, and the unsigned enumerator is converted to it.\<close>

definition decodeIntImmed :: "EncValues \<Rightarrow> u32 \<Rightarrow> MCOperand option" where
  "decodeIntImmed EV Imm =
     (if INLINE_INTEGER_C_MIN EV \<le> Imm \<and> Imm \<le> INLINE_INTEGER_C_MAX EV
      then Some (createImm
        (if Imm \<le> INLINE_INTEGER_C_POSITIVE_MAX EV
         then (ucast Imm :: u64) - ucast (INLINE_INTEGER_C_MIN EV)
         else ucast (INLINE_INTEGER_C_POSITIVE_MAX EV) - ucast Imm))
      else None)"

section \<open>The kernel descriptor decoder\<close>

subsection \<open>Layout of the record\<close>

text \<open>
  The offsets of the fields and the bit fields of the words are declared in
  \<^verbatim>\<open>llvm/Support/AMDHSAKernelDescriptor.h\<close>, which is not part of the sources: they are
  parameters. A bit field \<^verbatim>\<open>NAME\<close> is the pair of its mask \<^verbatim>\<open>NAME\<close> and its shift
  \<^verbatim>\<open>NAME_SHIFT\<close>; the constructors below carry the names the decoder uses.
\<close>

datatype KdOffset =
    GROUP_SEGMENT_FIXED_SIZE_OFFSET | PRIVATE_SEGMENT_FIXED_SIZE_OFFSET | KERNARG_SIZE_OFFSET
  | RESERVED0_OFFSET | KERNEL_CODE_ENTRY_BYTE_OFFSET_OFFSET | RESERVED1_OFFSET
  | COMPUTE_PGM_RSRC3_OFFSET | COMPUTE_PGM_RSRC1_OFFSET | COMPUTE_PGM_RSRC2_OFFSET
  | KERNEL_CODE_PROPERTIES_OFFSET | KERNARG_PRELOAD_OFFSET | RESERVED3_OFFSET

datatype Rsrc1Field =
    COMPUTE_PGM_RSRC1_GRANULATED_WORKITEM_VGPR_COUNT
  | COMPUTE_PGM_RSRC1_GRANULATED_WAVEFRONT_SGPR_COUNT
  | COMPUTE_PGM_RSRC1_PRIORITY
  | COMPUTE_PGM_RSRC1_FLOAT_ROUND_MODE_32
  | COMPUTE_PGM_RSRC1_FLOAT_ROUND_MODE_16_64
  | COMPUTE_PGM_RSRC1_FLOAT_DENORM_MODE_32
  | COMPUTE_PGM_RSRC1_FLOAT_DENORM_MODE_16_64
  | COMPUTE_PGM_RSRC1_PRIV
  | COMPUTE_PGM_RSRC1_GFX6_GFX11_ENABLE_DX10_CLAMP
  | COMPUTE_PGM_RSRC1_DEBUG_MODE
  | COMPUTE_PGM_RSRC1_GFX6_GFX11_ENABLE_IEEE_MODE
  | COMPUTE_PGM_RSRC1_BULKY
  | COMPUTE_PGM_RSRC1_CDBG_USER
  | COMPUTE_PGM_RSRC1_GFX9_PLUS_FP16_OVFL
  | COMPUTE_PGM_RSRC1_GFX6_GFX8_RESERVED0
  | COMPUTE_PGM_RSRC1_RESERVED1
  | COMPUTE_PGM_RSRC1_GFX6_GFX9_RESERVED2
  | COMPUTE_PGM_RSRC1_GFX10_PLUS_WGP_MODE
  | COMPUTE_PGM_RSRC1_GFX10_PLUS_MEM_ORDERED
  | COMPUTE_PGM_RSRC1_GFX10_PLUS_FWD_PROGRESS
  | COMPUTE_PGM_RSRC1_GFX12_PLUS_ENABLE_WG_RR_EN

datatype Rsrc2Field =
    COMPUTE_PGM_RSRC2_ENABLE_PRIVATE_SEGMENT
  | COMPUTE_PGM_RSRC2_ENABLE_SGPR_WORKGROUP_ID_X
  | COMPUTE_PGM_RSRC2_ENABLE_SGPR_WORKGROUP_ID_Y
  | COMPUTE_PGM_RSRC2_ENABLE_SGPR_WORKGROUP_ID_Z
  | COMPUTE_PGM_RSRC2_ENABLE_SGPR_WORKGROUP_INFO
  | COMPUTE_PGM_RSRC2_ENABLE_VGPR_WORKITEM_ID
  | COMPUTE_PGM_RSRC2_ENABLE_EXCEPTION_ADDRESS_WATCH
  | COMPUTE_PGM_RSRC2_ENABLE_EXCEPTION_MEMORY
  | COMPUTE_PGM_RSRC2_GRANULATED_LDS_SIZE
  | COMPUTE_PGM_RSRC2_ENABLE_EXCEPTION_IEEE_754_FP_INVALID_OPERATION
  | COMPUTE_PGM_RSRC2_ENABLE_EXCEPTION_FP_DENORMAL_SOURCE
  | COMPUTE_PGM_RSRC2_ENABLE_EXCEPTION_IEEE_754_FP_DIVISION_BY_ZERO
  | COMPUTE_PGM_RSRC2_ENABLE_EXCEPTION_IEEE_754_FP_OVERFLOW
  | COMPUTE_PGM_RSRC2_ENABLE_EXCEPTION_IEEE_754_FP_UNDERFLOW
  | COMPUTE_PGM_RSRC2_ENABLE_EXCEPTION_IEEE_754_FP_INEXACT
  | COMPUTE_PGM_RSRC2_ENABLE_EXCEPTION_INT_DIVIDE_BY_ZERO
  | COMPUTE_PGM_RSRC2_RESERVED0

datatype Rsrc3Field =
    COMPUTE_PGM_RSRC3_GFX90A_ACCUM_OFFSET
  | COMPUTE_PGM_RSRC3_GFX90A_RESERVED0
  | COMPUTE_PGM_RSRC3_GFX90A_TG_SPLIT
  | COMPUTE_PGM_RSRC3_GFX90A_RESERVED1
  | COMPUTE_PGM_RSRC3_GFX10_GFX11_SHARED_VGPR_COUNT
  | COMPUTE_PGM_RSRC3_GFX12_PLUS_RESERVED0
  | COMPUTE_PGM_RSRC3_GFX11_INST_PREF_SIZE
  | COMPUTE_PGM_RSRC3_GFX11_TRAP_ON_START
  | COMPUTE_PGM_RSRC3_GFX11_TRAP_ON_END
  | COMPUTE_PGM_RSRC3_GFX12_PLUS_INST_PREF_SIZE
  | COMPUTE_PGM_RSRC3_GFX10_RESERVED1
  | COMPUTE_PGM_RSRC3_GFX10_PLUS_RESERVED2
  | COMPUTE_PGM_RSRC3_GFX12_PLUS_GLG_EN
  | COMPUTE_PGM_RSRC3_GFX10_GFX11_RESERVED3
  | COMPUTE_PGM_RSRC3_GFX10_PLUS_RESERVED4
  | COMPUTE_PGM_RSRC3_GFX11_PLUS_IMAGE_OP
  | COMPUTE_PGM_RSRC3_GFX10_RESERVED5

datatype KcpField =
    KERNEL_CODE_PROPERTY_ENABLE_SGPR_PRIVATE_SEGMENT_BUFFER
  | KERNEL_CODE_PROPERTY_ENABLE_SGPR_DISPATCH_PTR
  | KERNEL_CODE_PROPERTY_ENABLE_SGPR_QUEUE_PTR
  | KERNEL_CODE_PROPERTY_ENABLE_SGPR_KERNARG_SEGMENT_PTR
  | KERNEL_CODE_PROPERTY_ENABLE_SGPR_DISPATCH_ID
  | KERNEL_CODE_PROPERTY_ENABLE_SGPR_FLAT_SCRATCH_INIT
  | KERNEL_CODE_PROPERTY_ENABLE_SGPR_PRIVATE_SEGMENT_SIZE
  | KERNEL_CODE_PROPERTY_RESERVED0
  | KERNEL_CODE_PROPERTY_ENABLE_WAVEFRONT_SIZE32
  | KERNEL_CODE_PROPERTY_USES_DYNAMIC_STACK
  | KERNEL_CODE_PROPERTY_RESERVED1

datatype PreloadField = KERNARG_PRELOAD_SPEC_LENGTH | KERNARG_PRELOAD_SPEC_OFFSET

type_synonym bits = "u32 \<times> nat"

record amdhsa =
  OFFSET :: "KdOffset \<Rightarrow> nat"
  RSRC1 :: "Rsrc1Field \<Rightarrow> bits"
  RSRC2 :: "Rsrc2Field \<Rightarrow> bits"
  RSRC3 :: "Rsrc3Field \<Rightarrow> bits"
  KCP :: "KcpField \<Rightarrow> bits"
  PRELOAD :: "PreloadField \<Rightarrow> bits"
  AMDHSA_COV5 :: nat

text \<open>\<^verbatim>\<open>SRC & MSK\<close> used as a condition, and
  \<^verbatim>\<open>AMDHSA_BITS_GET(SRC, MSK) = ((SRC & MSK) >> MSK_SHIFT)\<close>.\<close>

definition bits_set :: "u32 \<Rightarrow> bits \<Rightarrow> bool" where
  "bits_set SRC MSK = (SRC AND fst MSK \<noteq> 0)"

definition AMDHSA_BITS_GET :: "u32 \<Rightarrow> bits \<Rightarrow> u32" where
  "AMDHSA_BITS_GET SRC MSK = drop_bit (snd MSK) (SRC AND fst MSK)"

subsection \<open>Subtarget queries of the disassembler (lines 1775-1811)\<close>

definition isVI :: "MCSubtargetInfo \<Rightarrow> bool" where
  "isVI STI = hasFeature STI FeatureVolcanicIslands"

definition isGFX9 :: "MCSubtargetInfo \<Rightarrow> bool" where
  "isGFX9 STI = AMDGPU_isGFX9 STI"

definition isGFX90A :: "MCSubtargetInfo \<Rightarrow> bool" where
  "isGFX90A STI = hasFeature STI FeatureGFX90AInsts"

definition isGFX9Plus :: "MCSubtargetInfo \<Rightarrow> bool" where
  "isGFX9Plus STI = AMDGPU_isGFX9Plus STI"

definition isGFX10 :: "MCSubtargetInfo \<Rightarrow> bool" where
  "isGFX10 STI = AMDGPU_isGFX10 STI"

definition isGFX10Plus :: "MCSubtargetInfo \<Rightarrow> bool" where
  "isGFX10Plus STI = AMDGPU_isGFX10Plus STI"

definition isGFX11 :: "MCSubtargetInfo \<Rightarrow> bool" where
  "isGFX11 STI = hasFeature STI FeatureGFX11"

definition isGFX11Plus :: "MCSubtargetInfo \<Rightarrow> bool" where
  "isGFX11Plus STI = AMDGPU_isGFX11Plus STI"

definition isGFX12Plus :: "MCSubtargetInfo \<Rightarrow> bool" where
  "isGFX12Plus STI = AMDGPU_isGFX12Plus STI"

definition hasArchitectedFlatScratch :: "MCSubtargetInfo \<Rightarrow> bool" where
  "hasArchitectedFlatScratch STI = hasFeature STI FeatureArchitectedFlatScratch"

definition hasKernargPreload :: "MCSubtargetInfo \<Rightarrow> bool" where
  "hasKernargPreload STI = AMDGPU_hasKernargPreload STI"

subsection \<open>The directive stream\<close>

text \<open>
  \<^verbatim>\<open>KdStream\<close> is an append-only text stream. Each function below returns the lines it
  appends; a line is kept as its directive and the number printed after it.
  \<open>KdDirective d n\<close> is the line \<^verbatim>\<open>Indent << d << " " << n\<close>, \<open>KdComment c d n\<close> the
  pseudo directive in a comment that starts with the comment string \<open>c\<close>.
\<close>

datatype KdLine = KdKernel string | KdDirective string nat | KdComment string string nat | KdEnd

definition PRINT_DIRECTIVE :: "string \<Rightarrow> bits \<Rightarrow> u32 \<Rightarrow> KdLine" where
  "PRINT_DIRECTIVE DIRECTIVE MSK FourByteBuffer =
     KdDirective DIRECTIVE (unat (AMDHSA_BITS_GET FourByteBuffer MSK))"

definition PRINT_PSEUDO_DIRECTIVE_COMMENT :: "string \<Rightarrow> string \<Rightarrow> bits \<Rightarrow> u32 \<Rightarrow> KdLine" where
  "PRINT_PSEUDO_DIRECTIVE_COMMENT CommentString DIRECTIVE MSK FourByteBuffer =
     KdComment CommentString DIRECTIVE (unat (AMDHSA_BITS_GET FourByteBuffer MSK))"

subsection \<open>\<^verbatim>\<open>decodeCOMPUTE_PGM_RSRC1\<close> (lines 1828-1937)\<close>

definition decodeCOMPUTE_PGM_RSRC1 ::
  "MCSubtargetInfo \<Rightarrow> amdhsa \<Rightarrow> Disasm \<Rightarrow> u32 \<Rightarrow> DecodeStatus \<times> KdLine list" where
  "decodeCOMPUTE_PGM_RSRC1 STI L D FourByteBuffer =
    (let GranulatedWorkitemVGPRCount =
           AMDHSA_BITS_GET FourByteBuffer (RSRC1 L COMPUTE_PGM_RSRC1_GRANULATED_WORKITEM_VGPR_COUNT);
         NextFreeVGPR = (GranulatedWorkitemVGPRCount + 1) *
                        getVGPREncodingGranule STI (EnableWavefrontSize32 D);
         Kd1 = [KdDirective ''.amdhsa_next_free_vgpr'' (unat NextFreeVGPR)];
         GranulatedWavefrontSGPRCount =
           AMDHSA_BITS_GET FourByteBuffer (RSRC1 L COMPUTE_PGM_RSRC1_GRANULATED_WAVEFRONT_SGPR_COUNT)
     in if isGFX10Plus STI \<and> GranulatedWavefrontSGPRCount \<noteq> 0 then (Fail, Kd1)
     else
     let NextFreeSGPR = (GranulatedWavefrontSGPRCount + 1) * getSGPREncodingGranule STI;
         Kd2 = Kd1 @ [KdDirective ''.amdhsa_reserve_vcc'' 0]
               @ (if \<not> hasArchitectedFlatScratch STI
                  then [KdDirective ''.amdhsa_reserve_flat_scratch'' 0] else [])
               @ [KdDirective ''.amdhsa_reserve_xnack_mask'' 0,
                  KdDirective ''.amdhsa_next_free_sgpr'' (unat NextFreeSGPR)]
     in if bits_set FourByteBuffer (RSRC1 L COMPUTE_PGM_RSRC1_PRIORITY) then (Fail, Kd2)
     else
     let Kd3 = Kd2 @
          [PRINT_DIRECTIVE ''.amdhsa_float_round_mode_32''
             (RSRC1 L COMPUTE_PGM_RSRC1_FLOAT_ROUND_MODE_32) FourByteBuffer,
           PRINT_DIRECTIVE ''.amdhsa_float_round_mode_16_64''
             (RSRC1 L COMPUTE_PGM_RSRC1_FLOAT_ROUND_MODE_16_64) FourByteBuffer,
           PRINT_DIRECTIVE ''.amdhsa_float_denorm_mode_32''
             (RSRC1 L COMPUTE_PGM_RSRC1_FLOAT_DENORM_MODE_32) FourByteBuffer,
           PRINT_DIRECTIVE ''.amdhsa_float_denorm_mode_16_64''
             (RSRC1 L COMPUTE_PGM_RSRC1_FLOAT_DENORM_MODE_16_64) FourByteBuffer]
     in if bits_set FourByteBuffer (RSRC1 L COMPUTE_PGM_RSRC1_PRIV) then (Fail, Kd3)
     else
     let Kd4 = Kd3 @ (if \<not> isGFX12Plus STI
            then [PRINT_DIRECTIVE ''.amdhsa_dx10_clamp''
                    (RSRC1 L COMPUTE_PGM_RSRC1_GFX6_GFX11_ENABLE_DX10_CLAMP) FourByteBuffer]
            else [])
     in if bits_set FourByteBuffer (RSRC1 L COMPUTE_PGM_RSRC1_DEBUG_MODE) then (Fail, Kd4)
     else
     let Kd5 = Kd4 @ (if \<not> isGFX12Plus STI
            then [PRINT_DIRECTIVE ''.amdhsa_ieee_mode''
                    (RSRC1 L COMPUTE_PGM_RSRC1_GFX6_GFX11_ENABLE_IEEE_MODE) FourByteBuffer]
            else [])
     in if bits_set FourByteBuffer (RSRC1 L COMPUTE_PGM_RSRC1_BULKY) then (Fail, Kd5)
     else if bits_set FourByteBuffer (RSRC1 L COMPUTE_PGM_RSRC1_CDBG_USER) then (Fail, Kd5)
     else
     let Kd6 = Kd5 @ (if isGFX9Plus STI
            then [PRINT_DIRECTIVE ''.amdhsa_fp16_overflow''
                    (RSRC1 L COMPUTE_PGM_RSRC1_GFX9_PLUS_FP16_OVFL) FourByteBuffer]
            else [])
     in if \<not> isGFX9Plus STI \<and>
           bits_set FourByteBuffer (RSRC1 L COMPUTE_PGM_RSRC1_GFX6_GFX8_RESERVED0) then (Fail, Kd6)
     else if bits_set FourByteBuffer (RSRC1 L COMPUTE_PGM_RSRC1_RESERVED1) then (Fail, Kd6)
     else if \<not> isGFX10Plus STI \<and>
           bits_set FourByteBuffer (RSRC1 L COMPUTE_PGM_RSRC1_GFX6_GFX9_RESERVED2) then (Fail, Kd6)
     else
     let Kd7 = Kd6 @ (if isGFX10Plus STI
            then [PRINT_DIRECTIVE ''.amdhsa_workgroup_processor_mode''
                    (RSRC1 L COMPUTE_PGM_RSRC1_GFX10_PLUS_WGP_MODE) FourByteBuffer,
                  PRINT_DIRECTIVE ''.amdhsa_memory_ordered''
                    (RSRC1 L COMPUTE_PGM_RSRC1_GFX10_PLUS_MEM_ORDERED) FourByteBuffer,
                  PRINT_DIRECTIVE ''.amdhsa_forward_progress''
                    (RSRC1 L COMPUTE_PGM_RSRC1_GFX10_PLUS_FWD_PROGRESS) FourByteBuffer]
            else []);
         Kd8 = Kd7 @ (if isGFX12Plus STI
            then [PRINT_DIRECTIVE ''.amdhsa_round_robin_scheduling''
                    (RSRC1 L COMPUTE_PGM_RSRC1_GFX12_PLUS_ENABLE_WG_RR_EN) FourByteBuffer]
            else [])
     in (Success, Kd8))"

subsection \<open>\<^verbatim>\<open>decodeCOMPUTE_PGM_RSRC2\<close> (lines 1940-1991)\<close>

definition decodeCOMPUTE_PGM_RSRC2 ::
  "MCSubtargetInfo \<Rightarrow> amdhsa \<Rightarrow> u32 \<Rightarrow> DecodeStatus \<times> KdLine list" where
  "decodeCOMPUTE_PGM_RSRC2 STI L FourByteBuffer =
    (let Kd1 =
          [if hasArchitectedFlatScratch STI
           then PRINT_DIRECTIVE ''.amdhsa_enable_private_segment''
                  (RSRC2 L COMPUTE_PGM_RSRC2_ENABLE_PRIVATE_SEGMENT) FourByteBuffer
           else PRINT_DIRECTIVE ''.amdhsa_system_sgpr_private_segment_wavefront_offset''
                  (RSRC2 L COMPUTE_PGM_RSRC2_ENABLE_PRIVATE_SEGMENT) FourByteBuffer,
           PRINT_DIRECTIVE ''.amdhsa_system_sgpr_workgroup_id_x''
             (RSRC2 L COMPUTE_PGM_RSRC2_ENABLE_SGPR_WORKGROUP_ID_X) FourByteBuffer,
           PRINT_DIRECTIVE ''.amdhsa_system_sgpr_workgroup_id_y''
             (RSRC2 L COMPUTE_PGM_RSRC2_ENABLE_SGPR_WORKGROUP_ID_Y) FourByteBuffer,
           PRINT_DIRECTIVE ''.amdhsa_system_sgpr_workgroup_id_z''
             (RSRC2 L COMPUTE_PGM_RSRC2_ENABLE_SGPR_WORKGROUP_ID_Z) FourByteBuffer,
           PRINT_DIRECTIVE ''.amdhsa_system_sgpr_workgroup_info''
             (RSRC2 L COMPUTE_PGM_RSRC2_ENABLE_SGPR_WORKGROUP_INFO) FourByteBuffer,
           PRINT_DIRECTIVE ''.amdhsa_system_vgpr_workitem_id''
             (RSRC2 L COMPUTE_PGM_RSRC2_ENABLE_VGPR_WORKITEM_ID) FourByteBuffer]
     in if bits_set FourByteBuffer (RSRC2 L COMPUTE_PGM_RSRC2_ENABLE_EXCEPTION_ADDRESS_WATCH)
        then (Fail, Kd1)
     else if bits_set FourByteBuffer (RSRC2 L COMPUTE_PGM_RSRC2_ENABLE_EXCEPTION_MEMORY)
        then (Fail, Kd1)
     else if bits_set FourByteBuffer (RSRC2 L COMPUTE_PGM_RSRC2_GRANULATED_LDS_SIZE)
        then (Fail, Kd1)
     else
     let Kd2 = Kd1 @
          [PRINT_DIRECTIVE ''.amdhsa_exception_fp_ieee_invalid_op''
             (RSRC2 L COMPUTE_PGM_RSRC2_ENABLE_EXCEPTION_IEEE_754_FP_INVALID_OPERATION) FourByteBuffer,
           PRINT_DIRECTIVE ''.amdhsa_exception_fp_denorm_src''
             (RSRC2 L COMPUTE_PGM_RSRC2_ENABLE_EXCEPTION_FP_DENORMAL_SOURCE) FourByteBuffer,
           PRINT_DIRECTIVE ''.amdhsa_exception_fp_ieee_div_zero''
             (RSRC2 L COMPUTE_PGM_RSRC2_ENABLE_EXCEPTION_IEEE_754_FP_DIVISION_BY_ZERO) FourByteBuffer,
           PRINT_DIRECTIVE ''.amdhsa_exception_fp_ieee_overflow''
             (RSRC2 L COMPUTE_PGM_RSRC2_ENABLE_EXCEPTION_IEEE_754_FP_OVERFLOW) FourByteBuffer,
           PRINT_DIRECTIVE ''.amdhsa_exception_fp_ieee_underflow''
             (RSRC2 L COMPUTE_PGM_RSRC2_ENABLE_EXCEPTION_IEEE_754_FP_UNDERFLOW) FourByteBuffer,
           PRINT_DIRECTIVE ''.amdhsa_exception_fp_ieee_inexact''
             (RSRC2 L COMPUTE_PGM_RSRC2_ENABLE_EXCEPTION_IEEE_754_FP_INEXACT) FourByteBuffer,
           PRINT_DIRECTIVE ''.amdhsa_exception_int_div_zero''
             (RSRC2 L COMPUTE_PGM_RSRC2_ENABLE_EXCEPTION_INT_DIVIDE_BY_ZERO) FourByteBuffer]
     in if bits_set FourByteBuffer (RSRC2 L COMPUTE_PGM_RSRC2_RESERVED0) then (Fail, Kd2)
     else (Success, Kd2))"

subsection \<open>\<^verbatim>\<open>decodeCOMPUTE_PGM_RSRC3\<close> (lines 1994-2068)\<close>

definition decodeCOMPUTE_PGM_RSRC3 ::
  "MCSubtargetInfo \<Rightarrow> amdhsa \<Rightarrow> string \<Rightarrow> Disasm \<Rightarrow> u32 \<Rightarrow> DecodeStatus \<times> KdLine list" where
  "decodeCOMPUTE_PGM_RSRC3 STI L CommentString D FourByteBuffer =
    (if isGFX90A STI then
       (let Kd1 = [KdDirective ''.amdhsa_accum_offset''
                     (unat ((AMDHSA_BITS_GET FourByteBuffer
                               (RSRC3 L COMPUTE_PGM_RSRC3_GFX90A_ACCUM_OFFSET) + 1) * 4))]
        in if bits_set FourByteBuffer (RSRC3 L COMPUTE_PGM_RSRC3_GFX90A_RESERVED0) then (Fail, Kd1)
        else
        let Kd2 = Kd1 @ [PRINT_DIRECTIVE ''.amdhsa_tg_split''
                           (RSRC3 L COMPUTE_PGM_RSRC3_GFX90A_TG_SPLIT) FourByteBuffer]
        in if bits_set FourByteBuffer (RSRC3 L COMPUTE_PGM_RSRC3_GFX90A_RESERVED1) then (Fail, Kd2)
        else (Success, Kd2))
     else if isGFX10Plus STI then
       (let Kd1 = (if \<not> isGFX12Plus STI then
                     (if EnableWavefrontSize32 D \<noteq> Some True
                      then [PRINT_DIRECTIVE ''.amdhsa_shared_vgpr_count''
                              (RSRC3 L COMPUTE_PGM_RSRC3_GFX10_GFX11_SHARED_VGPR_COUNT) FourByteBuffer]
                      else [PRINT_PSEUDO_DIRECTIVE_COMMENT CommentString ''SHARED_VGPR_COUNT''
                              (RSRC3 L COMPUTE_PGM_RSRC3_GFX10_GFX11_SHARED_VGPR_COUNT) FourByteBuffer])
                   else [])
        in if isGFX12Plus STI \<and>
              bits_set FourByteBuffer (RSRC3 L COMPUTE_PGM_RSRC3_GFX12_PLUS_RESERVED0) then (Fail, Kd1)
        else
        let Kd2 = Kd1 @
             (if isGFX11 STI then
                [PRINT_PSEUDO_DIRECTIVE_COMMENT CommentString ''INST_PREF_SIZE''
                   (RSRC3 L COMPUTE_PGM_RSRC3_GFX11_INST_PREF_SIZE) FourByteBuffer,
                 PRINT_PSEUDO_DIRECTIVE_COMMENT CommentString ''TRAP_ON_START''
                   (RSRC3 L COMPUTE_PGM_RSRC3_GFX11_TRAP_ON_START) FourByteBuffer,
                 PRINT_PSEUDO_DIRECTIVE_COMMENT CommentString ''TRAP_ON_END''
                   (RSRC3 L COMPUTE_PGM_RSRC3_GFX11_TRAP_ON_END) FourByteBuffer]
              else if isGFX12Plus STI then
                [PRINT_PSEUDO_DIRECTIVE_COMMENT CommentString ''INST_PREF_SIZE''
                   (RSRC3 L COMPUTE_PGM_RSRC3_GFX12_PLUS_INST_PREF_SIZE) FourByteBuffer]
              else [])
        in if \<not> isGFX11 STI \<and> \<not> isGFX12Plus STI \<and>
              bits_set FourByteBuffer (RSRC3 L COMPUTE_PGM_RSRC3_GFX10_RESERVED1) then (Fail, Kd2)
        else if bits_set FourByteBuffer (RSRC3 L COMPUTE_PGM_RSRC3_GFX10_PLUS_RESERVED2)
          then (Fail, Kd2)
        else
        let Kd3 = Kd2 @
             (if isGFX12Plus STI
              then [PRINT_PSEUDO_DIRECTIVE_COMMENT CommentString ''GLG_EN''
                      (RSRC3 L COMPUTE_PGM_RSRC3_GFX12_PLUS_GLG_EN) FourByteBuffer]
              else [])
        in if \<not> isGFX12Plus STI \<and>
              bits_set FourByteBuffer (RSRC3 L COMPUTE_PGM_RSRC3_GFX10_GFX11_RESERVED3) then (Fail, Kd3)
        else if bits_set FourByteBuffer (RSRC3 L COMPUTE_PGM_RSRC3_GFX10_PLUS_RESERVED4)
          then (Fail, Kd3)
        else
        let Kd4 = Kd3 @
             (if isGFX11Plus STI
              then [PRINT_PSEUDO_DIRECTIVE_COMMENT CommentString ''IMAGE_OP''
                      (RSRC3 L COMPUTE_PGM_RSRC3_GFX11_PLUS_IMAGE_OP) FourByteBuffer]
              else [])
        in if \<not> isGFX11Plus STI \<and>
              bits_set FourByteBuffer (RSRC3 L COMPUTE_PGM_RSRC3_GFX10_RESERVED5) then (Fail, Kd4)
        else (Success, Kd4))
     else if FourByteBuffer \<noteq> 0 then (Fail, [])
     else (Success, []))"

subsection \<open>Reading the record\<close>

text \<open>Little-endian reads (\<^verbatim>\<open>support::endian::read16\<close>, \<^verbatim>\<open>DataExtractor::getU16\<close>,
  \<^verbatim>\<open>getU32\<close>). A \<^verbatim>\<open>DataExtractor::Cursor\<close> is its offset; a read past the end of the
  data puts the cursor in an error state, which \<^verbatim>\<open>cantFail\<close> turns into an abort:
  \<open>None\<close> here.\<close>

definition read16 :: "u8 list \<Rightarrow> nat \<Rightarrow> u16" where
  "read16 Data i = ucast (Data ! i) OR push_bit 8 (ucast (Data ! (i + 1)))"

definition read32 :: "u8 list \<Rightarrow> nat \<Rightarrow> u32" where
  "read32 Data i = ucast (Data ! i) OR push_bit 8 (ucast (Data ! (i + 1)))
     OR push_bit 16 (ucast (Data ! (i + 2))) OR push_bit 24 (ucast (Data ! (i + 3)))"

definition getU16 :: "u8 list \<Rightarrow> nat \<Rightarrow> (u16 \<times> nat) option" where
  "getU16 Data C = (if C + 2 \<le> length Data then Some (read16 Data C, C + 2) else None)"

definition getU32 :: "u8 list \<Rightarrow> nat \<Rightarrow> (u32 \<times> nat) option" where
  "getU32 Data C = (if C + 4 \<le> length Data then Some (read32 Data C, C + 4) else None)"

definition getBytes :: "u8 list \<Rightarrow> nat \<Rightarrow> nat \<Rightarrow> (u8 list \<times> nat) option" where
  "getBytes Data C n = (if C + n \<le> length Data then Some (take n (drop C Data), C + n) else None)"

definition skip :: "u8 list \<Rightarrow> nat \<Rightarrow> nat \<Rightarrow> nat option" where
  "skip Data C n = (if C + n \<le> length Data then Some (C + n) else None)"

text \<open>The loops over reserved bytes (lines 2114-2118, 2131-2135, 2209-2212): the first
  nonzero byte returns \<^verbatim>\<open>Fail\<close>.\<close>

fun checkReservedBytes :: "u8 list \<Rightarrow> DecodeStatus" where
  "checkReservedBytes [] = Success"
| "checkReservedBytes (b # bs) = (if b \<noteq> 0 then Fail else checkReservedBytes bs)"

subsection \<open>\<^verbatim>\<open>decodeKernelDescriptorDirective\<close> (lines 2073-2220)\<close>

text \<open>The result is the status, the cursor after the field and the lines written. The
  \<^verbatim>\<open>switch\<close> on \<^verbatim>\<open>Cursor.tell()\<close> is the chain of comparisons in the order of its
  cases; its \<^verbatim>\<open>default\<close> is \<^verbatim>\<open>llvm_unreachable\<close>.\<close>

definition decodeKernelCodeProperties ::
  "MCSubtargetInfo \<Rightarrow> amdhsa \<Rightarrow> u16 \<Rightarrow> DecodeStatus \<times> KdLine list" where
  "decodeKernelCodeProperties STI L TwoByteBuffer =
    (let TB = (ucast TwoByteBuffer :: u32);
         Kd1 = (if \<not> hasArchitectedFlatScratch STI
                then [PRINT_DIRECTIVE ''.amdhsa_user_sgpr_private_segment_buffer''
                        (KCP L KERNEL_CODE_PROPERTY_ENABLE_SGPR_PRIVATE_SEGMENT_BUFFER) TB]
                else [])
             @ [PRINT_DIRECTIVE ''.amdhsa_user_sgpr_dispatch_ptr''
                  (KCP L KERNEL_CODE_PROPERTY_ENABLE_SGPR_DISPATCH_PTR) TB,
                PRINT_DIRECTIVE ''.amdhsa_user_sgpr_queue_ptr''
                  (KCP L KERNEL_CODE_PROPERTY_ENABLE_SGPR_QUEUE_PTR) TB,
                PRINT_DIRECTIVE ''.amdhsa_user_sgpr_kernarg_segment_ptr''
                  (KCP L KERNEL_CODE_PROPERTY_ENABLE_SGPR_KERNARG_SEGMENT_PTR) TB,
                PRINT_DIRECTIVE ''.amdhsa_user_sgpr_dispatch_id''
                  (KCP L KERNEL_CODE_PROPERTY_ENABLE_SGPR_DISPATCH_ID) TB]
             @ (if \<not> hasArchitectedFlatScratch STI
                then [PRINT_DIRECTIVE ''.amdhsa_user_sgpr_flat_scratch_init''
                        (KCP L KERNEL_CODE_PROPERTY_ENABLE_SGPR_FLAT_SCRATCH_INIT) TB]
                else [])
             @ [PRINT_DIRECTIVE ''.amdhsa_user_sgpr_private_segment_size''
                  (KCP L KERNEL_CODE_PROPERTY_ENABLE_SGPR_PRIVATE_SEGMENT_SIZE) TB]
     in if bits_set TB (KCP L KERNEL_CODE_PROPERTY_RESERVED0) then (Fail, Kd1)
     else if isGFX9 STI \<and> bits_set TB (KCP L KERNEL_CODE_PROPERTY_ENABLE_WAVEFRONT_SIZE32)
       then (Fail, Kd1)
     else
     let Kd2 = Kd1 @ (if isGFX10Plus STI
                then [PRINT_DIRECTIVE ''.amdhsa_wavefront_size32''
                        (KCP L KERNEL_CODE_PROPERTY_ENABLE_WAVEFRONT_SIZE32) TB]
                else []);
         Kd3 = Kd2 @ (if getAmdhsaCodeObjectVersion STI \<ge> AMDHSA_COV5 L
                then [PRINT_DIRECTIVE ''.amdhsa_uses_dynamic_stack''
                        (KCP L KERNEL_CODE_PROPERTY_USES_DYNAMIC_STACK) TB]
                else [])
     in if bits_set TB (KCP L KERNEL_CODE_PROPERTY_RESERVED1) then (Fail, Kd3)
     else (Success, Kd3))"

definition decodeKernargPreload :: "amdhsa \<Rightarrow> u16 \<Rightarrow> DecodeStatus \<times> KdLine list" where
  "decodeKernargPreload L TwoByteBuffer =
    (let TB = (ucast TwoByteBuffer :: u32) in
     (Success,
      (if bits_set TB (PRELOAD L KERNARG_PRELOAD_SPEC_LENGTH)
       then [PRINT_DIRECTIVE ''.amdhsa_user_sgpr_kernarg_preload_length''
               (PRELOAD L KERNARG_PRELOAD_SPEC_LENGTH) TB]
       else [])
      @ (if bits_set TB (PRELOAD L KERNARG_PRELOAD_SPEC_OFFSET)
         then [PRINT_DIRECTIVE ''.amdhsa_user_sgpr_kernarg_preload_offset''
                 (PRELOAD L KERNARG_PRELOAD_SPEC_OFFSET) TB]
         else [])))"

definition decodeKernelDescriptorDirective ::
  "MCSubtargetInfo \<Rightarrow> amdhsa \<Rightarrow> string \<Rightarrow> Disasm \<Rightarrow> nat \<Rightarrow> u8 list \<Rightarrow>
   (DecodeStatus \<times> nat \<times> KdLine list) option" where
  "decodeKernelDescriptorDirective STI L CommentString D Cursor Data =
    (if length Data \<noteq> 64 then None
     else if Cursor = OFFSET L GROUP_SEGMENT_FIXED_SIZE_OFFSET then
       do { (FourByteBuffer, C) \<leftarrow> getU32 Data Cursor;
            Some (Success, C,
                  [KdDirective ''.amdhsa_group_segment_fixed_size'' (unat FourByteBuffer)]) }
     else if Cursor = OFFSET L PRIVATE_SEGMENT_FIXED_SIZE_OFFSET then
       do { (FourByteBuffer, C) \<leftarrow> getU32 Data Cursor;
            Some (Success, C,
                  [KdDirective ''.amdhsa_private_segment_fixed_size'' (unat FourByteBuffer)]) }
     else if Cursor = OFFSET L KERNARG_SIZE_OFFSET then
       do { (FourByteBuffer, C) \<leftarrow> getU32 Data Cursor;
            Some (Success, C, [KdDirective ''.amdhsa_kernarg_size'' (unat FourByteBuffer)]) }
     else if Cursor = OFFSET L RESERVED0_OFFSET then
       do { (ReservedBytes, C) \<leftarrow> getBytes Data Cursor 4;
            Some (checkReservedBytes ReservedBytes, C, []) }
     else if Cursor = OFFSET L KERNEL_CODE_ENTRY_BYTE_OFFSET_OFFSET then
       do { C \<leftarrow> skip Data Cursor 8;
            Some (Success, C, []) }
     else if Cursor = OFFSET L RESERVED1_OFFSET then
       do { (ReservedBytes, C) \<leftarrow> getBytes Data Cursor 20;
            Some (checkReservedBytes ReservedBytes, C, []) }
     else if Cursor = OFFSET L COMPUTE_PGM_RSRC3_OFFSET then
       do { (FourByteBuffer, C) \<leftarrow> getU32 Data Cursor;
            Some (fst (decodeCOMPUTE_PGM_RSRC3 STI L CommentString D FourByteBuffer), C,
                  snd (decodeCOMPUTE_PGM_RSRC3 STI L CommentString D FourByteBuffer)) }
     else if Cursor = OFFSET L COMPUTE_PGM_RSRC1_OFFSET then
       do { (FourByteBuffer, C) \<leftarrow> getU32 Data Cursor;
            Some (fst (decodeCOMPUTE_PGM_RSRC1 STI L D FourByteBuffer), C,
                  snd (decodeCOMPUTE_PGM_RSRC1 STI L D FourByteBuffer)) }
     else if Cursor = OFFSET L COMPUTE_PGM_RSRC2_OFFSET then
       do { (FourByteBuffer, C) \<leftarrow> getU32 Data Cursor;
            Some (fst (decodeCOMPUTE_PGM_RSRC2 STI L FourByteBuffer), C,
                  snd (decodeCOMPUTE_PGM_RSRC2 STI L FourByteBuffer)) }
     else if Cursor = OFFSET L KERNEL_CODE_PROPERTIES_OFFSET then
       do { (TwoByteBuffer, C) \<leftarrow> getU16 Data Cursor;
            Some (fst (decodeKernelCodeProperties STI L TwoByteBuffer), C,
                  snd (decodeKernelCodeProperties STI L TwoByteBuffer)) }
     else if Cursor = OFFSET L KERNARG_PRELOAD_OFFSET then
       do { (TwoByteBuffer, C) \<leftarrow> getU16 Data Cursor;
            Some (fst (decodeKernargPreload L TwoByteBuffer), C,
                  snd (decodeKernargPreload L TwoByteBuffer)) }
     else if Cursor = OFFSET L RESERVED3_OFFSET then
       do { (ReservedBytes, C) \<leftarrow> getBytes Data Cursor 4;
            Some (checkReservedBytes ReservedBytes, C, []) }
     else None)"

subsection \<open>\<^verbatim>\<open>decodeKernelDescriptor\<close> (lines 2222-2259)\<close>

text \<open>The loop \<^verbatim>\<open>while (C && C.tell() < Bytes.size())\<close>; \<open>Kd\<close> is the text written so
  far.\<close>

function decodeKernelDescriptor_loop ::
  "MCSubtargetInfo \<Rightarrow> amdhsa \<Rightarrow> string \<Rightarrow> Disasm \<Rightarrow> u8 list \<Rightarrow> nat \<Rightarrow> KdLine list \<Rightarrow>
   (DecodeStatus \<times> KdLine list) option" where
  "decodeKernelDescriptor_loop STI L CommentString D Data C Kd =
    (if C < length Data then
       (case decodeKernelDescriptorDirective STI L CommentString D C Data of
          None \<Rightarrow> None
        | Some (Status, C', Lines) \<Rightarrow>
            if Status = Fail then Some (Fail, Kd @ Lines)
            else decodeKernelDescriptor_loop STI L CommentString D Data C' (Kd @ Lines))
     else Some (Success, Kd))"
  by pat_completeness auto
termination
proof (relation "measure (\<lambda>(STI, L, CommentString, D, Data, C, Kd). length Data - C)")
  show "wf (measure (\<lambda>(STI, L, CommentString, D, Data, C, Kd). length Data - C))"
    by simp
next
  fix STI :: MCSubtargetInfo and L :: amdhsa and CommentString :: string and D :: Disasm
    and Data :: "u8 list" and C :: nat and Kd :: "KdLine list"
    and x2 :: "DecodeStatus \<times> nat \<times> KdLine list" and x y :: nat and xa :: DecodeStatus
    and ya :: "nat \<times> KdLine list" and yb :: "KdLine list"
  assume lt: "C < length Data"
    and d: "decodeKernelDescriptorDirective STI L CommentString D C Data = Some x2"
    and x2: "(xa, ya) = x2" "(x, yb) = ya"
  from d x2 have "C < x"
    by (auto simp: decodeKernelDescriptorDirective_def getU32_def getU16_def getBytes_def
        skip_def split: if_splits Option.bind_splits)
  with lt show "((STI, L, CommentString, D, Data, x, Kd @ yb), (STI, L, CommentString, D, Data, C, Kd))
      \<in> measure (\<lambda>(STI, L, CommentString, D, Data, C, Kd). length Data - C)"
    by simp
qed

text \<open>The text is printed (\<^verbatim>\<open>outs() << KdStream.str()\<close>) only when every field decoded:
  the second component is what is printed. The third is the disassembler after the call,
  with \<^verbatim>\<open>EnableWavefrontSize32\<close> set on GFX10 and later.\<close>

definition decodeKernelDescriptor ::
  "MCSubtargetInfo \<Rightarrow> amdhsa \<Rightarrow> string \<Rightarrow> Disasm \<Rightarrow> string \<Rightarrow> u8 list \<Rightarrow> u64 \<Rightarrow>
   (DecodeStatus \<times> KdLine list \<times> Disasm) option" where
  "decodeKernelDescriptor STI L CommentString D KdName Data KdAddress =
    (if length Data \<noteq> 64 \<or> KdAddress mod 64 \<noteq> 0 then Some (Fail, [], D)
     else
     do { D1 \<leftarrow>
            (if isGFX10Plus STI then
               (if OFFSET L KERNEL_CODE_PROPERTIES_OFFSET + 2 \<le> length Data
                then Some (D\<lparr>EnableWavefrontSize32 := Some
                       (AMDHSA_BITS_GET (ucast (read16 Data (OFFSET L KERNEL_CODE_PROPERTIES_OFFSET)))
                          (KCP L KERNEL_CODE_PROPERTY_ENABLE_WAVEFRONT_SIZE32) \<noteq> 0)\<rparr>)
                else None)
             else Some D);
          (Status, Kd) \<leftarrow> decodeKernelDescriptor_loop STI L CommentString D1 Data 0 [KdKernel KdName];
          if Status = Fail then Some (Fail, [], D1)
          else Some (Success, Kd @ [KdEnd], D1) })"

section \<open>Instruction decoding\<close>

subsection \<open>Instruction metadata and decoder tables\<close>

text \<open>
  The generated decoder tables, the instruction descriptions (\<^verbatim>\<open>MCII\<close>), the register
  information (\<^verbatim>\<open>MRI\<close>) and the lookups of \<^verbatim>\<open>Utils/AMDGPUBaseInfo\<close> are not part of the
  sources. They are read only and enter the model as the fields of the record
  \<open>Tables\<close> below.
\<close>

datatype SIInstrFlag =
    VOP3P | VOP3 | VOPC | DS | MUBUF | FLAT | SMRD | IsAtomicRet | MTBUF | MIMG | VIMAGE
  | VSAMPLE | EXP | VINTERP | SOPK | Gather4

datatype OpName =
    OpName_fi | OpName_dpp8 | OpName_vaddr0 | OpName_srsrc | OpName_rsrc | OpName_src2_modifiers
  | OpName_gds | OpName_cpol | OpName_tfe | OpName_swz | OpName_vdst_in | OpName_imm
  | OpName_immDeferred | OpName_vm | OpName_compr | OpName_op_sel | OpName_op_sel_hi
  | OpName_neg_lo | OpName_neg_hi | OpName_sdst | OpName_clamp | OpName_omod
  | OpName_src0_modifiers | OpName_src1_modifiers | OpName_old | OpName_src2 | OpName_vdst
  | OpName_vdata | OpName_dmask | OpName_d16 | OpName_dim | OpName_a16

datatype OperandTypeK =
    OPERAND_REG_IMM_FP32_DEFERRED | OPERAND_REG_IMM_FP16_DEFERRED | OPERAND_OTHER

record MCOperandInfo =
  RegClass :: int
  OperandType :: OperandTypeK

text \<open>\<^verbatim>\<open>MCInstrDesc\<close>: \<open>TIED_TO i\<close> is
  \<^verbatim>\<open>getOperandConstraint(i, MCOI::OperandConstraint::TIED_TO)\<close>.\<close>

record MCInstrDesc =
  TSFlags :: "SIInstrFlag set"
  NumOperands :: nat
  operands :: "MCOperandInfo list"
  TIED_TO :: "nat \<Rightarrow> int"

datatype MIMGEncoding =
    MIMGEncGfx6 | MIMGEncGfx8 | MIMGEncGfx90a | MIMGEncGfx10Default | MIMGEncGfx10NSA
  | MIMGEncGfx11Default | MIMGEncGfx11NSA | MIMGEncGfx12

record MIMGInfo =
  BaseOpcode :: nat
  MIMGEnc :: MIMGEncoding
  VDataDwords :: nat
  VAddrDwords :: nat

text \<open>Of \<^verbatim>\<open>MIMGBaseOpcodeInfo\<close> the disassembler reads \<^verbatim>\<open>BVH\<close> and \<^verbatim>\<open>A16\<close>;
  \<open>BaseInfo\<close> stands for the rest, which \<^verbatim>\<open>getAddrSizeMIMGOp\<close> reads. \<open>MIMGDimInfo\<close> is
  only passed on.\<close>

record MIMGBaseOpcodeInfo =
  BVH :: bool
  A16 :: bool
  BaseInfo :: nat

type_synonym MIMGDimInfo = nat

datatype DecoderTable =
    DecoderTableDPP8GFX1196 | DecoderTableDPP8GFX11_FAKE1696
  | DecoderTableDPP8GFX1296 | DecoderTableDPP8GFX12_FAKE1696
  | DecoderTableDPPGFX1196 | DecoderTableDPPGFX11_FAKE1696
  | DecoderTableDPPGFX1296 | DecoderTableDPPGFX12_FAKE1696
  | DecoderTableGFX1196 | DecoderTableGFX1296
  | DecoderTableGFX10_B64 | DecoderTableDPP864
  | DecoderTableDPP8GFX1164 | DecoderTableDPP8GFX11_FAKE1664
  | DecoderTableDPP8GFX1264 | DecoderTableDPP8GFX12_FAKE1664
  | DecoderTableDPP64
  | DecoderTableDPPGFX1164 | DecoderTableDPPGFX11_FAKE1664
  | DecoderTableDPPGFX1264 | DecoderTableDPPGFX12_FAKE1664
  | DecoderTableSDWA64 | DecoderTableSDWA964 | DecoderTableSDWA1064
  | DecoderTableGFX80_UNPACKED64 | DecoderTableGFX9_DL64
  | DecoderTableGFX832 | DecoderTableAMDGPU32 | DecoderTableGFX932 | DecoderTableGFX90A32
  | DecoderTableGFX10_B32 | DecoderTableGFX1032
  | DecoderTableGFX1132 | DecoderTableGFX11_FAKE1632
  | DecoderTableGFX1232 | DecoderTableGFX12_FAKE1632
  | DecoderTableGFX94064 | DecoderTableGFX90A64 | DecoderTableGFX864 | DecoderTableAMDGPU64
  | DecoderTableGFX964 | DecoderTableGFX1064
  | DecoderTableGFX1264 | DecoderTableGFX12_FAKE1664
  | DecoderTableGFX1164 | DecoderTableGFX11_FAKE1664
  | DecoderTableWMMAGFX1164

text \<open>The instruction word given to a table: 32 bits, 64 bits, or the
  \<^verbatim>\<open>DecoderUInt128(Lo, Hi)\<close> of a 96-bit encoding.\<close>

datatype InsnWord = Insn32 u32 | Insn64 u64 | Insn96 u64 u64

text \<open>
  \<open>tryDecodeInst\<close> is the one-table \<^verbatim>\<open>tryDecodeInst\<close> of AMDGPUDisassembler.h (not part
  of the sources): it runs the generated decoder of a table on the instruction word; it
  reads and writes the instruction and the mutable members.
  The named constants of SIDefines.h and of the generated headers that the instruction
  decoder uses are fields too.
\<close>

record Tables =
  tryDecodeInst ::
    "DecoderTable \<Rightarrow> InsnWord \<Rightarrow> u64 \<Rightarrow> MCInst \<Rightarrow> Disasm \<Rightarrow> DecodeStatus \<times> MCInst \<times> Disasm"
  MCII_get :: "nat \<Rightarrow> MCInstrDesc"
  getNamedOperandIdx :: "nat \<Rightarrow> OpName \<Rightarrow> int"
  hasNamedOperand :: "nat \<Rightarrow> OpName \<Rightarrow> bool"
  isMAC :: "nat \<Rightarrow> bool"
  isVOPC64DPP :: "nat \<Rightarrow> bool"
  isVINTERP_inreg :: "nat \<Rightarrow> bool"
  AMDGPUMCRegisterClasses :: "nat \<Rightarrow> nat list option"
  getMCReg :: "nat \<Rightarrow> nat"
  getMIMGInfo :: "nat \<Rightarrow> MIMGInfo option"
  getMIMGBaseOpcodeInfo :: "nat \<Rightarrow> MIMGBaseOpcodeInfo option"
  getMIMGDimInfoByEncoding :: "u8 \<Rightarrow> MIMGDimInfo option"
  getAddrSizeMIMGOp :: "MIMGBaseOpcodeInfo \<Rightarrow> MIMGDimInfo option \<Rightarrow> bool \<Rightarrow> bool \<Rightarrow> nat"
  getMIMGOpcode :: "nat \<Rightarrow> MIMGEncoding \<Rightarrow> nat \<Rightarrow> nat \<Rightarrow> int"
  getSubReg_sub0 :: "nat \<Rightarrow> nat"
  getMatchingSuperReg_sub0 :: "nat \<Rightarrow> nat \<Rightarrow> nat"
  TargetMaxInstBytes :: nat
  DPP8_FI_0 :: u32
  DPP8_FI_1 :: u32
  CPol_GLC :: u64
  SISrcMods_OP_SEL_0 :: u32
  SISrcMods_OP_SEL_1 :: u32
  SISrcMods_NEG :: u32
  SISrcMods_NEG_HI :: u32
  SISrcMods_DST_OP_SEL :: u32
  AMDGPU_VCC :: nat
  EncValues_of :: EncValues

text \<open>\<open>isVINTERP_inreg\<close> is the test of lines 836-843: the opcode is one of the eight
  \<^verbatim>\<open>V_INTERP_*_inreg\<close> opcodes. \<^verbatim>\<open>AMDGPU::NoRegister\<close> is 0.\<close>

definition NoRegister :: nat where
  "NoRegister = 0"

text \<open>The conversion of an \<^verbatim>\<open>int\<close> to \<^verbatim>\<open>unsigned\<close>.\<close>

definition to_unsigned :: "int \<Rightarrow> nat" where
  "to_unsigned i = nat (i mod 2 ^ 32)"

definition hasTSFlag :: "Tables \<Rightarrow> nat \<Rightarrow> SIInstrFlag set \<Rightarrow> bool" where
  "hasTSFlag T Opc Flags = (TSFlags (MCII_get T Opc) \<inter> Flags \<noteq> {})"

text \<open>Modelled from the spec: the two-table overload of \<^verbatim>\<open>tryDecodeInst\<close> is defined in
  AMDGPUDisassembler.h, which is not part of the sources. Section 4.2 of the spec: the
  tables of the list are tried in order on the same instruction word, and the first one
  that matches wins; no match is \<open>Fail\<close>.\<close>

definition tryDecodeInst2 ::
  "Tables \<Rightarrow> DecoderTable \<Rightarrow> DecoderTable \<Rightarrow> InsnWord \<Rightarrow> u64 \<Rightarrow> MCInst \<Rightarrow> Disasm \<Rightarrow>
   DecodeStatus \<times> MCInst \<times> Disasm" where
  "tryDecodeInst2 T Table1 Table2 Inst Address MI D =
     (case tryDecodeInst T Table1 Inst Address MI D of
        (Res1, MI1, D1) \<Rightarrow>
          if truthy Res1 then (Res1, MI1, D1)
          else (case tryDecodeInst T Table2 Inst Address MI1 D1 of
                  (Res2, MI2, D2) \<Rightarrow>
                    if truthy Res2 then (Res2, MI2, D2) else (Fail, MI2, D2)))"

subsection \<open>Operand helpers\<close>

text \<open>\<^verbatim>\<open>insertNamedMCOperand\<close> (lines 64-73).\<close>

definition insertNamedMCOperand :: "Tables \<Rightarrow> MCInst \<Rightarrow> MCOperand \<Rightarrow> OpName \<Rightarrow> MCInst option" where
  "insertNamedMCOperand T MI Op NameIdx =
     (let OpIdx = getNamedOperandIdx T (Opcode MI) NameIdx
      in if OpIdx \<noteq> - 1 then insertOperand MI OpIdx Op else Some MI)"

text \<open>\<^verbatim>\<open>createRegOperand\<close> (lines 1226-1239): by register, and by class and index.\<close>

definition createRegOperand_reg :: "Tables \<Rightarrow> nat \<Rightarrow> MCOperand" where
  "createRegOperand_reg T RegId = createReg (getMCReg T RegId)"

definition createRegOperand :: "Tables \<Rightarrow> nat \<Rightarrow> nat \<Rightarrow> MCOperand option" where
  "createRegOperand T RegClassID Val =
     (case AMDGPUMCRegisterClasses T RegClassID of
        None \<Rightarrow> None
      | Some RegCl \<Rightarrow>
          if Val \<ge> length RegCl then Some errOperand
          else Some (createRegOperand_reg T (RegCl ! Val)))"

text \<open>\<^verbatim>\<open>MI.getOperand(i).getImm()\<close> and \<^verbatim>\<open>MI.getOperand(i).getReg()\<close>.\<close>

definition getOperandImm :: "MCInst \<Rightarrow> int \<Rightarrow> u64 option" where
  "getOperandImm MI i = do { Op \<leftarrow> getOperand MI i; getImm Op }"

definition getOperandReg :: "MCInst \<Rightarrow> int \<Rightarrow> nat option" where
  "getOperandReg MI i = do { Op \<leftarrow> getOperand MI i; getReg Op }"

text \<open>\<^verbatim>\<open>MI.erase\<close> of one operand, and of a range of positions.\<close>

definition eraseOperand :: "MCInst \<Rightarrow> int \<Rightarrow> MCInst option" where
  "eraseOperand MI i =
     (if 0 \<le> i \<and> nat i < length (Operands MI)
      then Some (MI\<lparr>Operands := take (nat i) (Operands MI) @ drop (nat i + 1) (Operands MI)\<rparr>)
      else None)"

definition eraseOperands :: "MCInst \<Rightarrow> int \<Rightarrow> int \<Rightarrow> MCInst option" where
  "eraseOperands MI i j =
     (if 0 \<le> i \<and> i \<le> j \<and> nat j \<le> length (Operands MI)
      then Some (MI\<lparr>Operands := take (nat i) (Operands MI) @ drop (nat j) (Operands MI)\<rparr>)
      else None)"

subsection \<open>Fixups of the decoded instruction\<close>

text \<open>The statement
  \<^verbatim>\<open>if (MI.getNumOperands() < DescNumOps && hasNamedOperand(Opc, Name)) insertNamedMCOperand(MI, Op, Name)\<close>
  of the conversion functions.\<close>

definition insertIfShort ::
  "Tables \<Rightarrow> nat \<Rightarrow> MCInst \<Rightarrow> MCOperand \<Rightarrow> OpName \<Rightarrow> MCInst option" where
  "insertIfShort T DescNumOps MI Op Name =
     (if getNumOperands MI < DescNumOps \<and> hasNamedOperand T (Opcode MI) Name
      then insertNamedMCOperand T MI Op Name else Some MI)"

text \<open>\<^verbatim>\<open>convertEXPInst\<close> (lines 825-833), \<^verbatim>\<open>convertVINTERPInst\<close> (835-849) and
  \<^verbatim>\<open>convertSDWAInst\<close> (851-869).\<close>

definition convertEXPInst ::
  "MCSubtargetInfo \<Rightarrow> Tables \<Rightarrow> MCInst \<Rightarrow> (DecodeStatus \<times> MCInst) option" where
  "convertEXPInst STI T MI =
     (if hasFeature STI FeatureGFX11Insts then
        do { MI1 \<leftarrow> insertNamedMCOperand T MI (createImm 0) OpName_vm;
             MI2 \<leftarrow> insertNamedMCOperand T MI1 (createImm 0) OpName_compr;
             Some (Success, MI2) }
      else Some (Success, MI))"

definition convertVINTERPInst :: "Tables \<Rightarrow> MCInst \<Rightarrow> (DecodeStatus \<times> MCInst) option" where
  "convertVINTERPInst T MI =
     (if isVINTERP_inreg T (Opcode MI) then
        do { MI1 \<leftarrow> insertNamedMCOperand T MI (createImm 0) OpName_op_sel;
             Some (Success, MI1) }
      else Some (Success, MI))"

definition convertSDWAInst ::
  "MCSubtargetInfo \<Rightarrow> Tables \<Rightarrow> MCInst \<Rightarrow> (DecodeStatus \<times> MCInst) option" where
  "convertSDWAInst STI T MI =
     (if hasFeature STI FeatureGFX9 \<or> hasFeature STI FeatureGFX10 then
        (if hasNamedOperand T (Opcode MI) OpName_sdst then
           do { MI1 \<leftarrow> insertNamedMCOperand T MI (createImm 0) OpName_clamp;
                Some (Success, MI1) }
         else Some (Success, MI))
      else if hasFeature STI FeatureVolcanicIslands then
        (let SDst = getNamedOperandIdx T (Opcode MI) OpName_sdst in
         if SDst \<noteq> - 1 then
           do { MI1 \<leftarrow> insertNamedMCOperand T MI (createRegOperand_reg T (AMDGPU_VCC T)) OpName_sdst;
                Some (Success, MI1) }
         else
           do { MI1 \<leftarrow> insertNamedMCOperand T MI (createImm 0) OpName_omod;
                Some (Success, MI1) })
      else Some (Success, MI))"

text \<open>\<^verbatim>\<open>collectVOPModifiers\<close> (lines 871-906): the loop over the three source modifier
  operands. \<^verbatim>\<open>!!(Val & M) << J\<close> is bit \<open>J\<close> when the masked value is not zero.\<close>

record VOPModifiers =
  OpSel :: u32
  OpSelHi :: u32
  NegLo :: u32
  NegHi :: u32

definition shifted_flag :: "u32 \<Rightarrow> u32 \<Rightarrow> nat \<Rightarrow> u32" where
  "shifted_flag Val M J = (if Val AND M \<noteq> 0 then push_bit J 1 else 0)"

fun collectVOPModifiers_loop ::
  "Tables \<Rightarrow> MCInst \<Rightarrow> bool \<Rightarrow> (nat \<times> OpName) list \<Rightarrow> VOPModifiers \<Rightarrow> VOPModifiers option" where
  "collectVOPModifiers_loop T MI IsVOP3P [] Modifiers = Some Modifiers"
| "collectVOPModifiers_loop T MI IsVOP3P ((J, ModOp) # ModOps) Modifiers =
     (let OpIdx = getNamedOperandIdx T (Opcode MI) ModOp in
      if OpIdx = - 1 then collectVOPModifiers_loop T MI IsVOP3P ModOps Modifiers
      else
        do { v \<leftarrow> getOperandImm MI OpIdx;
             let Val = (ucast v :: u32);
                 M1 = Modifiers\<lparr>OpSel := OpSel Modifiers OR shifted_flag Val (SISrcMods_OP_SEL_0 T) J\<rparr>;
                 M2 = (if IsVOP3P then
                         M1\<lparr>OpSelHi := OpSelHi M1 OR shifted_flag Val (SISrcMods_OP_SEL_1 T) J,
                            NegLo := NegLo M1 OR shifted_flag Val (SISrcMods_NEG T) J,
                            NegHi := NegHi M1 OR shifted_flag Val (SISrcMods_NEG_HI T) J\<rparr>
                       else if J = 0 then
                         M1\<lparr>OpSel := OpSel M1 OR shifted_flag Val (SISrcMods_DST_OP_SEL T) 3\<rparr>
                       else M1)
             in collectVOPModifiers_loop T MI IsVOP3P ModOps M2 })"

definition collectVOPModifiers :: "Tables \<Rightarrow> MCInst \<Rightarrow> bool \<Rightarrow> VOPModifiers option" where
  "collectVOPModifiers T MI IsVOP3P =
     collectVOPModifiers_loop T MI IsVOP3P
       [(0, OpName_src0_modifiers), (1, OpName_src1_modifiers), (2, OpName_src2_modifiers)]
       \<lparr>OpSel = 0, OpSelHi = 0, NegLo = 0, NegHi = 0\<rparr>"

text \<open>\<^verbatim>\<open>isMacDPP\<close> (lines 908-927) and \<^verbatim>\<open>convertMacDPPInst\<close> (929-935), with their
  assertions.\<close>

definition isMacDPP :: "Tables \<Rightarrow> MCInst \<Rightarrow> bool option" where
  "isMacDPP T MI =
     (let Opc = Opcode MI;
          Desc = MCII_get T Opc;
          OldIdx = getNamedOperandIdx T Opc OpName_old
      in if OldIdx \<noteq> - 1 \<and> TIED_TO Desc (to_unsigned OldIdx) = - 1 then
           (if hasNamedOperand T Opc OpName_src2 \<and>
               TIED_TO Desc (to_unsigned (getNamedOperandIdx T Opc OpName_src2)) = 0
            then Some True else None)
         else Some False)"

definition convertMacDPPInst :: "Tables \<Rightarrow> MCInst \<Rightarrow> MCInst option" where
  "convertMacDPPInst T MI =
     (if getNumOperands MI + 1 < NumOperands (MCII_get T (Opcode MI)) then
        do { MI1 \<leftarrow> insertNamedMCOperand T MI (createReg 0) OpName_old;
             insertNamedMCOperand T MI1 (createImm 0) OpName_src2_modifiers }
      else None)"

text \<open>\<^verbatim>\<open>convertVOP3PDPPInst\<close> (lines 1141-1168), \<^verbatim>\<open>convertVOPCDPPInst\<close> (1171-1189)
  and \<^verbatim>\<open>convertVOP3DPPInst\<close> (972-985).\<close>

definition convertVOP3PDPPInst :: "Tables \<Rightarrow> MCInst \<Rightarrow> (DecodeStatus \<times> MCInst) option" where
  "convertVOP3PDPPInst T MI =
     (let DescNumOps = NumOperands (MCII_get T (Opcode MI)) in
      do { Mods \<leftarrow> collectVOPModifiers T MI True;
           MI1 \<leftarrow> insertIfShort T DescNumOps MI (createImm 0) OpName_vdst_in;
           MI2 \<leftarrow> insertIfShort T DescNumOps MI1 (createImm (ucast (OpSel Mods))) OpName_op_sel;
           MI3 \<leftarrow> insertIfShort T DescNumOps MI2 (createImm (ucast (OpSelHi Mods))) OpName_op_sel_hi;
           MI4 \<leftarrow> insertIfShort T DescNumOps MI3 (createImm (ucast (NegLo Mods))) OpName_neg_lo;
           MI5 \<leftarrow> insertIfShort T DescNumOps MI4 (createImm (ucast (NegHi Mods))) OpName_neg_hi;
           Some (Success, MI5) })"

definition convertVOPCDPPInst :: "Tables \<Rightarrow> MCInst \<Rightarrow> (DecodeStatus \<times> MCInst) option" where
  "convertVOPCDPPInst T MI =
     (let DescNumOps = NumOperands (MCII_get T (Opcode MI)) in
      do { MI1 \<leftarrow> insertIfShort T DescNumOps MI (createReg 0) OpName_old;
           MI2 \<leftarrow> insertIfShort T DescNumOps MI1 (createImm 0) OpName_src0_modifiers;
           MI3 \<leftarrow> insertIfShort T DescNumOps MI2 (createImm 0) OpName_src1_modifiers;
           Some (Success, MI3) })"

definition convertVOP3DPPInst :: "Tables \<Rightarrow> MCInst \<Rightarrow> (DecodeStatus \<times> MCInst) option" where
  "convertVOP3DPPInst T MI =
     do { mac \<leftarrow> isMacDPP T MI;
          MI1 \<leftarrow> (if mac then convertMacDPPInst T MI else Some MI);
          let DescNumOps = NumOperands (MCII_get T (Opcode MI1)) in
          if getNumOperands MI1 < DescNumOps \<and> hasNamedOperand T (Opcode MI1) OpName_op_sel then
            do { Mods \<leftarrow> collectVOPModifiers T MI1 False;
                 MI2 \<leftarrow> insertNamedMCOperand T MI1 (createImm (ucast (OpSel Mods))) OpName_op_sel;
                 Some (Success, MI2) }
          else Some (Success, MI1) }"

text \<open>\<^verbatim>\<open>isValidDPP8\<close> (lines 474-485): the \<^verbatim>\<open>fi\<close> operand must be one of the two DPP8
  literals.\<close>

definition isValidDPP8 :: "Tables \<Rightarrow> MCInst \<Rightarrow> bool option" where
  "isValidDPP8 T MI =
     (let FiIdx = getNamedOperandIdx T (Opcode MI) OpName_fi in
      if FiIdx = - 1 then None
      else if to_unsigned FiIdx \<ge> getNumOperands MI then Some False
      else do { v \<leftarrow> getOperandImm MI FiIdx;
                let Fi = (ucast v :: u32) in
                Some (Fi = DPP8_FI_0 T \<or> Fi = DPP8_FI_1 T) })"

text \<open>\<^verbatim>\<open>convertDPP8Inst\<close> (lines 937-970).\<close>

definition convertDPP8Inst :: "Tables \<Rightarrow> MCInst \<Rightarrow> (DecodeStatus \<times> MCInst) option" where
  "convertDPP8Inst T MI =
     (let Opc = Opcode MI in
      do { MI' \<leftarrow>
             (if hasTSFlag T Opc {VOP3P} then map_option snd (convertVOP3PDPPInst T MI)
              else if hasTSFlag T Opc {VOPC} \<or> isVOPC64DPP T Opc then
                map_option snd (convertVOPCDPPInst T MI)
              else
                do { mac \<leftarrow> isMacDPP T MI;
                     MI1 \<leftarrow> (if mac then convertMacDPPInst T MI else Some MI);
                     let DescNumOps = NumOperands (MCII_get T Opc) in
                     if getNumOperands MI1 < DescNumOps \<and> hasNamedOperand T Opc OpName_op_sel then
                       do { Mods \<leftarrow> collectVOPModifiers T MI1 False;
                            insertNamedMCOperand T MI1 (createImm (ucast (OpSel Mods))) OpName_op_sel }
                     else
                       do { MI2 \<leftarrow> insertIfShort T DescNumOps MI1 (createImm 0) OpName_src0_modifiers;
                            insertIfShort T DescNumOps MI2 (createImm 0) OpName_src1_modifiers } });
           valid \<leftarrow> isValidDPP8 T MI';
           Some (if valid then Success else SoftFail, MI') })"

text \<open>\<^verbatim>\<open>convertFMAanyK\<close> (lines 1191-1209): the loop over the operand positions.\<close>

fun convertFMAanyK_loop :: "Tables \<Rightarrow> MCInstrDesc \<Rightarrow> u32 \<Rightarrow> nat list \<Rightarrow> MCInst \<Rightarrow> MCInst option" where
  "convertFMAanyK_loop T Desc Lit [] MI = Some MI"
| "convertFMAanyK_loop T Desc Lit (I # Is) MI =
     do { Op \<leftarrow> getOperand MI (int I);
          OpInfo \<leftarrow> (if I < length (operands Desc) then Some (operands Desc ! I) else None);
          let OpType = OperandType OpInfo;
              IsDeferredOp = (OpType = OPERAND_REG_IMM_FP32_DEFERRED \<or>
                              OpType = OPERAND_REG_IMM_FP16_DEFERRED) in
          if isImm Op \<and> getImm Op = Some (ucast (LITERAL_CONST (EncValues_of T))) \<and> IsDeferredOp
          then do { MI1 \<leftarrow> setOperand MI (int I) (createImm (ucast Lit));
                    convertFMAanyK_loop T Desc Lit Is MI1 }
          else convertFMAanyK_loop T Desc Lit Is MI }"

definition convertFMAanyK ::
  "Tables \<Rightarrow> Disasm \<Rightarrow> MCInst \<Rightarrow> int \<Rightarrow> (DecodeStatus \<times> MCInst) option" where
  "convertFMAanyK T D MI ImmLitIdx =
     (if \<not> HasLiteral D then None
      else
        (let Desc = MCII_get T (Opcode MI);
             DescNumOps = NumOperands Desc in
         do { MI1 \<leftarrow> insertNamedMCOperand T MI (createImm (ucast (Literal D))) OpName_immDeferred;
              MI2 \<leftarrow> (if DescNumOps = getNumOperands MI1
                      then convertFMAanyK_loop T Desc (Literal D) [0..<DescNumOps] MI1 else None);
              Some (Success, MI2) }))"

subsection \<open>\<^verbatim>\<open>convertMIMGInst\<close> (lines 987-1136)\<close>

text \<open>\<^verbatim>\<open>llvm::popcount\<close> of a 32-bit value.\<close>

definition popcount :: "u32 \<Rightarrow> nat" where
  "popcount w = length (filter (bit w) [0..<32])"

definition nth_option :: "'a list \<Rightarrow> int \<Rightarrow> 'a option" where
  "nth_option xs i = (if 0 \<le> i \<and> nat i < length xs then Some (xs ! nat i) else None)"

text \<open>The named operand positions the function looks up first (lines 991-1009).\<close>

record MIMGIdx =
  VDstIdx :: int
  VDataIdx :: int
  VAddr0Idx :: int
  RsrcIdx :: int
  DMaskIdx :: int
  TFEIdx :: int
  D16Idx :: int

definition convertMIMGInst_idx :: "Tables \<Rightarrow> MCInst \<Rightarrow> MIMGIdx" where
  "convertMIMGInst_idx T MI =
     (let Opc = Opcode MI;
          RsrcOpName = (if hasTSFlag T Opc {MIMG} then OpName_srsrc else OpName_rsrc)
      in \<lparr>VDstIdx = getNamedOperandIdx T Opc OpName_vdst,
          VDataIdx = getNamedOperandIdx T Opc OpName_vdata,
          VAddr0Idx = getNamedOperandIdx T Opc OpName_vaddr0,
          RsrcIdx = getNamedOperandIdx T Opc RsrcOpName,
          DMaskIdx = getNamedOperandIdx T Opc OpName_dmask,
          TFEIdx = getNamedOperandIdx T Opc OpName_tfe,
          D16Idx = getNamedOperandIdx T Opc OpName_d16\<rparr>)"

text \<open>
  Lines 1011-1070: the function either returns early (an instruction of a BVH base
  opcode gets its A16 operand; an NSA encoding with too few address operands is left
  alone without partial NSA), which is \<open>Inl\<close> of the result, or it arrives at line 1072
  with the computed \<open>DstSize\<close> and \<open>AddrSize\<close> and the flags \<open>IsNSA\<close> and
  \<open>IsPartialNSA\<close>, which is \<open>Inr\<close>.
\<close>

definition convertMIMGInst_sizes ::
  "MCSubtargetInfo \<Rightarrow> Tables \<Rightarrow> MCInst \<Rightarrow>
   ((DecodeStatus \<times> MCInst) + (nat \<times> nat \<times> bool \<times> bool)) option" where
  "convertMIMGInst_sizes STI T MI =
     (let Opc = Opcode MI; Idx = convertMIMGInst_idx T MI in
      do { Info \<leftarrow> getMIMGInfo T Opc;
           BaseOpc \<leftarrow> getMIMGBaseOpcodeInfo T (BaseOpcode Info);
           if VDataIdx Idx = - 1 then None
           else if BVH BaseOpc then
             Some (Inl (Success, snd (addOperand MI (createImm (if A16 BaseOpc then 1 else 0)))))
           else
             do { let IsGather4 = hasTSFlag T Opc {Gather4};
                  let IsVSample = hasTSFlag T Opc {VSAMPLE};
                  r \<leftarrow>
                    (if isGFX10Plus STI then
                       do { let DimIdx = getNamedOperandIdx T Opc OpName_dim;
                            let A16Idx = getNamedOperandIdx T Opc OpName_a16;
                            dimv \<leftarrow> getOperandImm MI (int (to_unsigned DimIdx));
                            let Dim = getMIMGDimInfoByEncoding T (ucast dimv);
                            IsA16 \<leftarrow> (if A16Idx \<noteq> - 1
                                      then map_option (\<lambda>v. v \<noteq> 0) (getOperandImm MI A16Idx)
                                      else Some False);
                            let AddrSize = getAddrSizeMIMGOp T BaseOpc Dim IsA16 (AMDGPU_hasG16 STI);
                                IsNSA = (MIMGEnc Info = MIMGEncGfx10NSA \<or>
                                         MIMGEnc Info = MIMGEncGfx11NSA \<or>
                                         MIMGEnc Info = MIMGEncGfx12) in
                            if \<not> IsNSA then
                              Some (Inr (if \<not> IsVSample \<and> AddrSize > 12 then 16 else AddrSize,
                                         IsNSA, False))
                            else if AddrSize > VAddrDwords Info then
                              (if \<not> hasFeature STI FeaturePartialNSAEncoding
                               then Some (Inl (Success, MI))
                               else Some (Inr (AddrSize, IsNSA, True)))
                            else Some (Inr (AddrSize, IsNSA, False)) }
                     else Some (Inr (VAddrDwords Info, False, False)));
                  case r of
                    Inl early \<Rightarrow> Some (Inl early)
                  | Inr (AddrSize, IsNSA, IsPartialNSA) \<Rightarrow>
                      do { dm \<leftarrow> getOperandImm MI (DMaskIdx Idx);
                           let DMask = (ucast dm :: u32) AND 0xf;
                           let DstSize0 = (if IsGather4 then 4 else max (popcount DMask) 1);
                           D16 \<leftarrow> (if D16Idx Idx \<ge> 0
                                   then map_option (\<lambda>v. v \<noteq> 0) (getOperandImm MI (D16Idx Idx))
                                   else Some False);
                           let DstSize1 = (if D16 \<and> AMDGPU_hasPackedD16 STI
                                           then (DstSize0 + 1) div 2 else DstSize0);
                           tfe \<leftarrow> (if TFEIdx Idx \<noteq> - 1
                                   then map_option (\<lambda>v. v \<noteq> 0) (getOperandImm MI (TFEIdx Idx))
                                   else Some False);
                           let DstSize = (if tfe then DstSize1 + 1 else DstSize1) in
                           Some (Inr (DstSize, AddrSize, IsNSA, IsPartialNSA)) } } })"

text \<open>Lines 1075-1135: the instruction has a size pair that differs from the one of its
  opcode; look the matching opcode up and rewrite the instruction.\<close>

definition convertMIMGInst_rewrite ::
  "MCSubtargetInfo \<Rightarrow> Tables \<Rightarrow> MCInst \<Rightarrow> nat \<Rightarrow> nat \<Rightarrow> bool \<Rightarrow> bool \<Rightarrow>
   (DecodeStatus \<times> MCInst) option" where
  "convertMIMGInst_rewrite STI T MI DstSize AddrSize IsNSA IsPartialNSA =
     (let Opc = Opcode MI; Idx = convertMIMGInst_idx T MI; IsAtomic = (VDstIdx Idx \<noteq> - 1) in
      do { Info \<leftarrow> getMIMGInfo T Opc;
           let NewOpcode = getMIMGOpcode T (BaseOpcode Info) (MIMGEnc Info) DstSize AddrSize in
           if NewOpcode = - 1 then Some (Success, MI)
           else
             do { NewVdata \<leftarrow>
                    (if DstSize \<noteq> VDataDwords Info then
                       do { OpInfo \<leftarrow> nth_option (operands (MCII_get T (to_unsigned NewOpcode)))
                                       (VDataIdx Idx);
                            Vdata0 \<leftarrow> getOperandReg MI (VDataIdx Idx);
                            let VdataSub0 = getSubReg_sub0 T Vdata0;
                            let Vdata0' = (if VdataSub0 \<noteq> 0 then VdataSub0 else Vdata0);
                            Some (getMatchingSuperReg_sub0 T Vdata0' (to_unsigned (RegClass OpInfo))) }
                     else Some NoRegister);
                  if DstSize \<noteq> VDataDwords Info \<and> NewVdata = NoRegister then Some (Success, MI)
                  else
                    do { let VAddrSAIdx = (if IsPartialNSA then RsrcIdx Idx - 1 else VAddr0Idx Idx);
                         let widen = (hasFeature STI FeatureNSAEncoding \<and> (\<not> IsNSA \<or> IsPartialNSA) \<and>
                                      AddrSize \<noteq> VAddrDwords Info);
                         NewVAddrSA \<leftarrow>
                           (if widen then
                              do { VAddrSA \<leftarrow> getOperandReg MI VAddrSAIdx;
                                   let VAddrSubSA = getSubReg_sub0 T VAddrSA;
                                   let VAddrSA' = (if VAddrSubSA \<noteq> 0 then VAddrSubSA else VAddrSA);
                                   OpInfo \<leftarrow> nth_option (operands (MCII_get T (to_unsigned NewOpcode)))
                                              VAddrSAIdx;
                                   Some (getMatchingSuperReg_sub0 T VAddrSA'
                                           (to_unsigned (RegClass OpInfo))) }
                            else Some NoRegister);
                         if widen \<and> NewVAddrSA = 0 then Some (Success, MI)
                         else
                           do { let MI1 = MI\<lparr>Opcode := to_unsigned NewOpcode\<rparr>;
                                MI2 \<leftarrow>
                                  (if NewVdata \<noteq> NoRegister then
                                     do { M \<leftarrow> setOperand MI1 (VDataIdx Idx) (createReg NewVdata);
                                          if IsAtomic
                                          then setOperand M (VDstIdx Idx) (createReg NewVdata)
                                          else Some M }
                                   else Some MI1);
                                MI3 \<leftarrow>
                                  (if NewVAddrSA \<noteq> 0 then
                                     setOperand MI2 VAddrSAIdx (createReg NewVAddrSA)
                                   else if IsNSA then
                                     (if AddrSize \<le> VAddrDwords Info
                                      then eraseOperands MI2 (VAddr0Idx Idx + int AddrSize)
                                             (VAddr0Idx Idx + int (VAddrDwords Info))
                                      else None)
                                   else Some MI2);
                                Some (Success, MI3) } } } })"

text \<open>The whole function: the early returns, the test of line 1072, and the rewrite.\<close>

definition convertMIMGInst ::
  "MCSubtargetInfo \<Rightarrow> Tables \<Rightarrow> MCInst \<Rightarrow> (DecodeStatus \<times> MCInst) option" where
  "convertMIMGInst STI T MI =
     do { s \<leftarrow> convertMIMGInst_sizes STI T MI;
          case s of
            Inl early \<Rightarrow> Some early
          | Inr (DstSize, AddrSize, IsNSA, IsPartialNSA) \<Rightarrow>
              do { Info \<leftarrow> getMIMGInfo T (Opcode MI);
                   if DstSize = VDataDwords Info \<and> AddrSize = VAddrDwords Info
                   then Some (Success, MI)
                   else convertMIMGInst_rewrite STI T MI DstSize AddrSize IsNSA IsPartialNSA } }"

subsection \<open>\<^verbatim>\<open>getInstruction\<close> (lines 487-823): the cascade\<close>

text \<open>
  The body of the \<^verbatim>\<open>do { ... } while (false)\<close> is a list of statements, run in order;
  a statement either goes on to the next one or leaves the loop (\<^verbatim>\<open>break\<close>). The state
  of the body is \<^verbatim>\<open>Res\<close>, \<^verbatim>\<open>MI\<close>, the mutable members (with \<^verbatim>\<open>Bytes\<close>) and
  \<^verbatim>\<open>IsSDWA\<close>.
\<close>

datatype 'a flow = Break 'a | Next 'a

type_synonym gi_state = "DecodeStatus \<times> MCInst \<times> Disasm \<times> bool"
type_synonym gi_stmt = "gi_state \<Rightarrow> gi_state flow option"
type_synonym attempt = "MCInst \<Rightarrow> Disasm \<Rightarrow> DecodeStatus \<times> MCInst \<times> Disasm"

fun run_stmts :: "gi_stmt list \<Rightarrow> gi_state \<Rightarrow> gi_state flow option" where
  "run_stmts [] s = Some (Next s)"
| "run_stmts (c # cs) s =
     (case c s of
        None \<Rightarrow> None
      | Some (Break s') \<Rightarrow> Some (Break s')
      | Some (Next s') \<Rightarrow> run_stmts cs s')"

text \<open>\<^verbatim>\<open>Res = tryDecodeInst(...); if (Res) break;\<close>\<close>

definition try_break :: "attempt \<Rightarrow> gi_stmt" where
  "try_break att = (\<lambda>(Res, MI, D, IsSDWA).
     case att MI D of
       (Res', MI', D') \<Rightarrow>
         Some (if truthy Res' then Break (Res', MI', D', IsSDWA) else Next (Res', MI', D', IsSDWA)))"

text \<open>\<^verbatim>\<open>Res = tryDecodeInst(...); if (Res && convertDPP8Inst(MI) == MCDisassembler::Success) break; MI = MCInst();\<close>\<close>

definition try_dpp8 :: "Tables \<Rightarrow> attempt \<Rightarrow> gi_stmt" where
  "try_dpp8 T att = (\<lambda>(Res, MI, D, IsSDWA).
     case att MI D of
       (Res', MI', D') \<Rightarrow>
         if truthy Res' then
           (case convertDPP8Inst T MI' of
              None \<Rightarrow> None
            | Some (st, MI'') \<Rightarrow>
                if st = Success then Some (Break (Res', MI'', D', IsSDWA))
                else Some (Next (Res', MCInst_init, D', IsSDWA)))
         else Some (Next (Res', MCInst_init, D', IsSDWA)))"

text \<open>\<^verbatim>\<open>Res = tryDecodeInst(...); if (Res) { convert(MI); break; }\<close>\<close>

definition try_convert :: "attempt \<Rightarrow> (MCInst \<Rightarrow> MCInst option) \<Rightarrow> gi_stmt" where
  "try_convert att conv = (\<lambda>(Res, MI, D, IsSDWA).
     case att MI D of
       (Res', MI', D') \<Rightarrow>
         if truthy Res' then map_option (\<lambda>MI''. Break (Res', MI'', D', IsSDWA)) (conv MI')
         else Some (Next (Res', MI', D', IsSDWA)))"

text \<open>\<^verbatim>\<open>Res = tryDecodeInst(...); if (Res) { IsSDWA = true; break; }\<close>\<close>

definition try_sdwa :: "attempt \<Rightarrow> gi_stmt" where
  "try_sdwa att = (\<lambda>(Res, MI, D, IsSDWA).
     case att MI D of
       (Res', MI', D') \<Rightarrow>
         Some (if truthy Res' then Break (Res', MI', D', True) else Next (Res', MI', D', IsSDWA)))"

text \<open>\<^verbatim>\<open>if (cond) { statements }\<close>\<close>

definition stmt_if :: "bool \<Rightarrow> gi_stmt list \<Rightarrow> gi_stmt" where
  "stmt_if cond cs = (\<lambda>s. if cond then run_stmts cs s else Some (Next s))"

text \<open>Lines 555-563, the table of the GFX10 B encoding: a match without a \<^verbatim>\<open>dpp8\<close>
  operand leaves the loop, one with it goes through \<^verbatim>\<open>convertDPP8Inst\<close>.\<close>

definition try_GFX10_B64 :: "Tables \<Rightarrow> attempt \<Rightarrow> gi_stmt" where
  "try_GFX10_B64 T att = (\<lambda>(Res, MI, D, IsSDWA).
     case att MI D of
       (Res', MI', D') \<Rightarrow>
         if truthy Res' then
           (if getNamedOperandIdx T (Opcode MI') OpName_dpp8 = - 1
            then Some (Break (Res', MI', D', IsSDWA))
            else
              (case convertDPP8Inst T MI' of
                 None \<Rightarrow> None
               | Some (st, MI'') \<Rightarrow>
                   if st = Success then Some (Break (Res', MI'', D', IsSDWA))
                   else Some (Next (Res', MCInst_init, D', IsSDWA))))
         else Some (Next (Res', MI', D', IsSDWA)))"

text \<open>\<^verbatim>\<open>Bytes = Bytes_.slice(0, MaxInstBytesNum);\<close> (\<open>Bytes_arg\<close> is the parameter
  \<^verbatim>\<open>Bytes_\<close>).\<close>

definition reinit_Bytes :: "u8 list \<Rightarrow> nat \<Rightarrow> gi_stmt" where
  "reinit_Bytes Bytes_arg MaxInstBytesNum = (\<lambda>(Res, MI, D, IsSDWA).
     Some (Next (Res, MI, D\<lparr>Bytes := take MaxInstBytesNum Bytes_arg\<rparr>, IsSDWA)))"

text \<open>The lambda \<^verbatim>\<open>convertVOPDPP\<close> (lines 518-527) and the conversion of lines 589-590
  and 597-598.\<close>

definition convertVOPDPP :: "Tables \<Rightarrow> MCInst \<Rightarrow> MCInst option" where
  "convertVOPDPP T MI =
     (if hasTSFlag T (Opcode MI) {VOP3P} then map_option snd (convertVOP3PDPPInst T MI)
      else if isVOPC64DPP T (Opcode MI) then map_option snd (convertVOPCDPPInst T MI)
      else if hasTSFlag T (Opcode MI) {VOP3} then map_option snd (convertVOP3DPPInst T MI)
      else None)"

definition convertVOPC_if :: "Tables \<Rightarrow> MCInst \<Rightarrow> MCInst option" where
  "convertVOPC_if T MI =
     (if hasTSFlag T (Opcode MI) {VOPC} then map_option snd (convertVOPCDPPInst T MI)
      else Some MI)"

text \<open>\<^verbatim>\<open>eat12Bytes\<close> (lines 463-472) and \<^verbatim>\<open>eatBytes\<close> (455-461) on a list that is
  long enough.\<close>

definition read64 :: "u8 list \<Rightarrow> nat \<Rightarrow> u64" where
  "read64 Data i = ucast (read32 Data i) OR push_bit 32 (ucast (read32 Data (i + 4)))"

definition eat12Bytes :: "u8 list \<Rightarrow> InsnWord" where
  "eat12Bytes Bs = Insn96 (read64 Bs 0) (ucast (read32 Bs 8))"

text \<open>Lines 503-547: the 96-bit encodings of GFX11 and GFX12. \<open>decode96_stmts\<close> is the
  body of the \<^verbatim>\<open>if\<close> after \<^verbatim>\<open>eat12Bytes\<close>.\<close>

definition decode96_stmts :: "Tables \<Rightarrow> InsnWord \<Rightarrow> u64 \<Rightarrow> gi_stmt list" where
  "decode96_stmts T DecW Address =
     [try_dpp8 T (tryDecodeInst2 T DecoderTableDPP8GFX1196 DecoderTableDPP8GFX11_FAKE1696
                    DecW Address),
      try_dpp8 T (tryDecodeInst2 T DecoderTableDPP8GFX1296 DecoderTableDPP8GFX12_FAKE1696
                    DecW Address),
      try_convert (tryDecodeInst2 T DecoderTableDPPGFX1196 DecoderTableDPPGFX11_FAKE1696
                     DecW Address) (convertVOPDPP T),
      try_convert (tryDecodeInst2 T DecoderTableDPPGFX1296 DecoderTableDPPGFX12_FAKE1696
                     DecW Address) (convertVOPDPP T),
      try_break (tryDecodeInst T DecoderTableGFX1196 DecW Address),
      try_break (tryDecodeInst T DecoderTableGFX1296 DecW Address)]"

definition decode96 :: "MCSubtargetInfo \<Rightarrow> Tables \<Rightarrow> u64 \<Rightarrow> gi_stmt" where
  "decode96 STI T Address = (\<lambda>(Res, MI, D, IsSDWA).
     if isGFX11Plus STI \<and> length (Bytes D) \<ge> 12 then
       run_stmts (decode96_stmts T (eat12Bytes (Bytes D)) Address)
         (Res, MI, D\<lparr>Bytes := drop 12 (Bytes D)\<rparr>, IsSDWA)
     else Some (Next (Res, MI, D, IsSDWA)))"

text \<open>Lines 551-625: the 64-bit DPP, SDWA and feature-gated tables. \<open>decode64_stmts\<close> is
  the body of the \<^verbatim>\<open>if\<close> after \<^verbatim>\<open>eatBytes<uint64_t>\<close>.\<close>

definition decode64_stmts :: "MCSubtargetInfo \<Rightarrow> Tables \<Rightarrow> InsnWord \<Rightarrow> u64 \<Rightarrow> gi_stmt list" where
  "decode64_stmts STI T QW Address =
     [stmt_if (hasFeature STI FeatureGFX10_BEncoding)
        [try_GFX10_B64 T (tryDecodeInst T DecoderTableGFX10_B64 QW Address)],
      try_dpp8 T (tryDecodeInst T DecoderTableDPP864 QW Address),
      try_dpp8 T (tryDecodeInst2 T DecoderTableDPP8GFX1164 DecoderTableDPP8GFX11_FAKE1664
                    QW Address),
      try_dpp8 T (tryDecodeInst2 T DecoderTableDPP8GFX1264 DecoderTableDPP8GFX12_FAKE1664
                    QW Address),
      try_break (tryDecodeInst T DecoderTableDPP64 QW Address),
      try_convert (tryDecodeInst2 T DecoderTableDPPGFX1164 DecoderTableDPPGFX11_FAKE1664
                     QW Address) (convertVOPC_if T),
      try_convert (tryDecodeInst2 T DecoderTableDPPGFX1264 DecoderTableDPPGFX12_FAKE1664
                     QW Address) (convertVOPC_if T),
      try_sdwa (tryDecodeInst T DecoderTableSDWA64 QW Address),
      try_sdwa (tryDecodeInst T DecoderTableSDWA964 QW Address),
      try_sdwa (tryDecodeInst T DecoderTableSDWA1064 QW Address),
      stmt_if (hasFeature STI FeatureUnpackedD16VMem)
        [try_break (tryDecodeInst T DecoderTableGFX80_UNPACKED64 QW Address)],
      stmt_if (hasFeature STI FeatureFmaMixInsts)
        [try_break (tryDecodeInst T DecoderTableGFX9_DL64 QW Address)]]"

definition decode64 :: "MCSubtargetInfo \<Rightarrow> Tables \<Rightarrow> u64 \<Rightarrow> gi_stmt" where
  "decode64 STI T Address = (\<lambda>(Res, MI, D, IsSDWA).
     if length (Bytes D) \<ge> 8 then
       run_stmts (decode64_stmts STI T (Insn64 (read64 (Bytes D) 0)) Address)
         (Res, MI, D\<lparr>Bytes := drop 8 (Bytes D)\<rparr>, IsSDWA)
     else Some (Next (Res, MI, D, IsSDWA)))"

text \<open>Lines 665-702: the 64-bit tables tried after the 32-bit ones, on the first dword
  and the next one.\<close>

definition decode64_late :: "MCSubtargetInfo \<Rightarrow> Tables \<Rightarrow> u64 \<Rightarrow> u32 \<Rightarrow> gi_stmt" where
  "decode64_late STI T Address DW = (\<lambda>(Res, MI, D, IsSDWA).
     if length (Bytes D) < 4 then Some (Break (Res, MI, D, IsSDWA))
     else
       (let QW = Insn64 (push_bit 32 (ucast (read32 (Bytes D) 0)) OR ucast DW);
            D1 = D\<lparr>Bytes := drop 4 (Bytes D)\<rparr>
        in run_stmts
          [stmt_if (hasFeature STI FeatureGFX940Insts)
             [try_break (tryDecodeInst T DecoderTableGFX94064 QW Address)],
           stmt_if (hasFeature STI FeatureGFX90AInsts)
             [try_break (tryDecodeInst T DecoderTableGFX90A64 QW Address)],
           try_break (tryDecodeInst T DecoderTableGFX864 QW Address),
           try_break (tryDecodeInst T DecoderTableAMDGPU64 QW Address),
           try_break (tryDecodeInst T DecoderTableGFX964 QW Address),
           try_break (tryDecodeInst T DecoderTableGFX1064 QW Address),
           try_break (tryDecodeInst2 T DecoderTableGFX1264 DecoderTableGFX12_FAKE1664 QW Address),
           try_break (tryDecodeInst2 T DecoderTableGFX1164 DecoderTableGFX11_FAKE1664 QW Address),
           (\<lambda>(Res, MI, D, IsSDWA).
              case tryDecodeInst T DecoderTableWMMAGFX1164 QW Address MI D of
                (Res', MI', D') \<Rightarrow> Some (Next (Res', MI', D', IsSDWA)))]
          (Res, MI, D1, IsSDWA)))"

text \<open>Lines 630-663, followed by the late 64-bit tables.\<close>

definition decode32 :: "MCSubtargetInfo \<Rightarrow> Tables \<Rightarrow> u64 \<Rightarrow> gi_stmt" where
  "decode32 STI T Address = (\<lambda>(Res, MI, D, IsSDWA).
     if length (Bytes D) < 4 then Some (Break (Res, MI, D, IsSDWA))
     else
       (let DW = read32 (Bytes D) 0;
            D1 = D\<lparr>Bytes := drop 4 (Bytes D)\<rparr>
        in run_stmts
          [try_break (tryDecodeInst T DecoderTableGFX832 (Insn32 DW) Address),
           try_break (tryDecodeInst T DecoderTableAMDGPU32 (Insn32 DW) Address),
           try_break (tryDecodeInst T DecoderTableGFX932 (Insn32 DW) Address),
           stmt_if (hasFeature STI FeatureGFX90AInsts)
             [try_break (tryDecodeInst T DecoderTableGFX90A32 (Insn32 DW) Address)],
           stmt_if (hasFeature STI FeatureGFX10_BEncoding)
             [try_break (tryDecodeInst T DecoderTableGFX10_B32 (Insn32 DW) Address)],
           try_break (tryDecodeInst T DecoderTableGFX1032 (Insn32 DW) Address),
           try_break (tryDecodeInst2 T DecoderTableGFX1132 DecoderTableGFX11_FAKE1632
                        (Insn32 DW) Address),
           try_break (tryDecodeInst2 T DecoderTableGFX1232 DecoderTableGFX12_FAKE1632
                        (Insn32 DW) Address),
           decode64_late STI T Address DW]
          (Res, MI, D1, IsSDWA)))"

text \<open>The whole loop body (lines 497-703), from \<^verbatim>\<open>Res = Fail\<close> and
  \<^verbatim>\<open>IsSDWA = false\<close>; the state after the loop, however it was left.\<close>

definition getInstruction_cascade ::
  "MCSubtargetInfo \<Rightarrow> Tables \<Rightarrow> u8 list \<Rightarrow> nat \<Rightarrow> u64 \<Rightarrow> MCInst \<Rightarrow> Disasm \<Rightarrow> gi_state option" where
  "getInstruction_cascade STI T Bytes_arg MaxInstBytesNum Address MI D =
     map_option (\<lambda>f. case f of Break s \<Rightarrow> s | Next s \<Rightarrow> s)
       (run_stmts
          [decode96 STI T Address,
           reinit_Bytes Bytes_arg MaxInstBytesNum,
           decode64 STI T Address,
           reinit_Bytes Bytes_arg MaxInstBytesNum,
           decode32 STI T Address]
          (Fail, MI, D\<lparr>Bytes := take MaxInstBytesNum Bytes_arg\<rparr>, False))"

subsection \<open>\<^verbatim>\<open>getInstruction\<close>: after the cascade (lines 705-822)\<close>

text \<open>Each block below is one \<^verbatim>\<open>if (Res && ...)\<close> statement; it maps the state
  \<^verbatim>\<open>Res\<close>, \<^verbatim>\<open>MI\<close> and the mutable members to the state after it.\<close>

type_synonym post_state = "DecodeStatus \<times> MCInst \<times> Disasm"

text \<open>Lines 705-709 and 711-714.\<close>

definition post_MAC :: "Tables \<Rightarrow> post_state \<Rightarrow> post_state option" where
  "post_MAC T = (\<lambda>(Res, MI, D).
     if truthy Res \<and> isMAC T (Opcode MI)
     then map_option (\<lambda>MI'. (Res, MI', D))
            (insertNamedMCOperand T MI (createImm 0) OpName_src2_modifiers)
     else Some (Res, MI, D))"

definition post_DS :: "MCSubtargetInfo \<Rightarrow> Tables \<Rightarrow> post_state \<Rightarrow> post_state option" where
  "post_DS STI T = (\<lambda>(Res, MI, D).
     if truthy Res \<and> hasTSFlag T (Opcode MI) {DS} \<and> \<not> AMDGPU_hasGDS STI
     then map_option (\<lambda>MI'. (Res, MI', D)) (insertNamedMCOperand T MI (createImm 0) OpName_gds)
     else Some (Res, MI, D))"

text \<open>Lines 716-731.\<close>

definition post_CPol :: "Tables \<Rightarrow> post_state \<Rightarrow> post_state option" where
  "post_CPol T = (\<lambda>(Res, MI, D).
     if truthy Res \<and> hasTSFlag T (Opcode MI) {MUBUF, FLAT, SMRD} then
       (let CPolPos = getNamedOperandIdx T (Opcode MI) OpName_cpol in
        if CPolPos \<noteq> - 1 then
          (let CPol = (if hasTSFlag T (Opcode MI) {IsAtomicRet} then CPol_GLC T else 0) in
           if getNumOperands MI \<le> to_unsigned CPolPos then
             map_option (\<lambda>MI'. (Res, MI', D))
               (insertNamedMCOperand T MI (createImm CPol) OpName_cpol)
           else if CPol \<noteq> 0 then
             do { v \<leftarrow> getOperandImm MI CPolPos;
                  MI' \<leftarrow> setOperand MI CPolPos (createImm (v OR CPol));
                  Some (Res, MI', D) }
           else Some (Res, MI, D))
        else Some (Res, MI, D))
     else Some (Res, MI, D))"

text \<open>Lines 733-744 and 746-755.\<close>

definition post_TFE :: "MCSubtargetInfo \<Rightarrow> Tables \<Rightarrow> post_state \<Rightarrow> post_state option" where
  "post_TFE STI T = (\<lambda>(Res, MI, D).
     if truthy Res \<and> hasTSFlag T (Opcode MI) {MTBUF, MUBUF} \<and> hasFeature STI FeatureGFX90AInsts then
       (let TFEOpIdx = getNamedOperandIdx T (Opcode MI) OpName_tfe in
        if TFEOpIdx \<noteq> - 1
        then map_option (\<lambda>MI'. (Res, MI', D)) (insertOperand MI TFEOpIdx (createImm 0))
        else Some (Res, MI, D))
     else Some (Res, MI, D))"

definition post_SWZ :: "Tables \<Rightarrow> post_state \<Rightarrow> post_state option" where
  "post_SWZ T = (\<lambda>(Res, MI, D).
     if truthy Res \<and> hasTSFlag T (Opcode MI) {MTBUF, MUBUF} then
       (let SWZOpIdx = getNamedOperandIdx T (Opcode MI) OpName_swz in
        if SWZOpIdx \<noteq> - 1
        then map_option (\<lambda>MI'. (Res, MI', D)) (insertOperand MI SWZOpIdx (createImm 0))
        else Some (Res, MI, D))
     else Some (Res, MI, D))"

text \<open>Lines 758-777, the NSA address operands of a MIMG instruction. The loop of lines
  768-774 inserts one register operand per trailing byte.\<close>

fun insertNSA :: "Tables \<Rightarrow> int \<Rightarrow> u8 list \<Rightarrow> nat list \<Rightarrow> MCInst \<Rightarrow> MCInst option" where
  "insertNSA T vaddr0Idx Bs [] MI = Some MI"
| "insertNSA T vaddr0Idx Bs (i # is) MI =
     do { let VAddrIdx = vaddr0Idx + 1 + int i;
          OpInfo \<leftarrow> nth_option (operands (MCII_get T (Opcode MI))) VAddrIdx;
          b \<leftarrow> nth_option Bs (int i);
          Op \<leftarrow> createRegOperand T (to_unsigned (RegClass OpInfo)) (unat b);
          MI1 \<leftarrow> insertOperand MI VAddrIdx Op;
          insertNSA T vaddr0Idx Bs is MI1 }"

definition post_NSA :: "Tables \<Rightarrow> post_state \<Rightarrow> post_state option" where
  "post_NSA T = (\<lambda>(Res, MI, D).
     let vaddr0Idx = getNamedOperandIdx T (Opcode MI) OpName_vaddr0;
         rsrcIdx = getNamedOperandIdx T (Opcode MI) OpName_srsrc;
         NSAArgs = (word_of_int (rsrcIdx - vaddr0Idx - 1) :: u32)
     in if vaddr0Idx \<ge> 0 \<and> NSAArgs > 0 then
          (let NSAWords = (NSAArgs + 3) div 4 in
           if length (Bytes D) < unat (4 * NSAWords) then Some (Fail, MI, D)
           else
             do { MI' \<leftarrow> insertNSA T vaddr0Idx (Bytes D) [0..<unat NSAArgs] MI;
                  Some (Res, MI', D\<lparr>Bytes := drop (unat (4 * NSAWords)) (Bytes D)\<rparr>) })
        else Some (Res, MI, D))"

text \<open>Lines 757-781 and 783-785.\<close>

definition post_convert ::
  "(MCInst \<Rightarrow> (DecodeStatus \<times> MCInst) option) \<Rightarrow> post_state \<Rightarrow> post_state option" where
  "post_convert conv = (\<lambda>(Res, MI, D). map_option (\<lambda>(Res', MI'). (Res', MI', D)) (conv MI))"

definition post_MIMG :: "MCSubtargetInfo \<Rightarrow> Tables \<Rightarrow> post_state \<Rightarrow> post_state option" where
  "post_MIMG STI T = (\<lambda>(Res, MI, D).
     if truthy Res \<and> hasTSFlag T (Opcode MI) {MIMG} then
       do { (Res1, MI1, D1) \<leftarrow> post_NSA T (Res, MI, D);
            if truthy Res1 then post_convert (convertMIMGInst STI T) (Res1, MI1, D1)
            else Some (Res1, MI1, D1) }
     else Some (Res, MI, D))"

definition post_if ::
  "(MCInst \<Rightarrow> bool) \<Rightarrow> (MCInst \<Rightarrow> (DecodeStatus \<times> MCInst) option) \<Rightarrow> post_state \<Rightarrow>
   post_state option" where
  "post_if cond conv = (\<lambda>(Res, MI, D).
     if truthy Res \<and> cond MI then post_convert conv (Res, MI, D) else Some (Res, MI, D))"

text \<open>Lines 796-810, which do not look at \<^verbatim>\<open>Res\<close>.\<close>

definition post_vdst_in :: "Tables \<Rightarrow> MCInst \<Rightarrow> MCInst option" where
  "post_vdst_in T MI =
     (let VDstIn_Idx = getNamedOperandIdx T (Opcode MI) OpName_vdst_in in
      if VDstIn_Idx \<noteq> - 1 then
        (let Tied = TIED_TO (MCII_get T (Opcode MI)) (to_unsigned VDstIn_Idx) in
         if Tied = - 1 then Some MI
         else
           do { differs \<leftarrow>
                  (if getNumOperands MI \<le> to_unsigned VDstIn_Idx then Some True
                   else do { Op \<leftarrow> getOperand MI (int (to_unsigned VDstIn_Idx));
                             if \<not> isReg Op then Some True
                             else do { r1 \<leftarrow> getReg Op;
                                       r2 \<leftarrow> getOperandReg MI Tied;
                                       Some (r1 \<noteq> r2) } });
                if differs then
                  do { MI1 \<leftarrow> (if getNumOperands MI > to_unsigned VDstIn_Idx
                               then eraseOperand MI (int (to_unsigned VDstIn_Idx)) else Some MI);
                       r \<leftarrow> getOperandReg MI1 Tied;
                       insertNamedMCOperand T MI1 (createReg r) OpName_vdst_in }
                else Some MI })
      else Some MI)"

text \<open>Lines 812-816.\<close>

definition post_ImmLit :: "Tables \<Rightarrow> post_state \<Rightarrow> post_state option" where
  "post_ImmLit T = (\<lambda>(Res, MI, D).
     let ImmLitIdx = getNamedOperandIdx T (Opcode MI) OpName_imm;
         IsSOPK = hasTSFlag T (Opcode MI) {SOPK}
     in if truthy Res \<and> ImmLitIdx \<noteq> - 1 \<and> \<not> IsSOPK
        then post_convert (\<lambda>MI. convertFMAanyK T D MI ImmLitIdx) (Res, MI, D)
        else Some (Res, MI, D))"

text \<open>Lines 783-816: the fixups after the MIMG block, with \<^verbatim>\<open>IsSDWA\<close> of the
  cascade.\<close>

definition post_rest :: "MCSubtargetInfo \<Rightarrow> Tables \<Rightarrow> bool \<Rightarrow> post_state \<Rightarrow> post_state option" where
  "post_rest STI T IsSDWA s6 =
     do { s7 \<leftarrow> post_if (\<lambda>MI. hasTSFlag T (Opcode MI) {VIMAGE, VSAMPLE}) (convertMIMGInst STI T) s6;
          s8 \<leftarrow> post_if (\<lambda>MI. hasTSFlag T (Opcode MI) {EXP}) (convertEXPInst STI T) s7;
          s9 \<leftarrow> post_if (\<lambda>MI. hasTSFlag T (Opcode MI) {VINTERP}) (convertVINTERPInst T) s8;
          (Res10, MI10, D10) \<leftarrow> post_if (\<lambda>MI. IsSDWA) (convertSDWAInst STI T) s9;
          MI11 \<leftarrow> post_vdst_in T MI10;
          post_ImmLit T (Res10, MI11, D10) }"

text \<open>Lines 705-816: all the fixups.\<close>

definition getInstruction_fixups ::
  "MCSubtargetInfo \<Rightarrow> Tables \<Rightarrow> bool \<Rightarrow> post_state \<Rightarrow> post_state option" where
  "getInstruction_fixups STI T IsSDWA s0 =
     do { s1 \<leftarrow> post_MAC T s0;
          s2 \<leftarrow> post_DS STI T s1;
          s3 \<leftarrow> post_CPol T s2;
          s4 \<leftarrow> post_TFE STI T s3;
          s5 \<leftarrow> post_SWZ T s4;
          s6 \<leftarrow> post_MIMG STI T s5;
          post_rest STI T IsSDWA s6 }"

text \<open>
  \<^verbatim>\<open>getInstruction\<close>. The result is the status, \<^verbatim>\<open>Size\<close>, the instruction and the
  mutable members after the call. \<^verbatim>\<open>Size\<close> is computed in \<^verbatim>\<open>size_t\<close>, 64 bits wide.
\<close>

definition getInstruction ::
  "MCSubtargetInfo \<Rightarrow> Tables \<Rightarrow> MCInst \<Rightarrow> Disasm \<Rightarrow> u8 list \<Rightarrow> u64 \<Rightarrow>
   (DecodeStatus \<times> nat \<times> MCInst \<times> Disasm) option" where
  "getInstruction STI T MI D Bytes_arg Address =
     (let MaxInstBytesNum = min (TargetMaxInstBytes T) (length Bytes_arg) in
      do { (Res0, MI0, D0, IsSDWA) \<leftarrow>
             getInstruction_cascade STI T Bytes_arg MaxInstBytesNum Address MI D;
           (Res, MI', D') \<leftarrow> getInstruction_fixups STI T IsSDWA (Res0, MI0, D0);
           let Size = (if truthy Res
                       then nat ((int MaxInstBytesNum - int (length (Bytes D'))) mod 2 ^ 64)
                       else min 4 (length Bytes_arg)) in
           Some (Res, Size, MI', D') })"

subsection \<open>Notions used to state the properties of the kernel descriptor decoder\<close>

text \<open>The layout the decoder's \<^verbatim>\<open>switch\<close> needs: the fields follow one another from
  offset 0 with the sizes the cases read (4, 4, 4, 4, 8, 20, 4, 4, 4, 2, 2 and 4 bytes),
  which fills the 64 bytes.\<close>

definition amdhsa_offsets_ok :: "amdhsa \<Rightarrow> bool" where
  "amdhsa_offsets_ok L =
     (OFFSET L GROUP_SEGMENT_FIXED_SIZE_OFFSET = 0 \<and>
      OFFSET L PRIVATE_SEGMENT_FIXED_SIZE_OFFSET = 4 \<and>
      OFFSET L KERNARG_SIZE_OFFSET = 8 \<and>
      OFFSET L RESERVED0_OFFSET = 12 \<and>
      OFFSET L KERNEL_CODE_ENTRY_BYTE_OFFSET_OFFSET = 16 \<and>
      OFFSET L RESERVED1_OFFSET = 24 \<and>
      OFFSET L COMPUTE_PGM_RSRC3_OFFSET = 44 \<and>
      OFFSET L COMPUTE_PGM_RSRC1_OFFSET = 48 \<and>
      OFFSET L COMPUTE_PGM_RSRC2_OFFSET = 52 \<and>
      OFFSET L KERNEL_CODE_PROPERTIES_OFFSET = 56 \<and>
      OFFSET L KERNARG_PRELOAD_OFFSET = 58 \<and>
      OFFSET L RESERVED3_OFFSET = 60)"

text \<open>What the twelve fields of a 64-byte record decode to, in the order of their
  offsets: the status and the lines of each.\<close>

definition kd_fields ::
  "MCSubtargetInfo \<Rightarrow> amdhsa \<Rightarrow> string \<Rightarrow> Disasm \<Rightarrow> u8 list \<Rightarrow> (DecodeStatus \<times> KdLine list) list" where
  "kd_fields STI L CommentString D Data =
     [(Success, [KdDirective ''.amdhsa_group_segment_fixed_size'' (unat (read32 Data 0))]),
      (Success, [KdDirective ''.amdhsa_private_segment_fixed_size'' (unat (read32 Data 4))]),
      (Success, [KdDirective ''.amdhsa_kernarg_size'' (unat (read32 Data 8))]),
      (checkReservedBytes (take 4 (drop 12 Data)), []),
      (Success, []),
      (checkReservedBytes (take 20 (drop 24 Data)), []),
      decodeCOMPUTE_PGM_RSRC3 STI L CommentString D (read32 Data 44),
      decodeCOMPUTE_PGM_RSRC1 STI L D (read32 Data 48),
      decodeCOMPUTE_PGM_RSRC2 STI L (read32 Data 52),
      decodeKernelCodeProperties STI L (read16 Data 56),
      decodeKernargPreload L (read16 Data 58),
      (checkReservedBytes (take 4 (drop 60 Data)), [])]"

text \<open>The loop over a list of field results: it stops at the first \<open>Fail\<close>.\<close>

fun run_fields :: "(DecodeStatus \<times> KdLine list) list \<Rightarrow> KdLine list \<Rightarrow> DecodeStatus \<times> KdLine list" where
  "run_fields [] Kd = (Success, Kd)"
| "run_fields (f # fs) Kd = (if fst f = Fail then (Fail, Kd @ snd f) else run_fields fs (Kd @ snd f))"

text \<open>The targeted read of lines 2233-2240: on GFX10 and later the disassembler keeps the
  wavefront-size-32 bit of the kernel code properties before the fields are decoded.\<close>

definition lookupWavefrontSize32 :: "MCSubtargetInfo \<Rightarrow> amdhsa \<Rightarrow> Disasm \<Rightarrow> u8 list \<Rightarrow> Disasm" where
  "lookupWavefrontSize32 STI L D Data =
     (if isGFX10Plus STI
      then D\<lparr>EnableWavefrontSize32 := Some
             (AMDHSA_BITS_GET (ucast (read16 Data (OFFSET L KERNEL_CODE_PROPERTIES_OFFSET)))
                (KCP L KERNEL_CODE_PROPERTY_ENABLE_WAVEFRONT_SIZE32) \<noteq> 0)\<rparr>
      else D)"

text \<open>\<^verbatim>\<open>AMDHSA_BITS_ENUM_ENTRY(NAME, SHIFT, WIDTH)\<close>: the mask
  \<^verbatim>\<open>((1 << WIDTH) - 1) << SHIFT\<close> and the shift. The layout of LLVM's header follows, for
  running the decoder on concrete records.\<close>

definition AMDHSA_BITS_ENUM_ENTRY :: "nat \<Rightarrow> nat \<Rightarrow> bits" where
  "AMDHSA_BITS_ENUM_ENTRY SHIFT WIDTH = (push_bit SHIFT (mask WIDTH), SHIFT)"

fun OFFSET_llvm :: "KdOffset \<Rightarrow> nat" where
  "OFFSET_llvm GROUP_SEGMENT_FIXED_SIZE_OFFSET = 0"
| "OFFSET_llvm PRIVATE_SEGMENT_FIXED_SIZE_OFFSET = 4"
| "OFFSET_llvm KERNARG_SIZE_OFFSET = 8"
| "OFFSET_llvm RESERVED0_OFFSET = 12"
| "OFFSET_llvm KERNEL_CODE_ENTRY_BYTE_OFFSET_OFFSET = 16"
| "OFFSET_llvm RESERVED1_OFFSET = 24"
| "OFFSET_llvm COMPUTE_PGM_RSRC3_OFFSET = 44"
| "OFFSET_llvm COMPUTE_PGM_RSRC1_OFFSET = 48"
| "OFFSET_llvm COMPUTE_PGM_RSRC2_OFFSET = 52"
| "OFFSET_llvm KERNEL_CODE_PROPERTIES_OFFSET = 56"
| "OFFSET_llvm KERNARG_PRELOAD_OFFSET = 58"
| "OFFSET_llvm RESERVED3_OFFSET = 60"

fun RSRC1_llvm :: "Rsrc1Field \<Rightarrow> bits" where
  "RSRC1_llvm COMPUTE_PGM_RSRC1_GRANULATED_WORKITEM_VGPR_COUNT = AMDHSA_BITS_ENUM_ENTRY 0 6"
| "RSRC1_llvm COMPUTE_PGM_RSRC1_GRANULATED_WAVEFRONT_SGPR_COUNT = AMDHSA_BITS_ENUM_ENTRY 6 4"
| "RSRC1_llvm COMPUTE_PGM_RSRC1_PRIORITY = AMDHSA_BITS_ENUM_ENTRY 10 2"
| "RSRC1_llvm COMPUTE_PGM_RSRC1_FLOAT_ROUND_MODE_32 = AMDHSA_BITS_ENUM_ENTRY 12 2"
| "RSRC1_llvm COMPUTE_PGM_RSRC1_FLOAT_ROUND_MODE_16_64 = AMDHSA_BITS_ENUM_ENTRY 14 2"
| "RSRC1_llvm COMPUTE_PGM_RSRC1_FLOAT_DENORM_MODE_32 = AMDHSA_BITS_ENUM_ENTRY 16 2"
| "RSRC1_llvm COMPUTE_PGM_RSRC1_FLOAT_DENORM_MODE_16_64 = AMDHSA_BITS_ENUM_ENTRY 18 2"
| "RSRC1_llvm COMPUTE_PGM_RSRC1_PRIV = AMDHSA_BITS_ENUM_ENTRY 20 1"
| "RSRC1_llvm COMPUTE_PGM_RSRC1_GFX6_GFX11_ENABLE_DX10_CLAMP = AMDHSA_BITS_ENUM_ENTRY 21 1"
| "RSRC1_llvm COMPUTE_PGM_RSRC1_GFX12_PLUS_ENABLE_WG_RR_EN = AMDHSA_BITS_ENUM_ENTRY 21 1"
| "RSRC1_llvm COMPUTE_PGM_RSRC1_DEBUG_MODE = AMDHSA_BITS_ENUM_ENTRY 22 1"
| "RSRC1_llvm COMPUTE_PGM_RSRC1_GFX6_GFX11_ENABLE_IEEE_MODE = AMDHSA_BITS_ENUM_ENTRY 23 1"
| "RSRC1_llvm COMPUTE_PGM_RSRC1_BULKY = AMDHSA_BITS_ENUM_ENTRY 24 1"
| "RSRC1_llvm COMPUTE_PGM_RSRC1_CDBG_USER = AMDHSA_BITS_ENUM_ENTRY 25 1"
| "RSRC1_llvm COMPUTE_PGM_RSRC1_GFX6_GFX8_RESERVED0 = AMDHSA_BITS_ENUM_ENTRY 26 1"
| "RSRC1_llvm COMPUTE_PGM_RSRC1_GFX9_PLUS_FP16_OVFL = AMDHSA_BITS_ENUM_ENTRY 26 1"
| "RSRC1_llvm COMPUTE_PGM_RSRC1_RESERVED1 = AMDHSA_BITS_ENUM_ENTRY 27 2"
| "RSRC1_llvm COMPUTE_PGM_RSRC1_GFX6_GFX9_RESERVED2 = AMDHSA_BITS_ENUM_ENTRY 29 3"
| "RSRC1_llvm COMPUTE_PGM_RSRC1_GFX10_PLUS_WGP_MODE = AMDHSA_BITS_ENUM_ENTRY 29 1"
| "RSRC1_llvm COMPUTE_PGM_RSRC1_GFX10_PLUS_MEM_ORDERED = AMDHSA_BITS_ENUM_ENTRY 30 1"
| "RSRC1_llvm COMPUTE_PGM_RSRC1_GFX10_PLUS_FWD_PROGRESS = AMDHSA_BITS_ENUM_ENTRY 31 1"

fun RSRC2_llvm :: "Rsrc2Field \<Rightarrow> bits" where
  "RSRC2_llvm COMPUTE_PGM_RSRC2_ENABLE_PRIVATE_SEGMENT = AMDHSA_BITS_ENUM_ENTRY 0 1"
| "RSRC2_llvm COMPUTE_PGM_RSRC2_ENABLE_SGPR_WORKGROUP_ID_X = AMDHSA_BITS_ENUM_ENTRY 7 1"
| "RSRC2_llvm COMPUTE_PGM_RSRC2_ENABLE_SGPR_WORKGROUP_ID_Y = AMDHSA_BITS_ENUM_ENTRY 8 1"
| "RSRC2_llvm COMPUTE_PGM_RSRC2_ENABLE_SGPR_WORKGROUP_ID_Z = AMDHSA_BITS_ENUM_ENTRY 9 1"
| "RSRC2_llvm COMPUTE_PGM_RSRC2_ENABLE_SGPR_WORKGROUP_INFO = AMDHSA_BITS_ENUM_ENTRY 10 1"
| "RSRC2_llvm COMPUTE_PGM_RSRC2_ENABLE_VGPR_WORKITEM_ID = AMDHSA_BITS_ENUM_ENTRY 11 2"
| "RSRC2_llvm COMPUTE_PGM_RSRC2_ENABLE_EXCEPTION_ADDRESS_WATCH = AMDHSA_BITS_ENUM_ENTRY 13 1"
| "RSRC2_llvm COMPUTE_PGM_RSRC2_ENABLE_EXCEPTION_MEMORY = AMDHSA_BITS_ENUM_ENTRY 14 1"
| "RSRC2_llvm COMPUTE_PGM_RSRC2_GRANULATED_LDS_SIZE = AMDHSA_BITS_ENUM_ENTRY 15 9"
| "RSRC2_llvm COMPUTE_PGM_RSRC2_ENABLE_EXCEPTION_IEEE_754_FP_INVALID_OPERATION = AMDHSA_BITS_ENUM_ENTRY 24 1"
| "RSRC2_llvm COMPUTE_PGM_RSRC2_ENABLE_EXCEPTION_FP_DENORMAL_SOURCE = AMDHSA_BITS_ENUM_ENTRY 25 1"
| "RSRC2_llvm COMPUTE_PGM_RSRC2_ENABLE_EXCEPTION_IEEE_754_FP_DIVISION_BY_ZERO = AMDHSA_BITS_ENUM_ENTRY 26 1"
| "RSRC2_llvm COMPUTE_PGM_RSRC2_ENABLE_EXCEPTION_IEEE_754_FP_OVERFLOW = AMDHSA_BITS_ENUM_ENTRY 27 1"
| "RSRC2_llvm COMPUTE_PGM_RSRC2_ENABLE_EXCEPTION_IEEE_754_FP_UNDERFLOW = AMDHSA_BITS_ENUM_ENTRY 28 1"
| "RSRC2_llvm COMPUTE_PGM_RSRC2_ENABLE_EXCEPTION_IEEE_754_FP_INEXACT = AMDHSA_BITS_ENUM_ENTRY 29 1"
| "RSRC2_llvm COMPUTE_PGM_RSRC2_ENABLE_EXCEPTION_INT_DIVIDE_BY_ZERO = AMDHSA_BITS_ENUM_ENTRY 30 1"
| "RSRC2_llvm COMPUTE_PGM_RSRC2_RESERVED0 = AMDHSA_BITS_ENUM_ENTRY 31 1"

fun RSRC3_llvm :: "Rsrc3Field \<Rightarrow> bits" where
  "RSRC3_llvm COMPUTE_PGM_RSRC3_GFX90A_ACCUM_OFFSET = AMDHSA_BITS_ENUM_ENTRY 0 6"
| "RSRC3_llvm COMPUTE_PGM_RSRC3_GFX90A_RESERVED0 = AMDHSA_BITS_ENUM_ENTRY 6 10"
| "RSRC3_llvm COMPUTE_PGM_RSRC3_GFX90A_TG_SPLIT = AMDHSA_BITS_ENUM_ENTRY 16 1"
| "RSRC3_llvm COMPUTE_PGM_RSRC3_GFX90A_RESERVED1 = AMDHSA_BITS_ENUM_ENTRY 17 15"
| "RSRC3_llvm COMPUTE_PGM_RSRC3_GFX10_GFX11_SHARED_VGPR_COUNT = AMDHSA_BITS_ENUM_ENTRY 0 4"
| "RSRC3_llvm COMPUTE_PGM_RSRC3_GFX12_PLUS_RESERVED0 = AMDHSA_BITS_ENUM_ENTRY 0 4"
| "RSRC3_llvm COMPUTE_PGM_RSRC3_GFX10_RESERVED1 = AMDHSA_BITS_ENUM_ENTRY 4 8"
| "RSRC3_llvm COMPUTE_PGM_RSRC3_GFX11_INST_PREF_SIZE = AMDHSA_BITS_ENUM_ENTRY 4 6"
| "RSRC3_llvm COMPUTE_PGM_RSRC3_GFX11_TRAP_ON_START = AMDHSA_BITS_ENUM_ENTRY 10 1"
| "RSRC3_llvm COMPUTE_PGM_RSRC3_GFX11_TRAP_ON_END = AMDHSA_BITS_ENUM_ENTRY 11 1"
| "RSRC3_llvm COMPUTE_PGM_RSRC3_GFX12_PLUS_INST_PREF_SIZE = AMDHSA_BITS_ENUM_ENTRY 4 8"
| "RSRC3_llvm COMPUTE_PGM_RSRC3_GFX10_PLUS_RESERVED2 = AMDHSA_BITS_ENUM_ENTRY 12 1"
| "RSRC3_llvm COMPUTE_PGM_RSRC3_GFX10_GFX11_RESERVED3 = AMDHSA_BITS_ENUM_ENTRY 13 1"
| "RSRC3_llvm COMPUTE_PGM_RSRC3_GFX12_PLUS_GLG_EN = AMDHSA_BITS_ENUM_ENTRY 13 1"
| "RSRC3_llvm COMPUTE_PGM_RSRC3_GFX10_PLUS_RESERVED4 = AMDHSA_BITS_ENUM_ENTRY 14 17"
| "RSRC3_llvm COMPUTE_PGM_RSRC3_GFX10_RESERVED5 = AMDHSA_BITS_ENUM_ENTRY 31 1"
| "RSRC3_llvm COMPUTE_PGM_RSRC3_GFX11_PLUS_IMAGE_OP = AMDHSA_BITS_ENUM_ENTRY 31 1"

fun KCP_llvm :: "KcpField \<Rightarrow> bits" where
  "KCP_llvm KERNEL_CODE_PROPERTY_ENABLE_SGPR_PRIVATE_SEGMENT_BUFFER = AMDHSA_BITS_ENUM_ENTRY 0 1"
| "KCP_llvm KERNEL_CODE_PROPERTY_ENABLE_SGPR_DISPATCH_PTR = AMDHSA_BITS_ENUM_ENTRY 1 1"
| "KCP_llvm KERNEL_CODE_PROPERTY_ENABLE_SGPR_QUEUE_PTR = AMDHSA_BITS_ENUM_ENTRY 2 1"
| "KCP_llvm KERNEL_CODE_PROPERTY_ENABLE_SGPR_KERNARG_SEGMENT_PTR = AMDHSA_BITS_ENUM_ENTRY 3 1"
| "KCP_llvm KERNEL_CODE_PROPERTY_ENABLE_SGPR_DISPATCH_ID = AMDHSA_BITS_ENUM_ENTRY 4 1"
| "KCP_llvm KERNEL_CODE_PROPERTY_ENABLE_SGPR_FLAT_SCRATCH_INIT = AMDHSA_BITS_ENUM_ENTRY 5 1"
| "KCP_llvm KERNEL_CODE_PROPERTY_ENABLE_SGPR_PRIVATE_SEGMENT_SIZE = AMDHSA_BITS_ENUM_ENTRY 6 1"
| "KCP_llvm KERNEL_CODE_PROPERTY_RESERVED0 = AMDHSA_BITS_ENUM_ENTRY 7 3"
| "KCP_llvm KERNEL_CODE_PROPERTY_ENABLE_WAVEFRONT_SIZE32 = AMDHSA_BITS_ENUM_ENTRY 10 1"
| "KCP_llvm KERNEL_CODE_PROPERTY_USES_DYNAMIC_STACK = AMDHSA_BITS_ENUM_ENTRY 11 1"
| "KCP_llvm KERNEL_CODE_PROPERTY_RESERVED1 = AMDHSA_BITS_ENUM_ENTRY 12 4"

fun PRELOAD_llvm :: "PreloadField \<Rightarrow> bits" where
  "PRELOAD_llvm KERNARG_PRELOAD_SPEC_LENGTH = AMDHSA_BITS_ENUM_ENTRY 0 7"
| "PRELOAD_llvm KERNARG_PRELOAD_SPEC_OFFSET = AMDHSA_BITS_ENUM_ENTRY 7 9"

definition amdhsa_llvm :: amdhsa where
  "amdhsa_llvm = \<lparr>OFFSET = OFFSET_llvm, RSRC1 = RSRC1_llvm, RSRC2 = RSRC2_llvm,
     RSRC3 = RSRC3_llvm, KCP = KCP_llvm, PRELOAD = PRELOAD_llvm, AMDHSA_COV5 = 5\<rparr>"

text \<open>A GFX10.3 and a GFX11 subtarget, a fresh disassembler and three records: \<open>kd_example\<close> has a
  granulated VGPR count of 3 and the wavefront-size-32 bit set, \<open>kd_example2\<close> the same
  count with the bit clear, \<open>kd_example_sgpr\<close> a nonzero granulated SGPR count.\<close>

definition STI_gfx1030 :: MCSubtargetInfo where
  "STI_gfx1030 = \<lparr>hasFeature = (\<lambda>F. F \<in> {FeatureGFX10, FeatureGFX10_BEncoding, FeatureNSAEncoding}),
     AMDGPU_isGFX9 = False, AMDGPU_isGFX9Plus = True, AMDGPU_isGFX10 = True,
     AMDGPU_isGFX10Plus = True, AMDGPU_isGFX11Plus = False, AMDGPU_isGFX12Plus = False,
     AMDGPU_hasGDS = True, AMDGPU_hasG16 = True, AMDGPU_hasPackedD16 = True,
     AMDGPU_hasVOPD = False, AMDGPU_hasKernargPreload = False,
     getVGPREncodingGranule = (\<lambda>W. if W = Some True then 8 else 4),
     getSGPREncodingGranule = 8, getAmdhsaCodeObjectVersion = 5\<rparr>"

definition STI_gfx1100 :: MCSubtargetInfo where
  "STI_gfx1100 = \<lparr>hasFeature = (\<lambda>F. F \<in> {FeatureGFX11, FeatureGFX11Insts, FeatureNSAEncoding,
       FeaturePartialNSAEncoding}),
     AMDGPU_isGFX9 = False, AMDGPU_isGFX9Plus = True, AMDGPU_isGFX10 = False,
     AMDGPU_isGFX10Plus = True, AMDGPU_isGFX11Plus = True, AMDGPU_isGFX12Plus = False,
     AMDGPU_hasGDS = True, AMDGPU_hasG16 = True, AMDGPU_hasPackedD16 = True,
     AMDGPU_hasVOPD = True, AMDGPU_hasKernargPreload = False,
     getVGPREncodingGranule = (\<lambda>W. if W = Some True then 8 else 4),
     getSGPREncodingGranule = 8, getAmdhsaCodeObjectVersion = 5\<rparr>"

definition Disasm_init :: Disasm where
  "Disasm_init = \<lparr>Bytes = [], HasLiteral = False, Literal = 0, Literal64 = 0,
     EnableWavefrontSize32 = None\<rparr>"

definition kd_example :: "u8 list" where
  "kd_example = [0,0,0,0, 0,0,0,0, 0,0,0,0, 0,0,0,0,
                 0,0,0,0, 0,0,0,0, 0,0,0,0, 0,0,0,0,
                 0,0,0,0, 0,0,0,0, 0,0,0,0, 0,0,0,0,
                 3,0,0,0, 0,0,0,0, 0,4,0,0, 0,0,0,0]"

definition kd_example2 :: "u8 list" where
  "kd_example2 = [0,0,0,0, 0,0,0,0, 0,0,0,0, 0,0,0,0,
                 0,0,0,0, 0,0,0,0, 0,0,0,0, 0,0,0,0,
                 0,0,0,0, 0,0,0,0, 0,0,0,0, 0,0,0,0,
                 3,0,0,0, 0,0,0,0, 0,0,0,0, 0,0,0,0]"

definition kd_example_sgpr :: "u8 list" where
  "kd_example_sgpr = [0,0,0,0, 0,0,0,0, 0,0,0,0, 0,0,0,0,
                 0,0,0,0, 0,0,0,0, 0,0,0,0, 0,0,0,0,
                 0,0,0,0, 0,0,0,0, 0,0,0,0, 0,0,0,0,
                 67,0,0,0, 0,0,0,0, 0,4,0,0, 0,0,0,0]"







subsection \<open>Notions used to state the properties of the instruction decoder\<close>

text \<open>
  The instruction words the cascade of \<^verbatim>\<open>getInstruction\<close> forms from the window \<open>B\<close>, the
  first \<^verbatim>\<open>MaxInstBytesNum\<close> bytes of \<^verbatim>\<open>Bytes_\<close>: the 96-bit word of line 504, the 64-bit
  words of lines 552 and 666, and the dword of line 632.
\<close>

definition cascade_words :: "MCSubtargetInfo \<Rightarrow> u8 list \<Rightarrow> InsnWord list" where
  "cascade_words STI B =
     (if isGFX11Plus STI \<and> 12 \<le> length B then [eat12Bytes B] else []) @
     (if 8 \<le> length B
      then [Insn64 (read64 B 0),
            Insn64 (push_bit 32 (ucast (read32 (drop 4 B) 0)) OR ucast (read32 B 0))]
      else []) @
     (if 4 \<le> length B then [Insn32 (read32 B 0)] else [])"

text \<open>No table matches the window: the lookup of each of these words fails in every table,
  whatever the instruction and the mutable members are.\<close>

definition no_match :: "MCSubtargetInfo \<Rightarrow> Tables \<Rightarrow> u64 \<Rightarrow> u8 list \<Rightarrow> bool" where
  "no_match STI T Address B =
     (\<forall>W \<in> set (cascade_words STI B). \<forall>Table MI D.
        fst (tryDecodeInst T Table W Address MI D) = Fail)"

text \<open>Two properties of the table lookup, which is a parameter: a lookup that fails leaves
  \<^verbatim>\<open>Bytes\<close> as they were, and it leaves the instruction as it was.\<close>

definition restores_Bytes :: "Tables \<Rightarrow> bool" where
  "restores_Bytes T =
     (\<forall>Table W Address MI D.
        fst (tryDecodeInst T Table W Address MI D) = Fail \<longrightarrow>
        Bytes (snd (snd (tryDecodeInst T Table W Address MI D))) = Bytes D)"

definition leaves_MI :: "Tables \<Rightarrow> bool" where
  "leaves_MI T =
     (\<forall>Table W Address MI D.
        fst (tryDecodeInst T Table W Address MI D) = Fail \<longrightarrow>
        fst (snd (tryDecodeInst T Table W Address MI D)) = MI)"

text \<open>
  For the proofs about a window that no table matches: \<open>quiet P Q att\<close> says that the
  lookup \<open>att\<close> fails and keeps the property \<open>P\<close> of the instruction and \<open>Q\<close> of the
  members; \<open>fail_step P Q Q' c\<close> says that the statement \<open>c\<close>, run with \<^verbatim>\<open>Res = Fail\<close>
  and \<^verbatim>\<open>IsSDWA = false\<close>, keeps both, goes on with \<open>Q'\<close> or leaves the loop, and keeps
  \<open>P\<close>. \<open>kept T MI0 M\<close>: if failed lookups leave the instruction alone, \<open>M\<close> is the
  caller's instruction \<open>MI0\<close> or \<^verbatim>\<open>MCInst()\<close>.
\<close>

definition quiet :: "(MCInst \<Rightarrow> bool) \<Rightarrow> (Disasm \<Rightarrow> bool) \<Rightarrow> attempt \<Rightarrow> bool" where
  "quiet P Q att =
     (\<forall>MI D. P MI \<longrightarrow> Q D \<longrightarrow> (\<exists>MI' D'. att MI D = (Fail, MI', D') \<and> P MI' \<and> Q D'))"

definition fail_step ::
  "(MCInst \<Rightarrow> bool) \<Rightarrow> (Disasm \<Rightarrow> bool) \<Rightarrow> (Disasm \<Rightarrow> bool) \<Rightarrow> gi_stmt \<Rightarrow> bool" where
  "fail_step P Q Q' c =
     (\<forall>MI D. P MI \<longrightarrow> Q D \<longrightarrow>
        (\<exists>MI' D'. P MI' \<and>
           (c (Fail, MI, D, False) = Some (Next (Fail, MI', D', False)) \<and> Q' D' \<or>
            c (Fail, MI, D, False) = Some (Break (Fail, MI', D', False)))))"

definition kept :: "Tables \<Rightarrow> MCInst \<Rightarrow> MCInst \<Rightarrow> bool" where
  "kept T MI0 M = (leaves_MI T \<longrightarrow> M = MI0 \<or> M = MCInst_init)"


subsection \<open>A small instance of the tables\<close>

text \<open>
  Four opcodes: 1 is an image load of the default GFX10 MIMG encoding (\<^verbatim>\<open>vdata\<close>,
  \<^verbatim>\<open>vaddr0\<close>, \<^verbatim>\<open>srsrc\<close>, \<^verbatim>\<open>dmask\<close>, \<^verbatim>\<open>dim\<close>), 2 its NSA form with two more address
  operands, 3 a DPP8 move (\<^verbatim>\<open>vdst\<close>, \<^verbatim>\<open>src0\<close>, \<^verbatim>\<open>dpp8\<close>, \<^verbatim>\<open>fi\<close>) and 4 the plain move.
  The table \<^verbatim>\<open>DPP864\<close> and the table \<^verbatim>\<open>GFX1032\<close> both match a dword with the VOP1 bits, the
  first without looking at the \<^verbatim>\<open>fi\<close> field; the table \<^verbatim>\<open>GFX1064\<close> matches a dword with
  the MIMG bits.
\<close>

definition toy_desc :: "nat \<Rightarrow> MCInstrDesc" where
  "toy_desc Opc =
     (let n = (if Opc = 1 then 5 else if Opc = 2 then 7 else if Opc = 3 then 4
               else if Opc = 4 then 2 else 0)
      in \<lparr>TSFlags = (if Opc = 1 \<or> Opc = 2 then {MIMG} else {}),
          NumOperands = n,
          operands = replicate n \<lparr>RegClass = 0, OperandType = OPERAND_OTHER\<rparr>,
          TIED_TO = (\<lambda>i. - 1)\<rparr>)"

definition toy_idx :: "nat \<Rightarrow> OpName \<Rightarrow> int" where
  "toy_idx Opc Name =
     (if Opc = 1 then
        (case Name of OpName_vdata \<Rightarrow> 0 | OpName_vaddr0 \<Rightarrow> 1 | OpName_srsrc \<Rightarrow> 2
         | OpName_dmask \<Rightarrow> 3 | OpName_dim \<Rightarrow> 4 | _ \<Rightarrow> - 1)
      else if Opc = 2 then
        (case Name of OpName_vdata \<Rightarrow> 0 | OpName_vaddr0 \<Rightarrow> 1 | OpName_srsrc \<Rightarrow> 4
         | OpName_dmask \<Rightarrow> 5 | OpName_dim \<Rightarrow> 6 | _ \<Rightarrow> - 1)
      else if Opc = 3 then
        (case Name of OpName_vdst \<Rightarrow> 0 | OpName_dpp8 \<Rightarrow> 2 | OpName_fi \<Rightarrow> 3 | _ \<Rightarrow> - 1)
      else if Opc = 4 then
        (case Name of OpName_vdst \<Rightarrow> 0 | _ \<Rightarrow> - 1)
      else - 1)"

definition lo_dword :: "InsnWord \<Rightarrow> u32" where
  "lo_dword W = (case W of Insn32 w \<Rightarrow> w | Insn64 w \<Rightarrow> ucast w | Insn96 lo hi \<Rightarrow> ucast lo)"

definition toy_is_vop1 :: "u32 \<Rightarrow> bool" where
  "toy_is_vop1 w = (drop_bit 25 w = 0x3F)"

definition toy_is_mimg :: "u32 \<Rightarrow> bool" where
  "toy_is_mimg w = (drop_bit 26 w = 0x3C)"

definition toy_vgpr :: "u64 \<Rightarrow> MCOperand" where
  "toy_vgpr field = kRegister (1 + unat (field AND 0xff))"

definition toy_tryDecodeInst ::
  "DecoderTable \<Rightarrow> InsnWord \<Rightarrow> u64 \<Rightarrow> MCInst \<Rightarrow> Disasm \<Rightarrow> DecodeStatus \<times> MCInst \<times> Disasm" where
  "toy_tryDecodeInst Table W Address MI D =
     (case W of
        Insn32 w \<Rightarrow>
          if Table = DecoderTableGFX1032 \<and> toy_is_vop1 w then
            (Success,
             \<lparr>Opcode = 4, Operands = [toy_vgpr (drop_bit 17 (ucast w)), toy_vgpr (ucast w)]\<rparr>,
             D\<lparr>HasLiteral := False\<rparr>)
          else (Fail, MI, D)
      | Insn64 w \<Rightarrow>
          if Table = DecoderTableDPP864 \<and> toy_is_vop1 (ucast w) then
            (Success,
             \<lparr>Opcode = 3,
              Operands = [toy_vgpr (drop_bit 17 w), toy_vgpr (drop_bit 32 w),
                          kImmediate (drop_bit 40 w), kImmediate (w AND 0x1ff)]\<rparr>,
             D\<lparr>HasLiteral := False\<rparr>)
          else if Table = DecoderTableGFX1064 \<and> toy_is_mimg (ucast w) then
            (Success,
             \<lparr>Opcode = (if drop_bit 1 w AND 3 = 0 then 1 else 2),
              Operands = [toy_vgpr (drop_bit 40 w), toy_vgpr (drop_bit 32 w),
                          kRegister (400 + unat (drop_bit 48 w AND 0x1f)),
                          kImmediate (drop_bit 8 w AND 0xf), kImmediate (drop_bit 3 w AND 7)]\<rparr>,
             D\<lparr>HasLiteral := False\<rparr>)
          else (Fail, MI, D)
      | Insn96 lo hi \<Rightarrow> (Fail, MI, D))"

definition T_toy :: Tables where
  "T_toy = \<lparr>tryDecodeInst = toy_tryDecodeInst,
     MCII_get = toy_desc,
     getNamedOperandIdx = toy_idx,
     hasNamedOperand = (\<lambda>Opc Name. toy_idx Opc Name \<noteq> - 1),
     isMAC = (\<lambda>Opc. False),
     isVOPC64DPP = (\<lambda>Opc. False),
     isVINTERP_inreg = (\<lambda>Opc. False),
     AMDGPUMCRegisterClasses = (\<lambda>RC. if RC = 0 then Some [1..<257] else None),
     getMCReg = (\<lambda>r. r),
     getMIMGInfo = (\<lambda>Opc.
       if Opc = 1 then Some \<lparr>BaseOpcode = 0, MIMGEnc = MIMGEncGfx10Default,
                             VDataDwords = 1, VAddrDwords = 1\<rparr>
       else if Opc = 2 then Some \<lparr>BaseOpcode = 0, MIMGEnc = MIMGEncGfx10NSA,
                                  VDataDwords = 1, VAddrDwords = 3\<rparr>
       else None),
     getMIMGBaseOpcodeInfo = (\<lambda>B. Some \<lparr>BVH = False, A16 = False, BaseInfo = 0\<rparr>),
     getMIMGDimInfoByEncoding = (\<lambda>v. Some (unat v)),
     getAddrSizeMIMGOp = (\<lambda>B Dim IsA16 G16. case Dim of Some d \<Rightarrow> d + 1 | None \<Rightarrow> 1),
     getMIMGOpcode = (\<lambda>B Enc d a.
       if Enc = MIMGEncGfx10Default \<and> d = 1 \<and> a = 1 then 1
       else if Enc = MIMGEncGfx10NSA \<and> d = 1 \<and> a = 3 then 2 else - 1),
     getSubReg_sub0 = (\<lambda>r. 0),
     getMatchingSuperReg_sub0 = (\<lambda>r RC. 0),
     TargetMaxInstBytes = 20,
     DPP8_FI_0 = 0xE9, DPP8_FI_1 = 0xEA, CPol_GLC = 1,
     SISrcMods_OP_SEL_0 = 4, SISrcMods_OP_SEL_1 = 8, SISrcMods_NEG = 1, SISrcMods_NEG_HI = 2,
     SISrcMods_DST_OP_SEL = 8, AMDGPU_VCC = 300,
     EncValues_of = EncValues_llvm\<rparr>"

text \<open>Inputs: eight bytes that no table of the instance matches; the two image loads as
  the table decodes them; a DPP8 encoding whose \<^verbatim>\<open>fi\<close> field is 5, the instruction the table
  \<^verbatim>\<open>DPP864\<close> makes of it, and the statements of the 64-bit block after that table.\<close>

definition toy_unknown :: "u8 list" where
  "toy_unknown = [0xFF, 0xFF, 0xFF, 0xFF, 0xFF, 0xFF, 0xFF, 0xFF]"

definition toy_image_load :: "u64 \<Rightarrow> MCInst" where
  "toy_image_load dmask =
     \<lparr>Opcode = 1,
      Operands = [kRegister 5, kRegister 4, kRegister 402, kImmediate dmask, kImmediate 0]\<rparr>"

definition toy_image_load_info :: MIMGInfo where
  "toy_image_load_info =
     \<lparr>BaseOpcode = 0, MIMGEnc = MIMGEncGfx10Default, VDataDwords = 1, VAddrDwords = 1\<rparr>"





section \<open>Properties\<close>

lemma sint_diff_ucast32:
  fixes a b :: u32
  shows "sint ((ucast a :: u64) - ucast b) = uint a - uint b"
proof -
  have a: "uint a < 4294967296" and b: "uint b < 4294967296"
    using uint_bounded [of a] uint_bounded [of b] by simp_all
  have a0: "0 \<le> uint a" and b0: "0 \<le> uint b"
    by simp_all
  have p: "(2::int) ^ 63 = 9223372036854775808"
    by simp
  have ua: "uint (ucast a :: u64) = uint a" and ub: "uint (ucast b :: u64) = uint b"
    by (simp_all add: uint_up_ucast is_up)
  have "sint ((ucast a :: u64) - ucast b) = signed_take_bit 63 (take_bit 64 (uint a - uint b))"
    by (simp add: sint_uint uint_word_ariths ua ub take_bit_eq_mod)
  also have "\<dots> = signed_take_bit 63 (uint a - uint b)"
    by (simp add: signed_take_bit_take_bit)
  also have "\<dots> = uint a - uint b"
  proof (rule signed_take_bit_int_eq_self)
    show "- (2 ^ 63) \<le> uint a - uint b" using a b a0 b0 unfolding p by linarith
    show "uint a - uint b < 2 ^ 63" using a b a0 b0 unfolding p by linarith
  qed
  finally show ?thesis .
qed

subsection \<open>Inline integer constants\<close>

text \<open>
  Claim C8. For every raw value \<open>Imm\<close> in the inline integer range
  \<^verbatim>\<open>INLINE_INTEGER_C_MIN .. INLINE_INTEGER_C_MAX\<close>, \<open>decodeIntImmed\<close> returns an immediate
  whose value, read as the signed 64-bit integer it is, is \<open>Imm - INLINE_INTEGER_C_MIN\<close>
  when \<open>Imm\<close> is at most \<^verbatim>\<open>INLINE_INTEGER_C_POSITIVE_MAX\<close> and
  \<open>INLINE_INTEGER_C_POSITIVE_MAX - Imm\<close> above it. The differences are those of the
  integers: the 64-bit subtraction does not wrap. The statement holds for any values of
  the three constants.
\<close>

theorem decodeIntImmed_affine:
  assumes "INLINE_INTEGER_C_MIN EV \<le> Imm" and "Imm \<le> INLINE_INTEGER_C_MAX EV"
  shows "\<exists>v. decodeIntImmed EV Imm = Some (kImmediate v) \<and>
           sint v = (if Imm \<le> INLINE_INTEGER_C_POSITIVE_MAX EV
                     then uint Imm - uint (INLINE_INTEGER_C_MIN EV)
                     else uint (INLINE_INTEGER_C_POSITIVE_MAX EV) - uint Imm)"
  using assms by (simp add: decodeIntImmed_def createImm_def sint_diff_ucast32)

text \<open>With LLVM's constants (128, 192, 208): 200 decodes to -8.\<close>

theorem decodeIntImmed_affine_witness:
  "INLINE_INTEGER_C_MIN EncValues_llvm \<le> 200 \<and> 200 \<le> INLINE_INTEGER_C_MAX EncValues_llvm \<and>
   (\<exists>v. decodeIntImmed EncValues_llvm 200 = Some (kImmediate v) \<and> sint v = - 8)"
  using decodeIntImmed_affine [of EncValues_llvm 200] by (simp add: EncValues_llvm_def)

subsection \<open>Deferred literals\<close>

text \<open>
  Claim C2. Take the state of a decode call in which no literal has been seen yet, on a
  subtarget with VOPD (the only one where the source lets two deferred literals meet). The
  first deferred-literal reference, with encoded word \<open>v\<close>, succeeds, appends the
  immediate \<open>v\<close> and stores it. A second reference with word \<open>w\<close> then succeeds and
  appends the same immediate when \<open>w = v\<close>; when \<open>w \<noteq> v\<close> it appends an error operand
  and its status is \<open>Fail\<close>. The stored literal stays \<open>v\<close> in both cases.
\<close>

theorem mandatory_literal_dual_issue:
  assumes "\<not> HasLiteral D" and "AMDGPU_hasVOPD STI"
  shows "\<exists>D1. decodeOperand_KImmFP STI Inst v D =
             Some (Success, Inst\<lparr>Operands := Operands Inst @ [kImmediate (ucast v)]\<rparr>, D1) \<and>
           HasLiteral D1 \<and> Literal D1 = v \<and>
           decodeOperand_KImmFP STI Inst' w D1 =
             (if w = v
              then Some (Success, Inst'\<lparr>Operands := Operands Inst' @ [kImmediate (ucast v)]\<rparr>, D1)
              else Some (Fail, Inst'\<lparr>Operands := Operands Inst' @ [kInvalid]\<rparr>, D1))"
  using assms
  by (auto simp: decodeOperand_KImmFP_def decodeMandatoryLiteralConstant_def addOperand_def
      createImm_def errOperand_def isValid_def Let_def)

text \<open>On a GFX11 subtarget (which has VOPD): the words 7 and 7 agree, 7 and 9 do not.\<close>

theorem mandatory_literal_dual_issue_witness:
  "\<not> HasLiteral Disasm_init \<and> AMDGPU_hasVOPD STI_gfx1100 \<and>
   (\<exists>D1. decodeOperand_KImmFP STI_gfx1100 MCInst_init 7 Disasm_init =
            Some (Success, \<lparr>Opcode = 0, Operands = [kImmediate 7]\<rparr>, D1) \<and>
          decodeOperand_KImmFP STI_gfx1100 \<lparr>Opcode = 0, Operands = [kImmediate 7]\<rparr> 7 D1 =
            Some (Success, \<lparr>Opcode = 0, Operands = [kImmediate 7, kImmediate 7]\<rparr>, D1) \<and>
          decodeOperand_KImmFP STI_gfx1100 \<lparr>Opcode = 0, Operands = [kImmediate 7]\<rparr> 9 D1 =
            Some (Fail, \<lparr>Opcode = 0, Operands = [kImmediate 7, kInvalid]\<rparr>, D1))"
proof -
  have h: "\<not> HasLiteral Disasm_init" "AMDGPU_hasVOPD STI_gfx1100"
    by (simp_all add: Disasm_init_def STI_gfx1100_def)
  from mandatory_literal_dual_issue [OF h, of MCInst_init 7 "\<lparr>Opcode = 0, Operands = [kImmediate 7]\<rparr>" 7]
    mandatory_literal_dual_issue [OF h, of MCInst_init 7 "\<lparr>Opcode = 0, Operands = [kImmediate 7]\<rparr>" 9]
  show ?thesis
    using h by (auto simp: MCInst_init_def)
qed

subsection \<open>The kernel descriptor decoder\<close>

declare decodeKernelDescriptor_loop.simps [simp del]

lemma loop_step:
  assumes "decodeKernelDescriptorDirective STI L CS D C Data = Some (st, C', Lines)" and "C < length Data"
  shows "decodeKernelDescriptor_loop STI L CS D Data C Kd =
    (if st = Fail then Some (Fail, Kd @ Lines)
     else decodeKernelDescriptor_loop STI L CS D Data C' (Kd @ Lines))"
  using assms by (subst decodeKernelDescriptor_loop.simps) simp

lemma loop_stop:
  "length Data \<le> C \<Longrightarrow> decodeKernelDescriptor_loop STI L CS D Data C Kd = Some (Success, Kd)"
  by (subst decodeKernelDescriptor_loop.simps) simp

lemma directive_at:
  assumes "amdhsa_offsets_ok L" and "length Data = 64"
  shows "decodeKernelDescriptorDirective STI L CS D 0 Data = Some (fst (kd_fields STI L CS D Data ! 0), 4, snd (kd_fields STI L CS D Data ! 0))"
    and "decodeKernelDescriptorDirective STI L CS D 4 Data = Some (fst (kd_fields STI L CS D Data ! 1), 8, snd (kd_fields STI L CS D Data ! 1))"
    and "decodeKernelDescriptorDirective STI L CS D 8 Data = Some (fst (kd_fields STI L CS D Data ! 2), 12, snd (kd_fields STI L CS D Data ! 2))"
    and "decodeKernelDescriptorDirective STI L CS D 12 Data = Some (fst (kd_fields STI L CS D Data ! 3), 16, snd (kd_fields STI L CS D Data ! 3))"
    and "decodeKernelDescriptorDirective STI L CS D 16 Data = Some (fst (kd_fields STI L CS D Data ! 4), 24, snd (kd_fields STI L CS D Data ! 4))"
    and "decodeKernelDescriptorDirective STI L CS D 24 Data = Some (fst (kd_fields STI L CS D Data ! 5), 44, snd (kd_fields STI L CS D Data ! 5))"
    and "decodeKernelDescriptorDirective STI L CS D 44 Data = Some (fst (kd_fields STI L CS D Data ! 6), 48, snd (kd_fields STI L CS D Data ! 6))"
    and "decodeKernelDescriptorDirective STI L CS D 48 Data = Some (fst (kd_fields STI L CS D Data ! 7), 52, snd (kd_fields STI L CS D Data ! 7))"
    and "decodeKernelDescriptorDirective STI L CS D 52 Data = Some (fst (kd_fields STI L CS D Data ! 8), 56, snd (kd_fields STI L CS D Data ! 8))"
    and "decodeKernelDescriptorDirective STI L CS D 56 Data = Some (fst (kd_fields STI L CS D Data ! 9), 58, snd (kd_fields STI L CS D Data ! 9))"
    and "decodeKernelDescriptorDirective STI L CS D 58 Data = Some (fst (kd_fields STI L CS D Data ! 10), 60, snd (kd_fields STI L CS D Data ! 10))"
    and "decodeKernelDescriptorDirective STI L CS D 60 Data = Some (fst (kd_fields STI L CS D Data ! 11), 64, snd (kd_fields STI L CS D Data ! 11))"
  using assms
  by (simp_all add: decodeKernelDescriptorDirective_def amdhsa_offsets_ok_def kd_fields_def
      getU32_def getU16_def getBytes_def skip_def)

lemma loop_fields:
  assumes "amdhsa_offsets_ok L" and "length Data = 64"
  shows "decodeKernelDescriptor_loop STI L CS D Data 0 Kd =
         Some (run_fields (kd_fields STI L CS D Data) Kd)"
proof -
  note d = directive_at [OF assms, of STI CS D]
  have len: "length (kd_fields STI L CS D Data) = 12"
    by (simp add: kd_fields_def)
  obtain f0 f1 f2 f3 f4 f5 f6 f7 f8 f9 f10 f11 where
    fs: "kd_fields STI L CS D Data = [f0, f1, f2, f3, f4, f5, f6, f7, f8, f9, f10, f11]"
    by (simp add: kd_fields_def)
  show ?thesis
    using assms(2) d unfolding fs
    by (simp add: loop_step loop_stop)
qed

lemma run_fields_Fail_iff:
  "fst (run_fields fs Kd) = Fail \<longleftrightarrow> (\<exists>f \<in> set fs. fst f = Fail)"
  by (induction fs arbitrary: Kd) auto

lemma run_fields_status: "fst (run_fields fs Kd) = Fail \<or> fst (run_fields fs Kd) = Success"
  by (induction fs arbitrary: Kd) auto

lemma run_fields_lines:
  "fst (run_fields fs Kd) \<noteq> Fail \<Longrightarrow> snd (run_fields fs Kd) = Kd @ concat (map snd fs)"
  by (induction fs arbitrary: Kd) (auto split: if_splits)

lemma decodeKernelDescriptor_fields:
  assumes "amdhsa_offsets_ok L" and "length Data = 64" and "KdAddress mod 64 = 0"
  shows "decodeKernelDescriptor STI L CS D KdName Data KdAddress =
    Some (if \<exists>f \<in> set (kd_fields STI L CS (lookupWavefrontSize32 STI L D Data) Data). fst f = Fail
          then (Fail, [], lookupWavefrontSize32 STI L D Data)
          else (Success,
                KdKernel KdName #
                concat (map snd (kd_fields STI L CS (lookupWavefrontSize32 STI L D Data) Data)) @ [KdEnd],
                lookupWavefrontSize32 STI L D Data))"
proof -
  let ?D1 = "lookupWavefrontSize32 STI L D Data"
  let ?r = "run_fields (kd_fields STI L CS ?D1 Data) [KdKernel KdName]"
  have off: "OFFSET L KERNEL_CODE_PROPERTIES_OFFSET + 2 \<le> length Data"
    using assms by (simp add: amdhsa_offsets_ok_def)
  have loop: "decodeKernelDescriptor_loop STI L CS ?D1 Data 0 [KdKernel KdName] = Some ?r"
    using assms(1,2) by (rule loop_fields)
  have r: "?r = (fst ?r, snd ?r)"
    by simp
  have "decodeKernelDescriptor STI L CS D KdName Data KdAddress =
     (if fst ?r = Fail then Some (Fail, [], ?D1) else Some (Success, snd ?r @ [KdEnd], ?D1))"
  proof (cases "isGFX10Plus STI")
    case True
    then show ?thesis
      using assms off loop
      by (simp add: decodeKernelDescriptor_def lookupWavefrontSize32_def split_beta)
  next
    case False
    then show ?thesis
      using assms loop
      by (simp add: decodeKernelDescriptor_def lookupWavefrontSize32_def split_beta)
  qed
  then show ?thesis
    by (simp add: run_fields_Fail_iff run_fields_lines)
qed


lemma in_set_if: "x \<in> set (if c then xs else ys) \<longleftrightarrow> (if c then x \<in> set xs else x \<in> set ys)"
  by simp

lemma snd_if: "snd (if c then a else b) = (if c then snd a else snd b)"
  by simp

lemma fst_if: "fst (if c then a else b) = (if c then fst a else fst b)"
  by simp

lemma eq_if_right: "(x = (if c then a else b)) \<longleftrightarrow> (if c then x = a else x = b)"
  by simp

lemma next_free_line_rsrc3:
  "KdDirective ''.amdhsa_next_free_vgpr'' n \<notin> set (snd (decodeCOMPUTE_PGM_RSRC3 STI L CS D fb))"
  "KdDirective ''.amdhsa_next_free_sgpr'' n \<notin> set (snd (decodeCOMPUTE_PGM_RSRC3 STI L CS D fb))"
  by (simp_all add: decodeCOMPUTE_PGM_RSRC3_def Let_def PRINT_DIRECTIVE_def
      PRINT_PSEUDO_DIRECTIVE_COMMENT_def in_set_if snd_if cong: if_cong split del: if_split)

lemma next_free_line_rsrc2:
  "KdDirective ''.amdhsa_next_free_vgpr'' n \<notin> set (snd (decodeCOMPUTE_PGM_RSRC2 STI L fb))"
  "KdDirective ''.amdhsa_next_free_sgpr'' n \<notin> set (snd (decodeCOMPUTE_PGM_RSRC2 STI L fb))"
  by (simp_all add: decodeCOMPUTE_PGM_RSRC2_def Let_def PRINT_DIRECTIVE_def in_set_if snd_if eq_if_right cong: if_cong split del: if_split)

lemma next_free_line_kcp:
  "KdDirective ''.amdhsa_next_free_vgpr'' n \<notin> set (snd (decodeKernelCodeProperties STI L tb))"
  "KdDirective ''.amdhsa_next_free_sgpr'' n \<notin> set (snd (decodeKernelCodeProperties STI L tb))"
  by (simp_all add: decodeKernelCodeProperties_def Let_def PRINT_DIRECTIVE_def in_set_if snd_if cong: if_cong split del: if_split)

lemma next_free_line_preload:
  "KdDirective ''.amdhsa_next_free_vgpr'' n \<notin> set (snd (decodeKernargPreload L tb))"
  "KdDirective ''.amdhsa_next_free_sgpr'' n \<notin> set (snd (decodeKernargPreload L tb))"
  by (simp_all add: decodeKernargPreload_def Let_def PRINT_DIRECTIVE_def in_set_if snd_if cong: if_cong split del: if_split)

lemma sgpr_line_rsrc1:
  "fst (decodeCOMPUTE_PGM_RSRC1 STI L D fb) \<noteq> Fail \<Longrightarrow>
   KdDirective ''.amdhsa_next_free_sgpr'' n \<in> set (snd (decodeCOMPUTE_PGM_RSRC1 STI L D fb)) \<longleftrightarrow>
   n = unat ((AMDHSA_BITS_GET fb (RSRC1 L COMPUTE_PGM_RSRC1_GRANULATED_WAVEFRONT_SGPR_COUNT) + 1) *
             getSGPREncodingGranule STI)"
  by (simp add: decodeCOMPUTE_PGM_RSRC1_def Let_def PRINT_DIRECTIVE_def in_set_if snd_if fst_if cong: if_cong split del: if_split) (auto split: if_splits)

lemma vgpr_line_rsrc1:
  "KdDirective ''.amdhsa_next_free_vgpr'' n \<in> set (snd (decodeCOMPUTE_PGM_RSRC1 STI L D fb)) \<longleftrightarrow>
   n = unat ((AMDHSA_BITS_GET fb (RSRC1 L COMPUTE_PGM_RSRC1_GRANULATED_WORKITEM_VGPR_COUNT) + 1) *
             getVGPREncodingGranule STI (EnableWavefrontSize32 D))"
  by (simp add: decodeCOMPUTE_PGM_RSRC1_def Let_def PRINT_DIRECTIVE_def in_set_if snd_if cong: if_cong split del: if_split)

lemma decodeKernelDescriptor_bad_size:
  "length Data \<noteq> 64 \<or> KdAddress mod 64 \<noteq> 0 \<Longrightarrow>
   decodeKernelDescriptor STI L CS D KdName Data KdAddress = Some (Fail, [], D)"
  by (simp add: decodeKernelDescriptor_def)

lemma decodeKernelDescriptor_SuccessD:
  assumes "decodeKernelDescriptor STI L CS D KdName Data KdAddress = Some (Success, Kd, D')"
  shows "length Data = 64" and "KdAddress mod 64 = 0"
  using assms decodeKernelDescriptor_bad_size [of Data KdAddress STI L CS D KdName]
  by auto

text \<open>
  Claim C9. When the slice is not 64 bytes long or the address is not a multiple of 64,
  \<open>decodeKernelDescriptor\<close> returns \<open>Fail\<close>, prints nothing and leaves the disassembler as
  it was, whatever the bytes are: no field is read. Conversely a call that returns
  \<open>Success\<close> was given 64 bytes at an address that is a multiple of 64.
\<close>

theorem decodeKernelDescriptor_size_alignment:
  "(length Data \<noteq> 64 \<or> KdAddress mod 64 \<noteq> 0 \<longrightarrow>
      decodeKernelDescriptor STI L CS D KdName Data KdAddress = Some (Fail, [], D)) \<and>
   (\<forall>Kd D'. decodeKernelDescriptor STI L CS D KdName Data KdAddress = Some (Success, Kd, D') \<longrightarrow>
      length Data = 64 \<and> KdAddress mod 64 = 0)"
  by (auto simp: decodeKernelDescriptor_bad_size dest: decodeKernelDescriptor_SuccessD)

theorem decodeKernelDescriptor_size_alignment_witness:
  "length [1, 2, 3 :: u8] \<noteq> 64 \<and>
   decodeKernelDescriptor STI_gfx1030 amdhsa_llvm '';'' Disasm_init ''k'' [1, 2, 3] 0 =
     Some (Fail, [], Disasm_init) \<and>
   (32 :: u64) mod 64 \<noteq> 0 \<and>
   decodeKernelDescriptor STI_gfx1030 amdhsa_llvm '';'' Disasm_init ''k'' kd_example 32 =
     Some (Fail, [], Disasm_init)"
  using decodeKernelDescriptor_size_alignment [of "[1, 2, 3]" 0 STI_gfx1030 amdhsa_llvm "'';''" Disasm_init "''k''"]
    decodeKernelDescriptor_size_alignment [of kd_example 32 STI_gfx1030 amdhsa_llvm "'';''" Disasm_init "''k''"]
  by simp

lemma kd_fields_set:
  "set (kd_fields STI L CS D Data) =
     {(Success, [KdDirective ''.amdhsa_group_segment_fixed_size'' (unat (read32 Data 0))]),
      (Success, [KdDirective ''.amdhsa_private_segment_fixed_size'' (unat (read32 Data 4))]),
      (Success, [KdDirective ''.amdhsa_kernarg_size'' (unat (read32 Data 8))]),
      (checkReservedBytes (take 4 (drop 12 Data)), []),
      (Success, []),
      (checkReservedBytes (take 20 (drop 24 Data)), []),
      decodeCOMPUTE_PGM_RSRC3 STI L CS D (read32 Data 44),
      decodeCOMPUTE_PGM_RSRC1 STI L D (read32 Data 48),
      decodeCOMPUTE_PGM_RSRC2 STI L (read32 Data 52),
      decodeKernelCodeProperties STI L (read16 Data 56),
      decodeKernargPreload L (read16 Data 58),
      (checkReservedBytes (take 4 (drop 60 Data)), [])}"
  by (simp add: kd_fields_def)

lemma rsrc1_sgpr_Fail:
  "isGFX10Plus STI \<Longrightarrow>
   AMDHSA_BITS_GET fb (RSRC1 L COMPUTE_PGM_RSRC1_GRANULATED_WAVEFRONT_SGPR_COUNT) \<noteq> 0 \<Longrightarrow>
   fst (decodeCOMPUTE_PGM_RSRC1 STI L D fb) = Fail"
  by (simp add: decodeCOMPUTE_PGM_RSRC1_def Let_def)

lemma rsrc1_sgpr_zero:
  "isGFX10Plus STI \<Longrightarrow> fst (decodeCOMPUTE_PGM_RSRC1 STI L D fb) \<noteq> Fail \<Longrightarrow>
   AMDHSA_BITS_GET fb (RSRC1 L COMPUTE_PGM_RSRC1_GRANULATED_WAVEFRONT_SGPR_COUNT) = 0"
  using rsrc1_sgpr_Fail by blast

lemma Success_lines:
  assumes ok: "amdhsa_offsets_ok L"
    and r: "decodeKernelDescriptor STI L CS D KdName Data KdAddress = Some (Success, Kd, D')"
  shows "D' = lookupWavefrontSize32 STI L D Data"
    and "\<forall>f \<in> set (kd_fields STI L CS D' Data). fst f \<noteq> Fail"
    and "Kd = KdKernel KdName # concat (map snd (kd_fields STI L CS D' Data)) @ [KdEnd]"
proof -
  note sz = decodeKernelDescriptor_SuccessD [OF r]
  note eq = decodeKernelDescriptor_fields [OF ok sz, of STI CS D KdName]
  show D': "D' = lookupWavefrontSize32 STI L D Data"
    using r unfolding eq by (simp split: if_splits)
  show "\<forall>f \<in> set (kd_fields STI L CS D' Data). fst f \<noteq> Fail"
    using r unfolding eq D' by (simp split: if_splits)
  show "Kd = KdKernel KdName # concat (map snd (kd_fields STI L CS D' Data)) @ [KdEnd]"
    using r unfolding eq D' by (simp split: if_splits)
qed

lemma vgpr_line_kd:
  assumes "fst (decodeCOMPUTE_PGM_RSRC1 STI L D (read32 Data 48)) \<noteq> Fail"
  shows "KdDirective ''.amdhsa_next_free_vgpr'' n \<in>
           set (KdKernel KdName # concat (map snd (kd_fields STI L CS D Data)) @ [KdEnd]) \<longleftrightarrow>
         n = unat ((AMDHSA_BITS_GET (read32 Data 48)
                     (RSRC1 L COMPUTE_PGM_RSRC1_GRANULATED_WORKITEM_VGPR_COUNT) + 1) *
                   getVGPREncodingGranule STI (EnableWavefrontSize32 D))"
  by (simp add: kd_fields_def next_free_line_rsrc2 next_free_line_rsrc3 next_free_line_kcp
      next_free_line_preload vgpr_line_rsrc1)

lemma sgpr_line_kd:
  assumes "fst (decodeCOMPUTE_PGM_RSRC1 STI L D (read32 Data 48)) \<noteq> Fail"
  shows "KdDirective ''.amdhsa_next_free_sgpr'' n \<in>
           set (KdKernel KdName # concat (map snd (kd_fields STI L CS D Data)) @ [KdEnd]) \<longleftrightarrow>
         n = unat ((AMDHSA_BITS_GET (read32 Data 48)
                     (RSRC1 L COMPUTE_PGM_RSRC1_GRANULATED_WAVEFRONT_SGPR_COUNT) + 1) *
                   getSGPREncodingGranule STI)"
  using assms
  by (simp add: kd_fields_def next_free_line_rsrc2 next_free_line_rsrc3 next_free_line_kcp
      next_free_line_preload sgpr_line_rsrc1)

lemma unat_mult_u32:
  fixes a g :: u32
  shows "unat ((a + 1) * g) = ((unat a + 1) * unat g) mod 2 ^ 32"
  by (simp add: unat_word_ariths mod_mult_left_eq mod_simps)

text \<open>
  Claim C10. On a GFX10 or later subtarget, with the fields laid out as the decoder's
  \<^verbatim>\<open>switch\<close> needs: a 64-byte, aligned record whose granulated wavefront SGPR count (in the
  word at \<^verbatim>\<open>COMPUTE_PGM_RSRC1_OFFSET\<close>) is not zero decodes to \<open>Fail\<close>; and the text of every
  successful decode has the line \<^verbatim>\<open>.amdhsa_next_free_sgpr\<close> with the value of the SGPR
  encoding granule, that is \<open>(0 + 1) * granule\<close>, and with no other value.
\<close>

theorem next_free_sgpr_gfx10:
  assumes "amdhsa_offsets_ok L" and "isGFX10Plus STI"
  shows "(length Data = 64 \<and> KdAddress mod 64 = 0 \<and>
          AMDHSA_BITS_GET (read32 Data (OFFSET L COMPUTE_PGM_RSRC1_OFFSET))
            (RSRC1 L COMPUTE_PGM_RSRC1_GRANULATED_WAVEFRONT_SGPR_COUNT) \<noteq> 0 \<longrightarrow>
          (\<exists>D'. decodeKernelDescriptor STI L CS D KdName Data KdAddress = Some (Fail, [], D'))) \<and>
         (\<forall>Kd D'. decodeKernelDescriptor STI L CS D KdName Data KdAddress = Some (Success, Kd, D') \<longrightarrow>
            KdDirective ''.amdhsa_next_free_sgpr'' (unat (getSGPREncodingGranule STI)) \<in> set Kd \<and>
            (\<forall>n. KdDirective ''.amdhsa_next_free_sgpr'' n \<in> set Kd \<longrightarrow>
                 n = unat (getSGPREncodingGranule STI)))"
proof (intro conjI allI impI)
  assume a: "length Data = 64 \<and> KdAddress mod 64 = 0 \<and>
          AMDHSA_BITS_GET (read32 Data (OFFSET L COMPUTE_PGM_RSRC1_OFFSET))
            (RSRC1 L COMPUTE_PGM_RSRC1_GRANULATED_WAVEFRONT_SGPR_COUNT) \<noteq> 0"
  let ?D1 = "lookupWavefrontSize32 STI L D Data"
  have off: "OFFSET L COMPUTE_PGM_RSRC1_OFFSET = 48"
    using assms(1) by (simp add: amdhsa_offsets_ok_def)
  have "fst (decodeCOMPUTE_PGM_RSRC1 STI L ?D1 (read32 Data 48)) = Fail"
    using a assms(2) off by (simp add: rsrc1_sgpr_Fail)
  then have "\<exists>f \<in> set (kd_fields STI L CS ?D1 Data). fst f = Fail"
    unfolding kd_fields_set by blast
  then show "\<exists>D'. decodeKernelDescriptor STI L CS D KdName Data KdAddress = Some (Fail, [], D')"
    using a assms(1) by (simp add: decodeKernelDescriptor_fields)
next
  fix Kd D'
  assume r: "decodeKernelDescriptor STI L CS D KdName Data KdAddress = Some (Success, Kd, D')"
  note s = Success_lines [OF assms(1) r]
  have ok1: "fst (decodeCOMPUTE_PGM_RSRC1 STI L D' (read32 Data 48)) \<noteq> Fail"
    using s(2) unfolding kd_fields_set by blast
  have z: "AMDHSA_BITS_GET (read32 Data 48)
            (RSRC1 L COMPUTE_PGM_RSRC1_GRANULATED_WAVEFRONT_SGPR_COUNT) = 0"
    using assms(2) ok1 by (rule rsrc1_sgpr_zero)
  have line: "KdDirective ''.amdhsa_next_free_sgpr'' n \<in> set Kd \<longleftrightarrow>
       n = unat (getSGPREncodingGranule STI)" for n
    unfolding s(3) using sgpr_line_kd [OF ok1, of n KdName CS] by (simp add: z)
  show "KdDirective ''.amdhsa_next_free_sgpr'' (unat (getSGPREncodingGranule STI)) \<in> set Kd"
    using line by blast
  fix n
  assume "KdDirective ''.amdhsa_next_free_sgpr'' n \<in> set Kd"
  then show "n = unat (getSGPREncodingGranule STI)"
    using line by blast
qed

text \<open>
  Claim C6. For a record that decodes successfully, with the fields laid out as the
  decoder's \<^verbatim>\<open>switch\<close> needs: the text has a line \<^verbatim>\<open>.amdhsa_next_free_vgpr n\<close> exactly
  for \<open>n = (G + 1) * granule\<close> in 32-bit unsigned arithmetic, where \<open>G\<close> is the
  granulated workitem VGPR count of the word at \<^verbatim>\<open>COMPUTE_PGM_RSRC1_OFFSET\<close> and the
  granule is \<^verbatim>\<open>getVGPREncodingGranule\<close> of the subtarget and of the disassembler's
  \<^verbatim>\<open>EnableWavefrontSize32\<close> after the call; on GFX10 and later that flag is the
  wavefront-size-32 bit read from the same record before the fields are decoded, on
  earlier subtargets the call leaves it as it was. The granule function is a parameter;
  the examples run it for 8 (wave32) and 4.
\<close>

theorem next_free_vgpr:
  assumes "amdhsa_offsets_ok L"
    and "decodeKernelDescriptor STI L CS D KdName Data KdAddress = Some (Success, Kd, D')"
  shows "D' = lookupWavefrontSize32 STI L D Data \<and>
         (\<forall>n. KdDirective ''.amdhsa_next_free_vgpr'' n \<in> set Kd \<longleftrightarrow>
            n = ((unat (AMDHSA_BITS_GET (read32 Data (OFFSET L COMPUTE_PGM_RSRC1_OFFSET))
                          (RSRC1 L COMPUTE_PGM_RSRC1_GRANULATED_WORKITEM_VGPR_COUNT)) + 1) *
                 unat (getVGPREncodingGranule STI (EnableWavefrontSize32 D'))) mod 2 ^ 32)"
proof -
  note s = Success_lines [OF assms]
  have off: "OFFSET L COMPUTE_PGM_RSRC1_OFFSET = 48"
    using assms(1) by (simp add: amdhsa_offsets_ok_def)
  have ok1: "fst (decodeCOMPUTE_PGM_RSRC1 STI L D' (read32 Data 48)) \<noteq> Fail"
    using s(2) unfolding kd_fields_set by blast
  show ?thesis
    using s(1) vgpr_line_kd [OF ok1, of _ KdName CS]
    unfolding s(3) off by (simp add: unat_mult_u32)
qed

lemma amdhsa_llvm_ok: "amdhsa_offsets_ok amdhsa_llvm"
  by (simp add: amdhsa_offsets_ok_def amdhsa_llvm_def)

lemma gfx1030_isGFX10Plus: "isGFX10Plus STI_gfx1030"
  by (simp add: isGFX10Plus_def STI_gfx1030_def)

lemma kd_example_Success:
  "\<exists>Kd D'. decodeKernelDescriptor STI_gfx1030 amdhsa_llvm '';'' Disasm_init ''k'' kd_example 0 =
     Some (Success, Kd, D')"
proof -
  have "case decodeKernelDescriptor STI_gfx1030 amdhsa_llvm '';'' Disasm_init ''k'' kd_example 0 of
          Some (Success, Kd, D') \<Rightarrow> True | _ \<Rightarrow> False"
    by code_simp
  then show ?thesis
    by (auto split: option.splits prod.splits DecodeStatus.splits)
qed

lemma kd_example2_Success:
  "\<exists>Kd D'. decodeKernelDescriptor STI_gfx1030 amdhsa_llvm '';'' Disasm_init ''k'' kd_example2 0 =
     Some (Success, Kd, D')"
proof -
  have "case decodeKernelDescriptor STI_gfx1030 amdhsa_llvm '';'' Disasm_init ''k'' kd_example2 0 of
          Some (Success, Kd, D') \<Rightarrow> True | _ \<Rightarrow> False"
    by code_simp
  then show ?thesis
    by (auto split: option.splits prod.splits DecodeStatus.splits)
qed

theorem next_free_sgpr_gfx10_witness:
  "amdhsa_offsets_ok amdhsa_llvm \<and> isGFX10Plus STI_gfx1030 \<and>
   (\<exists>D'. decodeKernelDescriptor STI_gfx1030 amdhsa_llvm '';'' Disasm_init ''k'' kd_example_sgpr 0 =
      Some (Fail, [], D')) \<and>
   (\<exists>Kd D'. decodeKernelDescriptor STI_gfx1030 amdhsa_llvm '';'' Disasm_init ''k'' kd_example 0 =
      Some (Success, Kd, D') \<and> KdDirective ''.amdhsa_next_free_sgpr'' 8 \<in> set Kd)"
proof -
  note t = next_free_sgpr_gfx10 [OF amdhsa_llvm_ok gfx1030_isGFX10Plus]
  have h: "length kd_example_sgpr = 64 \<and> (0 :: u64) mod 64 = 0 \<and>
      AMDHSA_BITS_GET (read32 kd_example_sgpr (OFFSET amdhsa_llvm COMPUTE_PGM_RSRC1_OFFSET))
        (RSRC1 amdhsa_llvm COMPUTE_PGM_RSRC1_GRANULATED_WAVEFRONT_SGPR_COUNT) \<noteq> 0"
    by code_simp
  have 1: "\<exists>D'. decodeKernelDescriptor STI_gfx1030 amdhsa_llvm '';'' Disasm_init ''k'' kd_example_sgpr 0 =
      Some (Fail, [], D')"
    using t [of kd_example_sgpr 0 "'';''" Disasm_init "''k''"] h by blast
  obtain Kd D' where r: "decodeKernelDescriptor STI_gfx1030 amdhsa_llvm '';'' Disasm_init ''k'' kd_example 0 =
      Some (Success, Kd, D')"
    using kd_example_Success by blast
  have g: "unat (getSGPREncodingGranule STI_gfx1030) = 8"
    by (simp add: STI_gfx1030_def)
  have 2: "KdDirective ''.amdhsa_next_free_sgpr'' 8 \<in> set Kd"
    using t [of kd_example 0 "'';''" Disasm_init "''k''"] r g by auto
  show ?thesis
    using amdhsa_llvm_ok gfx1030_isGFX10Plus 1 2 r by blast
qed

theorem next_free_vgpr_witness:
  "amdhsa_offsets_ok amdhsa_llvm \<and>
   (\<exists>Kd D'. decodeKernelDescriptor STI_gfx1030 amdhsa_llvm '';'' Disasm_init ''k'' kd_example 0 =
      Some (Success, Kd, D') \<and> EnableWavefrontSize32 D' = Some True \<and>
      KdDirective ''.amdhsa_next_free_vgpr'' 32 \<in> set Kd) \<and>
   (\<exists>Kd D'. decodeKernelDescriptor STI_gfx1030 amdhsa_llvm '';'' Disasm_init ''k'' kd_example2 0 =
      Some (Success, Kd, D') \<and> EnableWavefrontSize32 D' = Some False \<and>
      KdDirective ''.amdhsa_next_free_vgpr'' 16 \<in> set Kd)"
proof -
  obtain Kd D' where r: "decodeKernelDescriptor STI_gfx1030 amdhsa_llvm '';'' Disasm_init ''k'' kd_example 0 =
      Some (Success, Kd, D')"
    using kd_example_Success by blast
  note t = next_free_vgpr [OF amdhsa_llvm_ok r]
  have w: "EnableWavefrontSize32 (lookupWavefrontSize32 STI_gfx1030 amdhsa_llvm Disasm_init kd_example) = Some True"
    by code_simp
  have G: "unat (AMDHSA_BITS_GET (read32 kd_example (OFFSET amdhsa_llvm COMPUTE_PGM_RSRC1_OFFSET))
                          (RSRC1 amdhsa_llvm COMPUTE_PGM_RSRC1_GRANULATED_WORKITEM_VGPR_COUNT)) = 3"
    by code_simp
  have g: "unat (getVGPREncodingGranule STI_gfx1030 (Some True)) = 8"
    by (simp add: STI_gfx1030_def)
  have 1: "EnableWavefrontSize32 D' = Some True \<and> KdDirective ''.amdhsa_next_free_vgpr'' 32 \<in> set Kd"
    using t w by (simp add: G g)
  obtain Kd2 D2 where r2: "decodeKernelDescriptor STI_gfx1030 amdhsa_llvm '';'' Disasm_init ''k'' kd_example2 0 =
      Some (Success, Kd2, D2)"
    using kd_example2_Success by blast
  note t2 = next_free_vgpr [OF amdhsa_llvm_ok r2]
  have w2: "EnableWavefrontSize32 (lookupWavefrontSize32 STI_gfx1030 amdhsa_llvm Disasm_init kd_example2) = Some False"
    by code_simp
  have G2: "unat (AMDHSA_BITS_GET (read32 kd_example2 (OFFSET amdhsa_llvm COMPUTE_PGM_RSRC1_OFFSET))
                          (RSRC1 amdhsa_llvm COMPUTE_PGM_RSRC1_GRANULATED_WORKITEM_VGPR_COUNT)) = 3"
    by code_simp
  have g2: "unat (getVGPREncodingGranule STI_gfx1030 (Some False)) = 4"
    by (simp add: STI_gfx1030_def)
  have 2: "EnableWavefrontSize32 D2 = Some False \<and> KdDirective ''.amdhsa_next_free_vgpr'' 16 \<in> set Kd2"
    using t2 w2 by (simp add: G2 g2)
  show ?thesis
    using amdhsa_llvm_ok r 1 r2 2 by blast
qed






















subsection \<open>The instruction decoder: a window that no table matches\<close>

lemma quiet_tryDecodeInst2:
  assumes "quiet P Q (tryDecodeInst T T1 W A)" and "quiet P Q (tryDecodeInst T T2 W A)"
  shows "quiet P Q (tryDecodeInst2 T T1 T2 W A)"
  unfolding quiet_def
proof (intro allI impI)
  fix MI D assume "P MI" "Q D"
  with assms(1) obtain MI1 D1 where 1: "tryDecodeInst T T1 W A MI D = (Fail, MI1, D1)" "P MI1" "Q D1"
    unfolding quiet_def by blast
  with assms(2) obtain MI2 D2 where 2: "tryDecodeInst T T2 W A MI1 D1 = (Fail, MI2, D2)" "P MI2" "Q D2"
    unfolding quiet_def by blast
  show "\<exists>MI' D'. tryDecodeInst2 T T1 T2 W A MI D = (Fail, MI', D') \<and> P MI' \<and> Q D'"
    using 1 2 by (simp add: tryDecodeInst2_def truthy_def)
qed

lemma fail_step_try_break: "quiet P Q att \<Longrightarrow> fail_step P Q Q (try_break att)"
  unfolding quiet_def fail_step_def
  by (fastforce simp: try_break_def truthy_def)

lemma fail_step_try_sdwa: "quiet P Q att \<Longrightarrow> fail_step P Q Q (try_sdwa att)"
  unfolding quiet_def fail_step_def
  by (fastforce simp: try_sdwa_def truthy_def)

lemma fail_step_try_convert: "quiet P Q att \<Longrightarrow> fail_step P Q Q (try_convert att conv)"
  unfolding quiet_def fail_step_def
  by (fastforce simp: try_convert_def truthy_def)

lemma fail_step_try_dpp8: "quiet P Q att \<Longrightarrow> P MCInst_init \<Longrightarrow> fail_step P Q Q (try_dpp8 T att)"
  unfolding quiet_def fail_step_def
  by (fastforce simp: try_dpp8_def truthy_def)

lemma fail_step_try_GFX10_B64: "quiet P Q att \<Longrightarrow> fail_step P Q Q (try_GFX10_B64 T att)"
  unfolding quiet_def fail_step_def
  by (fastforce simp: try_GFX10_B64_def truthy_def)

lemma fail_step_last: "quiet P Q att \<Longrightarrow>
  fail_step P Q Q (\<lambda>(Res, MI, D, IsSDWA). case att MI D of (Res', MI', D') \<Rightarrow> Some (Next (Res', MI', D', IsSDWA)))"
  unfolding quiet_def fail_step_def
  by fastforce

lemma fail_step_Nil: "fail_step P Q Q (run_stmts [])"
  unfolding fail_step_def by auto

lemma fail_step_Cons:
  assumes "fail_step P Q Q1 c" and "fail_step P Q1 Q2 (run_stmts cs)"
  shows "fail_step P Q Q2 (run_stmts (c # cs))"
  unfolding fail_step_def
proof (intro allI impI)
  fix MI D assume pq: "P MI" "Q D"
  with assms(1) obtain MI1 D1 where 1: "P MI1"
    "c (Fail, MI, D, False) = Some (Next (Fail, MI1, D1, False)) \<and> Q1 D1 \<or>
     c (Fail, MI, D, False) = Some (Break (Fail, MI1, D1, False))"
    unfolding fail_step_def by blast
  from 1(2) show "\<exists>MI' D'. P MI' \<and>
           (run_stmts (c # cs) (Fail, MI, D, False) = Some (Next (Fail, MI', D', False)) \<and> Q2 D' \<or>
            run_stmts (c # cs) (Fail, MI, D, False) = Some (Break (Fail, MI', D', False)))"
  proof
    assume n: "c (Fail, MI, D, False) = Some (Next (Fail, MI1, D1, False)) \<and> Q1 D1"
    with assms(2) 1(1) obtain MI2 D2 where 2: "P MI2"
      "run_stmts cs (Fail, MI1, D1, False) = Some (Next (Fail, MI2, D2, False)) \<and> Q2 D2 \<or>
       run_stmts cs (Fail, MI1, D1, False) = Some (Break (Fail, MI2, D2, False))"
      unfolding fail_step_def by blast
    then show ?thesis using n by auto
  next
    assume "c (Fail, MI, D, False) = Some (Break (Fail, MI1, D1, False))"
    then show ?thesis using 1(1) by auto
  qed
qed

lemma fail_step_weaken: "fail_step P Q Q1 c \<Longrightarrow> (\<And>D. Q1 D \<Longrightarrow> Q2 D) \<Longrightarrow> fail_step P Q Q2 c"
  unfolding fail_step_def by blast

lemma fail_step_stmt_if: "fail_step P Q Q (run_stmts cs) \<Longrightarrow> fail_step P Q Q (stmt_if b cs)"
  unfolding fail_step_def stmt_if_def by auto

lemma fail_step_reinit: "fail_step P Q (\<lambda>D. Bytes D = take n B) (reinit_Bytes B n)"
  unfolding fail_step_def reinit_Bytes_def by auto

lemma kept_init: "kept T MI0 MCInst_init" "kept T MI0 MI0"
  by (simp_all add: kept_def)

lemma quiet_table:
  assumes "\<forall>Table MI D. fst (tryDecodeInst T Table W A MI D) = Fail" and "restores_Bytes T"
  shows "quiet (kept T MI0) (\<lambda>D. Bytes D = X) (tryDecodeInst T Table W A)"
  unfolding quiet_def
proof (intro allI impI)
  fix MI and D :: Disasm assume k: "kept T MI0 MI" and b: "Bytes D = X"
  obtain R MI' D' where r: "tryDecodeInst T Table W A MI D = (R, MI', D')"
    by (cases "tryDecodeInst T Table W A MI D") auto
  have f: "R = Fail"
    using assms(1) r by (metis fst_conv)
  have "Bytes D' = X"
    using assms(2) r f b unfolding restores_Bytes_def by (metis fst_conv snd_conv)
  moreover have "kept T MI0 MI'"
    using k r f unfolding kept_def leaves_MI_def by (metis fst_conv snd_conv)
  ultimately show "\<exists>MI' D'. tryDecodeInst T Table W A MI D = (Fail, MI', D') \<and> kept T MI0 MI' \<and> Bytes D' = X"
    using r f by simp
qed

lemma fail_step_Cons_same:
  "fail_step P Q Q c \<Longrightarrow> fail_step P Q Q (run_stmts cs) \<Longrightarrow> fail_step P Q Q (run_stmts (c # cs))"
  by (rule fail_step_Cons)

lemmas fail_steps = fail_step_Cons_same fail_step_Nil fail_step_try_break fail_step_try_sdwa
  fail_step_try_convert fail_step_try_dpp8 fail_step_try_GFX10_B64 fail_step_last
  fail_step_stmt_if quiet_tryDecodeInst2

lemma stmts96:
  assumes "\<And>Table. quiet P Q (tryDecodeInst T Table W A)" and "P MCInst_init"
  shows "fail_step P Q Q (run_stmts (decode96_stmts T W A))"
  unfolding decode96_stmts_def by (intro fail_steps assms)

lemma stmts64:
  assumes "\<And>Table. quiet P Q (tryDecodeInst T Table W A)" and "P MCInst_init"
  shows "fail_step P Q Q (run_stmts (decode64_stmts STI T W A))"
  unfolding decode64_stmts_def by (intro fail_steps assms)

lemma words_mem:
  "isGFX11Plus STI \<Longrightarrow> 12 \<le> length B \<Longrightarrow> eat12Bytes B \<in> set (cascade_words STI B)"
  "8 \<le> length B \<Longrightarrow> Insn64 (read64 B 0) \<in> set (cascade_words STI B)"
  "8 \<le> length B \<Longrightarrow>
     Insn64 (push_bit 32 (ucast (read32 (drop 4 B) 0)) OR ucast (read32 B 0)) \<in> set (cascade_words STI B)"
  "4 \<le> length B \<Longrightarrow> Insn32 (read32 B 0) \<in> set (cascade_words STI B)"
  by (simp_all add: cascade_words_def)

lemma no_match_quiet:
  assumes "no_match STI T A B" and "restores_Bytes T" and "W \<in> set (cascade_words STI B)"
  shows "quiet (kept T MI0) (\<lambda>D. Bytes D = X) (tryDecodeInst T Table W A)"
  using assms(1,3) by (intro quiet_table assms(2)) (simp add: no_match_def)

lemma fail_step_decode96:
  assumes "no_match STI T A B" and "restores_Bytes T"
  shows "fail_step (kept T MI0) (\<lambda>D. Bytes D = B) (\<lambda>D. True) (decode96 STI T A)"
proof (cases "isGFX11Plus STI \<and> 12 \<le> length B")
  case True
  have "fail_step (kept T MI0) (\<lambda>D. Bytes D = drop 12 B) (\<lambda>D. Bytes D = drop 12 B)
          (run_stmts (decode96_stmts T (eat12Bytes B) A))"
    using True by (intro stmts96 no_match_quiet [OF assms] words_mem kept_init) auto
  then show ?thesis
    using True unfolding fail_step_def decode96_def
    by (auto simp del: run_stmts.simps) (metis (no_types, lifting) Disasm.select_convs(1) Disasm.surjective Disasm.update_convs(1))
next
  case False
  then show ?thesis
    unfolding fail_step_def decode96_def by auto
qed

lemma fail_step_enter:
  assumes "fail_step P (\<lambda>D. Bytes D = drop n B) Q' (run_stmts cs)"
  shows "fail_step P (\<lambda>D. Bytes D = B) Q'
           (\<lambda>(Res, MI, D, IsSDWA). run_stmts cs (Res, MI, D\<lparr>Bytes := drop n (Bytes D)\<rparr>, IsSDWA))"
  unfolding fail_step_def
proof (intro allI impI)
  fix MI and D :: Disasm assume "P MI" "Bytes D = B"
  then have "P MI" "Bytes (D\<lparr>Bytes := drop n (Bytes D)\<rparr>) = drop n B"
    by simp_all
  with assms obtain MI' D' where "P MI'"
    "run_stmts cs (Fail, MI, D\<lparr>Bytes := drop n (Bytes D)\<rparr>, False) = Some (Next (Fail, MI', D', False)) \<and> Q' D' \<or>
     run_stmts cs (Fail, MI, D\<lparr>Bytes := drop n (Bytes D)\<rparr>, False) = Some (Break (Fail, MI', D', False))"
    unfolding fail_step_def by blast
  then show "\<exists>MI' D'. P MI' \<and>
       ((case (Fail, MI, D, False) of (Res, MI, D, IsSDWA) \<Rightarrow>
            run_stmts cs (Res, MI, D\<lparr>Bytes := drop n (Bytes D)\<rparr>, IsSDWA)) = Some (Next (Fail, MI', D', False)) \<and> Q' D' \<or>
        (case (Fail, MI, D, False) of (Res, MI, D, IsSDWA) \<Rightarrow>
            run_stmts cs (Res, MI, D\<lparr>Bytes := drop n (Bytes D)\<rparr>, IsSDWA)) = Some (Break (Fail, MI', D', False)))"
    by auto
qed

lemma fail_step_cong:
  "fail_step P Q Q' c \<Longrightarrow> (\<And>MI D. Q D \<Longrightarrow> c' (Fail, MI, D, False) = c (Fail, MI, D, False)) \<Longrightarrow>
   fail_step P Q Q' c'"
  unfolding fail_step_def by simp

lemma fail_step_Break:
  "(\<And>MI D. Q D \<Longrightarrow> c (Fail, MI, D, False) = Some (Break (Fail, MI, D, False))) \<Longrightarrow> fail_step P Q Q' c"
  unfolding fail_step_def by blast

lemma fail_step_Next:
  "(\<And>MI D. Q D \<Longrightarrow> c (Fail, MI, D, False) = Some (Next (Fail, MI, D, False))) \<Longrightarrow> fail_step P Q (\<lambda>D. True) c"
  unfolding fail_step_def by blast

lemma fail_step_decode64:
  assumes "no_match STI T A B" and "restores_Bytes T"
  shows "fail_step (kept T MI0) (\<lambda>D. Bytes D = B) (\<lambda>D. True) (decode64 STI T A)"
proof (cases "8 \<le> length B")
  case True
  have "fail_step (kept T MI0) (\<lambda>D. Bytes D = drop 8 B) (\<lambda>D. Bytes D = drop 8 B)
          (run_stmts (decode64_stmts STI T (Insn64 (read64 B 0)) A))"
    using True by (intro stmts64 no_match_quiet [OF assms] words_mem kept_init)
  then have "fail_step (kept T MI0) (\<lambda>D. Bytes D = drop 8 B) (\<lambda>D. True)
          (run_stmts (decode64_stmts STI T (Insn64 (read64 B 0)) A))"
    by (rule fail_step_weaken) simp
  then show ?thesis
    by (rule fail_step_cong [OF fail_step_enter]) (simp add: decode64_def True del: run_stmts.simps)
next
  case False
  then show ?thesis
    by (intro fail_step_Next) (simp add: decode64_def)
qed

lemma fail_step_decode64_late:
  assumes "no_match STI T A B" and "restores_Bytes T"
  shows "fail_step (kept T MI0) (\<lambda>D. Bytes D = drop 4 B) (\<lambda>D. True)
           (decode64_late STI T A (read32 B 0))"
proof (cases "8 \<le> length B")
  case True
  let ?W = "Insn64 (push_bit 32 (ucast (read32 (drop 4 B) 0)) OR ucast (read32 B 0))"
  let ?Q = "\<lambda>D. Bytes D = drop 4 (drop 4 B)"
  note q = no_match_quiet [OF assms words_mem(3) [OF True]]
  have "fail_step (kept T MI0) ?Q ?Q
          (run_stmts
            [stmt_if (hasFeature STI FeatureGFX940Insts)
               [try_break (tryDecodeInst T DecoderTableGFX94064 ?W A)],
             stmt_if (hasFeature STI FeatureGFX90AInsts)
               [try_break (tryDecodeInst T DecoderTableGFX90A64 ?W A)],
             try_break (tryDecodeInst T DecoderTableGFX864 ?W A),
             try_break (tryDecodeInst T DecoderTableAMDGPU64 ?W A),
             try_break (tryDecodeInst T DecoderTableGFX964 ?W A),
             try_break (tryDecodeInst T DecoderTableGFX1064 ?W A),
             try_break (tryDecodeInst2 T DecoderTableGFX1264 DecoderTableGFX12_FAKE1664 ?W A),
             try_break (tryDecodeInst2 T DecoderTableGFX1164 DecoderTableGFX11_FAKE1664 ?W A),
             (\<lambda>(Res, MI, D, IsSDWA).
                case tryDecodeInst T DecoderTableWMMAGFX1164 ?W A MI D of
                  (Res', MI', D') \<Rightarrow> Some (Next (Res', MI', D', IsSDWA)))])"
    by (intro fail_steps q)
  then have "fail_step (kept T MI0) (\<lambda>D. Bytes D = drop 4 (drop 4 B)) (\<lambda>D. True)
          (run_stmts
            [stmt_if (hasFeature STI FeatureGFX940Insts)
               [try_break (tryDecodeInst T DecoderTableGFX94064 ?W A)],
             stmt_if (hasFeature STI FeatureGFX90AInsts)
               [try_break (tryDecodeInst T DecoderTableGFX90A64 ?W A)],
             try_break (tryDecodeInst T DecoderTableGFX864 ?W A),
             try_break (tryDecodeInst T DecoderTableAMDGPU64 ?W A),
             try_break (tryDecodeInst T DecoderTableGFX964 ?W A),
             try_break (tryDecodeInst T DecoderTableGFX1064 ?W A),
             try_break (tryDecodeInst2 T DecoderTableGFX1264 DecoderTableGFX12_FAKE1664 ?W A),
             try_break (tryDecodeInst2 T DecoderTableGFX1164 DecoderTableGFX11_FAKE1664 ?W A),
             (\<lambda>(Res, MI, D, IsSDWA).
                case tryDecodeInst T DecoderTableWMMAGFX1164 ?W A MI D of
                  (Res', MI', D') \<Rightarrow> Some (Next (Res', MI', D', IsSDWA)))])"
    by (rule fail_step_weaken) simp
  then have fs: "fail_step (kept T MI0) (\<lambda>D. Bytes D = drop 4 (drop 4 B)) (\<lambda>D. True)
          (run_stmts
            [stmt_if (hasFeature STI FeatureGFX940Insts)
               [try_break (tryDecodeInst T DecoderTableGFX94064 ?W A)],
             stmt_if (hasFeature STI FeatureGFX90AInsts)
               [try_break (tryDecodeInst T DecoderTableGFX90A64 ?W A)],
             try_break (tryDecodeInst T DecoderTableGFX864 ?W A),
             try_break (tryDecodeInst T DecoderTableAMDGPU64 ?W A),
             try_break (tryDecodeInst T DecoderTableGFX964 ?W A),
             try_break (tryDecodeInst T DecoderTableGFX1064 ?W A),
             try_break (tryDecodeInst2 T DecoderTableGFX1264 DecoderTableGFX12_FAKE1664 ?W A),
             try_break (tryDecodeInst2 T DecoderTableGFX1164 DecoderTableGFX11_FAKE1664 ?W A),
             (\<lambda>(Res, MI, D, IsSDWA).
                case tryDecodeInst T DecoderTableWMMAGFX1164 ?W A MI D of
                  (Res', MI', D') \<Rightarrow> Some (Next (Res', MI', D', IsSDWA)))])" .
  have n: "\<not> length B - 4 < 4"
    using True by arith
  show ?thesis
    by (rule fail_step_cong [OF fail_step_enter [OF fs]])
       (simp add: decode64_late_def Let_def n del: run_stmts.simps)
next
  case False
  then have "length B - 4 < 4"
    by arith
  then show ?thesis
    by (intro fail_step_Break) (simp add: decode64_late_def)
qed

lemma fail_step_decode32:
  assumes "no_match STI T A B" and "restores_Bytes T"
  shows "fail_step (kept T MI0) (\<lambda>D. Bytes D = B) (\<lambda>D. True) (decode32 STI T A)"
proof (cases "4 \<le> length B")
  case True
  let ?W = "Insn32 (read32 B 0)"
  let ?Q = "\<lambda>D. Bytes D = drop 4 B"
  note q = no_match_quiet [OF assms words_mem(4) [OF True]]
  have "fail_step (kept T MI0) ?Q (\<lambda>D. True)
          (run_stmts
            [try_break (tryDecodeInst T DecoderTableGFX832 ?W A),
             try_break (tryDecodeInst T DecoderTableAMDGPU32 ?W A),
             try_break (tryDecodeInst T DecoderTableGFX932 ?W A),
             stmt_if (hasFeature STI FeatureGFX90AInsts)
               [try_break (tryDecodeInst T DecoderTableGFX90A32 ?W A)],
             stmt_if (hasFeature STI FeatureGFX10_BEncoding)
               [try_break (tryDecodeInst T DecoderTableGFX10_B32 ?W A)],
             try_break (tryDecodeInst T DecoderTableGFX1032 ?W A),
             try_break (tryDecodeInst2 T DecoderTableGFX1132 DecoderTableGFX11_FAKE1632 ?W A),
             try_break (tryDecodeInst2 T DecoderTableGFX1232 DecoderTableGFX12_FAKE1632 ?W A),
             decode64_late STI T A (read32 B 0)])"
    apply (rule fail_step_Cons [where ?Q1.0 = ?Q], intro fail_steps q)+
    apply (rule fail_step_Cons [OF fail_step_decode64_late [OF assms]])
    apply (rule fail_step_weaken [OF fail_step_Nil])
    apply simp
    done
  then have fs: "fail_step (kept T MI0) ?Q (\<lambda>D. True)
          (run_stmts
            [try_break (tryDecodeInst T DecoderTableGFX832 ?W A),
             try_break (tryDecodeInst T DecoderTableAMDGPU32 ?W A),
             try_break (tryDecodeInst T DecoderTableGFX932 ?W A),
             stmt_if (hasFeature STI FeatureGFX90AInsts)
               [try_break (tryDecodeInst T DecoderTableGFX90A32 ?W A)],
             stmt_if (hasFeature STI FeatureGFX10_BEncoding)
               [try_break (tryDecodeInst T DecoderTableGFX10_B32 ?W A)],
             try_break (tryDecodeInst T DecoderTableGFX1032 ?W A),
             try_break (tryDecodeInst2 T DecoderTableGFX1132 DecoderTableGFX11_FAKE1632 ?W A),
             try_break (tryDecodeInst2 T DecoderTableGFX1232 DecoderTableGFX12_FAKE1632 ?W A),
             decode64_late STI T A (read32 B 0)])" .
  have n: "\<not> length B < 4"
    using True by arith
  show ?thesis
    by (rule fail_step_cong [OF fail_step_enter [OF fs]])
       (simp add: decode32_def Let_def n del: run_stmts.simps)
next
  case False
  then have "length B < 4"
    by arith
  then show ?thesis
    by (intro fail_step_Break) (simp add: decode32_def)
qed

lemma cascade_no_match:
  assumes "no_match STI T A (take M Bytes_arg)" and "restores_Bytes T"
  shows "\<exists>MI' D'. kept T MI MI' \<and>
           getInstruction_cascade STI T Bytes_arg M A MI D = Some (Fail, MI', D', False)"
proof -
  let ?cs = "[decode96 STI T A, reinit_Bytes Bytes_arg M, decode64 STI T A,
              reinit_Bytes Bytes_arg M, decode32 STI T A]"
  have "fail_step (kept T MI) (\<lambda>D. Bytes D = take M Bytes_arg) (\<lambda>D. True) (run_stmts ?cs)"
    apply (rule fail_step_Cons [OF fail_step_decode96 [OF assms]])
    apply (rule fail_step_Cons [OF fail_step_reinit])
    apply (rule fail_step_Cons [OF fail_step_decode64 [OF assms]])
    apply (rule fail_step_Cons [OF fail_step_reinit])
    apply (rule fail_step_Cons [OF fail_step_decode32 [OF assms]])
    apply (rule fail_step_Nil)
    done
  moreover have "kept T MI MI" "Bytes (D\<lparr>Bytes := take M Bytes_arg\<rparr>) = take M Bytes_arg"
    by (simp_all add: kept_def)
  ultimately obtain MI' D' where "kept T MI MI'"
    "run_stmts ?cs (Fail, MI, D\<lparr>Bytes := take M Bytes_arg\<rparr>, False) = Some (Next (Fail, MI', D', False)) \<or>
     run_stmts ?cs (Fail, MI, D\<lparr>Bytes := take M Bytes_arg\<rparr>, False) = Some (Break (Fail, MI', D', False))"
    unfolding fail_step_def by blast
  then show ?thesis
    unfolding getInstruction_cascade_def by auto
qed

lemma fixups_Fail:
  "getInstruction_fixups STI T IsSDWA (Fail, MI, D) =
     map_option (\<lambda>MI'. (Fail, MI', D)) (post_vdst_in T MI)"
  by (cases "post_vdst_in T MI")
     (simp_all add: getInstruction_fixups_def post_rest_def post_MAC_def post_DS_def post_CPol_def
       post_TFE_def post_SWZ_def post_MIMG_def post_if_def post_ImmLit_def truthy_def Let_def)


lemma post_vdst_in_none:
  "getNamedOperandIdx T (Opcode MI) OpName_vdst_in = - 1 \<Longrightarrow> post_vdst_in T MI = Some MI"
  by (simp add: post_vdst_in_def)

text \<open>
  Claim C1. \<^verbatim>\<open>getInstruction\<close> on a window of at least one byte that no table matches, with
  a table lookup that restores \<^verbatim>\<open>Bytes\<close> when it fails: whenever the call returns, the
  status is \<open>Fail\<close> and \<^verbatim>\<open>Size\<close> is \<open>min 4 (length Bytes_arg)\<close>, which is not 0. And the
  call does return, with that status and size, when moreover a failed lookup leaves the
  instruction alone and neither the caller's opcode nor opcode 0 has the operand
  \<^verbatim>\<open>vdst_in\<close>: lines 796-810 are not guarded by \<^verbatim>\<open>Res\<close> and read operands of the
  instruction.
\<close>

theorem getInstruction_forward_progress:
  assumes "1 \<le> length Bytes_arg"
    and "no_match STI T Address (take (min (TargetMaxInstBytes T) (length Bytes_arg)) Bytes_arg)"
    and "restores_Bytes T"
  shows "(\<forall>Res Size MI' D'. getInstruction STI T MI D Bytes_arg Address = Some (Res, Size, MI', D') \<longrightarrow>
            Res = Fail \<and> Size = min 4 (length Bytes_arg) \<and> Size \<noteq> 0) \<and>
         (leaves_MI T \<and> getNamedOperandIdx T (Opcode MI) OpName_vdst_in = - 1 \<and>
          getNamedOperandIdx T 0 OpName_vdst_in = - 1 \<longrightarrow>
            (\<exists>MI' D'. getInstruction STI T MI D Bytes_arg Address =
                        Some (Fail, min 4 (length Bytes_arg), MI', D')))"
proof -
  let ?M = "min (TargetMaxInstBytes T) (length Bytes_arg)"
  obtain MI0 D0 where k: "kept T MI MI0"
    and c: "getInstruction_cascade STI T Bytes_arg ?M Address MI D = Some (Fail, MI0, D0, False)"
    using cascade_no_match [OF assms(2,3)] by blast
  have g: "getInstruction STI T MI D Bytes_arg Address =
             map_option (\<lambda>MI'. (Fail, min 4 (length Bytes_arg), MI', D0)) (post_vdst_in T MI0)"
    by (cases "post_vdst_in T MI0")
       (simp_all add: getInstruction_def Let_def c fixups_Fail truthy_def)
  have "leaves_MI T \<and> getNamedOperandIdx T (Opcode MI) OpName_vdst_in = - 1 \<and>
          getNamedOperandIdx T 0 OpName_vdst_in = - 1 \<longrightarrow> post_vdst_in T MI0 = Some MI0"
    using k by (auto simp: kept_def MCInst_init_def intro!: post_vdst_in_none)
  then show ?thesis
    using assms(1) by (auto simp: g)
qed

lemma T_toy_sel:
  "tryDecodeInst T_toy = toy_tryDecodeInst" "getNamedOperandIdx T_toy = toy_idx"
  "TargetMaxInstBytes T_toy = 20"
  by (simp_all add: T_toy_def)

lemma toy_Fail:
  "fst (toy_tryDecodeInst Table W A MI D) = Fail \<Longrightarrow> toy_tryDecodeInst Table W A MI D = (Fail, MI, D)"
  by (auto simp: toy_tryDecodeInst_def split: InsnWord.splits if_splits)

lemma toy_restores_Bytes: "restores_Bytes T_toy"
  by (simp add: restores_Bytes_def T_toy_sel toy_Fail)

lemma toy_leaves_MI: "leaves_MI T_toy"
  by (simp add: leaves_MI_def T_toy_sel toy_Fail)

lemma toy_no_table:
  "\<not> toy_is_vop1 (lo_dword W) \<Longrightarrow> \<not> toy_is_mimg (lo_dword W) \<Longrightarrow>
   toy_tryDecodeInst Table W A MI D = (Fail, MI, D)"
  by (auto simp: toy_tryDecodeInst_def lo_dword_def split: InsnWord.splits)

lemma toy_unknown_no_match:
  "no_match STI_gfx1030 T_toy 0 (take (min (TargetMaxInstBytes T_toy) (length toy_unknown)) toy_unknown)"
proof -
  have "list_all (\<lambda>W. \<not> toy_is_vop1 (lo_dword W) \<and> \<not> toy_is_mimg (lo_dword W))
          (cascade_words STI_gfx1030 (take (min (TargetMaxInstBytes T_toy) (length toy_unknown)) toy_unknown))"
    by code_simp
  then show ?thesis
    by (auto simp: no_match_def list_all_iff T_toy_sel(1) toy_no_table)
qed

text \<open>Eight bytes \<^verbatim>\<open>0xFF\<close> on GFX10.3 with the small tables: \<open>Fail\<close> and four bytes.\<close>

theorem getInstruction_forward_progress_witness:
  "1 \<le> length toy_unknown \<and>
   no_match STI_gfx1030 T_toy 0
     (take (min (TargetMaxInstBytes T_toy) (length toy_unknown)) toy_unknown) \<and>
   restores_Bytes T_toy \<and> leaves_MI T_toy \<and>
   (\<exists>MI' D'. getInstruction STI_gfx1030 T_toy MCInst_init Disasm_init toy_unknown 0 =
               Some (Fail, 4, MI', D'))"
proof -
  have l: "1 \<le> length toy_unknown" "min 4 (length toy_unknown) = 4"
    by (simp_all add: toy_unknown_def)
  have i: "getNamedOperandIdx T_toy (Opcode MCInst_init) OpName_vdst_in = - 1"
    "getNamedOperandIdx T_toy 0 OpName_vdst_in = - 1"
    by (simp_all add: T_toy_sel toy_idx_def MCInst_init_def)
  from getInstruction_forward_progress [OF l(1) toy_unknown_no_match toy_restores_Bytes,
      of MCInst_init Disasm_init]
  show ?thesis
    using l toy_unknown_no_match toy_restores_Bytes toy_leaves_MI i by simp
qed


subsection \<open>The instruction decoder: NSA address operands\<close>






subsection \<open>The instruction decoder: DPP8 matches that are not valid\<close>






subsection \<open>The instruction decoder: \<^verbatim>\<open>convertMIMGInst\<close> without a rewrite\<close>

lemma convertMIMGInst_no_variant:
  assumes "getMIMGInfo T (Opcode MI) = Some Info"
    and "getMIMGOpcode T (BaseOpcode Info) (MIMGEnc Info) DstSize AddrSize = - 1"
  shows "convertMIMGInst_rewrite STI T MI DstSize AddrSize IsNSA IsPartialNSA = Some (Success, MI)"
  using assms by (simp add: convertMIMGInst_rewrite_def Let_def)

text \<open>
  Claim C5. \<^verbatim>\<open>convertMIMGInst\<close> arrives at line 1072 with the sizes \<open>DstSize\<close> and
  \<open>AddrSize\<close>. When the pair is the one of the opcode (\<^verbatim>\<open>VDataDwords\<close>, \<^verbatim>\<open>VAddrDwords\<close>),
  and also when it is another pair for which \<^verbatim>\<open>getMIMGOpcode\<close> has no opcode, the result
  is \<open>Success\<close> with the instruction as it was given: the same opcode and the same
  operands.
\<close>

theorem convertMIMGInst_unchanged:
  assumes "convertMIMGInst_sizes STI T MI = Some (Inr (DstSize, AddrSize, IsNSA, IsPartialNSA))"
    and "getMIMGInfo T (Opcode MI) = Some Info"
    and "(DstSize = VDataDwords Info \<and> AddrSize = VAddrDwords Info) \<or>
         getMIMGOpcode T (BaseOpcode Info) (MIMGEnc Info) DstSize AddrSize = - 1"
  shows "convertMIMGInst STI T MI = Some (Success, MI)"
  using assms by (auto simp: convertMIMGInst_def convertMIMGInst_no_variant)

text \<open>The image load of the small tables with \<^verbatim>\<open>dmask\<close> 1, whose sizes are those of the
  opcode, and with \<^verbatim>\<open>dmask\<close> 15, for whose sizes there is no opcode.\<close>

theorem convertMIMGInst_unchanged_witness:
  "convertMIMGInst_sizes STI_gfx1030 T_toy (toy_image_load 1) = Some (Inr (1, 1, False, False)) \<and>
   convertMIMGInst_sizes STI_gfx1030 T_toy (toy_image_load 15) = Some (Inr (4, 1, False, False)) \<and>
   getMIMGInfo T_toy 1 = Some toy_image_load_info \<and>
   getMIMGOpcode T_toy 0 MIMGEncGfx10Default 4 1 = - 1 \<and>
   convertMIMGInst STI_gfx1030 T_toy (toy_image_load 1) = Some (Success, toy_image_load 1) \<and>
   convertMIMGInst STI_gfx1030 T_toy (toy_image_load 15) = Some (Success, toy_image_load 15)"
proof -
  have s1: "convertMIMGInst_sizes STI_gfx1030 T_toy (toy_image_load 1) = Some (Inr (1, 1, False, False))"
    by code_simp
  have s2: "convertMIMGInst_sizes STI_gfx1030 T_toy (toy_image_load 15) = Some (Inr (4, 1, False, False))"
    by code_simp
  have i: "getMIMGInfo T_toy (Opcode (toy_image_load d)) = Some toy_image_load_info" for d
    by (simp add: T_toy_def toy_image_load_def toy_image_load_info_def)
  have e: "(1 :: nat) = VDataDwords toy_image_load_info \<and> (1 :: nat) = VAddrDwords toy_image_load_info"
    by (simp add: toy_image_load_info_def)
  have n: "getMIMGOpcode T_toy (BaseOpcode toy_image_load_info) (MIMGEnc toy_image_load_info) 4 1 = - 1"
    by (simp add: T_toy_def toy_image_load_info_def)
  from convertMIMGInst_unchanged [OF s1 i disjI1, OF e]
    convertMIMGInst_unchanged [OF s2 i disjI2, OF n]
  show ?thesis
    using s1 s2 i [of 1] n by (simp add: toy_image_load_def toy_image_load_info_def)
qed



end
